theory Spec2Isabelle
  imports Complex_Main "HOL-Library.Word"
begin

unbundle bit_operations_syntax

section \<open>Common conventions\<close>

text \<open>
  The development embeds the topology-construction code of
  \<^verbatim>\<open>gazebo/physics/simbody/SimbodyPhysics.cc\<close> and the stop setters of
  \<^verbatim>\<open>gazebo/physics/bullet/BulletSliderJoint.cc\<close>.

  A C++ \<^verbatim>\<open>double\<close> is modelled as a \<^typ>\<open>real\<close>: the code embedded here copies
  such values, compares them and divides by constants; no statement below depends on
  rounding.  Console output (\<^verbatim>\<open>gzerr\<close>, \<^verbatim>\<open>gzwarn\<close>, \<^verbatim>\<open>gzdbg\<close>) is a list of
  lines, each with the stream it was written to.
\<close>

datatype channel = Gzerr | Gzwarn | Gzdbg

type_synonym console = "(channel \<times> string) list"

section \<open>BulletSliderJoint: the stop setters\<close>

text \<open>
  The native \<^verbatim>\<open>btSliderConstraint\<close>; only the two linear limits are written by the
  functions embedded here.
\<close>

record btSliderConstraint =
  lowerLinLimit :: real
  upperLinLimit :: real

text \<open>
  A \<^verbatim>\<open>BulletSliderJoint\<close>: the stop values stored by the generic \<^verbatim>\<open>Joint\<close> base
  class per axis index, the pointer \<^verbatim>\<open>bulletSlider\<close> (\<^verbatim>\<open>NULL\<close> until \<^verbatim>\<open>Init\<close> has
  created the constraint) and the console.
\<close>

record BulletSliderJoint =
  lowerLimit :: "nat \<Rightarrow> real"
  upperLimit :: "nat \<Rightarrow> real"
  bulletSlider :: "btSliderConstraint option"
  bulletConsole :: console

text \<open>
  Modelled from the spec: \<^verbatim>\<open>Joint::SetHighStop\<close> and \<^verbatim>\<open>Joint::SetLowStop\<close> of
  \<^verbatim>\<open>gazebo/physics/Joint.cc\<close>, which is not among the sources.  They update the generic
  joint's stored stop value of the given axis.
\<close>

definition Joint_SetHighStop :: "nat \<Rightarrow> real \<Rightarrow> BulletSliderJoint \<Rightarrow> BulletSliderJoint" where
  "Joint_SetHighStop index angle j = j\<lparr>upperLimit := (upperLimit j)(index := angle)\<rparr>"

definition Joint_SetLowStop :: "nat \<Rightarrow> real \<Rightarrow> BulletSliderJoint \<Rightarrow> BulletSliderJoint" where
  "Joint_SetLowStop index angle j = j\<lparr>lowerLimit := (lowerLimit j)(index := angle)\<rparr>"

text \<open>
  \<^verbatim>\<open>BulletSliderJoint::SetHighStop\<close> (lines 258-272).  The index argument is unused:
  the base class is always called with axis 0.  The result is the returned flag and the
  joint after the call.
\<close>

definition SetHighStop :: "nat \<Rightarrow> real \<Rightarrow> BulletSliderJoint \<Rightarrow> bool \<times> BulletSliderJoint" where
  "SetHighStop index angle this =
     (let this1 = Joint_SetHighStop 0 angle this in
      case bulletSlider this1 of
        Some slider \<Rightarrow>
          (True, this1\<lparr>bulletSlider := Some (slider\<lparr>upperLinLimit := angle\<rparr>)\<rparr>)
      | None \<Rightarrow>
          (False, this1\<lparr>bulletConsole := bulletConsole this1 @
             [(Gzerr, ''bulletSlider not yet created.\<newline>'')]\<rparr>))"

text \<open>\<^verbatim>\<open>BulletSliderJoint::SetLowStop\<close> (lines 275-289).\<close>

definition SetLowStop :: "nat \<Rightarrow> real \<Rightarrow> BulletSliderJoint \<Rightarrow> bool \<times> BulletSliderJoint" where
  "SetLowStop index angle this =
     (let this1 = Joint_SetLowStop 0 angle this in
      case bulletSlider this1 of
        Some slider \<Rightarrow>
          (True, this1\<lparr>bulletSlider := Some (slider\<lparr>lowerLinLimit := angle\<rparr>)\<rparr>)
      | None \<Rightarrow>
          (False, this1\<lparr>bulletConsole := bulletConsole this1 @
             [(Gzerr, ''bulletSlider not yet created.\<newline>'')]\<rparr>))"

text \<open>
  Two example joints with both stops 0: one whose constraint has not been created, one
  whose constraint exists with both limits 0.
\<close>

definition slider_joint_new :: BulletSliderJoint where
  "slider_joint_new =
     \<lparr>lowerLimit = (\<lambda>_. 0), upperLimit = (\<lambda>_. 0), bulletSlider = None, bulletConsole = []\<rparr>"

definition slider_joint_ready :: BulletSliderJoint where
  "slider_joint_ready =
     \<lparr>lowerLimit = (\<lambda>_. 0), upperLimit = (\<lambda>_. 0),
      bulletSlider = Some \<lparr>lowerLinLimit = 0, upperLinLimit = 0\<rparr>, bulletConsole = []\<rparr>"

section \<open>Values of the scene description and of the solver\<close>

text \<open>
  The scene's pose types (\<^verbatim>\<open>ignition::math\<close>): a vector, a quaternion \<open>w x y z\<close> and a
  pose made of a position and a rotation.
\<close>

datatype Vector3d = Vector3d real real real

datatype Quaterniond = Quaterniond real real real real

datatype Pose3d = Pose3d Vector3d Quaterniond

text \<open>
  The solver's value types (\<^verbatim>\<open>SimTK\<close>).  The solver library is not part of the
  repository, so its values are kept as the expressions the code builds: one constructor
  for each library constructor or operator that the embedded code uses.
  \<open>Transform_R X\<close> is \<^verbatim>\<open>X.R()\<close>, \<open>Transform_p X\<close> is \<^verbatim>\<open>X.p()\<close>, \<open>Rotation_inv R\<close> is
  \<^verbatim>\<open>~R\<close>, \<open>Rotation_mul A B\<close> is \<^verbatim>\<open>A*B\<close>, and likewise for transforms.
\<close>

datatype CoordinateAxis = XAxis | YAxis | ZAxis

datatype Quaternion = Quaternion real real real real

datatype Vec3 =
    Vec3 real real real
  | Vec3_div Vec3 real
  | Transform_p Transform
and UnitVec3 =
    UnitVec3 Vec3
  | UnitVec3_neg UnitVec3
and Rotation =
    Rotation_quat Quaternion
  | Rotation_axis UnitVec3 CoordinateAxis
  | Rotation_axes UnitVec3 CoordinateAxis UnitVec3 CoordinateAxis
  | Rotation_angle real CoordinateAxis
  | Rotation_mul Rotation Rotation
  | Rotation_inv Rotation
  | Transform_R Transform
and Transform =
    Transform_identity
  | Transform Rotation Vec3
  | Transform_rot Rotation
  | Transform_inv Transform
  | Transform_mul Transform Transform

text \<open>\<^verbatim>\<open>SimbodyPhysics::Vector3ToVec3\<close> (lines 1297-1300).\<close>

fun Vector3ToVec3 :: "Vector3d \<Rightarrow> Vec3" where
  "Vector3ToVec3 (Vector3d x y z) = Vec3 x y z"

text \<open>\<^verbatim>\<open>SimbodyPhysics::Pose2Transform\<close> (lines 1309-1317).\<close>

fun Pose2Transform :: "Pose3d \<Rightarrow> Transform" where
  "Pose2Transform (Pose3d (Vector3d x y z) (Quaterniond w qx qy qz)) =
     Transform (Rotation_quat (Quaternion w qx qy qz)) (Vec3 x y z)"

text \<open>
  \<^verbatim>\<open>ignition::math::equal\<close> with its default tolerance, and the length of a vector.
\<close>

definition math_equal :: "real \<Rightarrow> real \<Rightarrow> bool" where
  "math_equal a b = (\<bar>a - b\<bar> \<le> 1 / 1000000)"

fun Length :: "Vector3d \<Rightarrow> real" where
  "Length (Vector3d x y z) = sqrt (x * x + y * y + z * z)"

subsection \<open>Entity types\<close>

text \<open>
  The bit flags of \<^verbatim>\<open>physics::Base::EntityType\<close>.  The enumeration is declared in
  \<^verbatim>\<open>gazebo/physics/Base.hh\<close>, which is not among the sources; the values below are
  the ones of that header: one bit per flag.
\<close>

type_synonym EntityType = "32 word"

definition JOINT :: EntityType where "JOINT = 0x00000040"
definition BALL_JOINT :: EntityType where "BALL_JOINT = 0x00000080"
definition HINGE2_JOINT :: EntityType where "HINGE2_JOINT = 0x00000100"
definition HINGE_JOINT :: EntityType where "HINGE_JOINT = 0x00000200"
definition SLIDER_JOINT :: EntityType where "SLIDER_JOINT = 0x00000400"
definition SCREW_JOINT :: EntityType where "SCREW_JOINT = 0x00000800"
definition UNIVERSAL_JOINT :: EntityType where "UNIVERSAL_JOINT = 0x00001000"
definition SHAPE :: EntityType where "SHAPE = 0x00010000"
definition BOX_SHAPE :: EntityType where "BOX_SHAPE = 0x00020000"
definition CYLINDER_SHAPE :: EntityType where "CYLINDER_SHAPE = 0x00040000"
definition PLANE_SHAPE :: EntityType where "PLANE_SHAPE = 0x00800000"
definition SPHERE_SHAPE :: EntityType where "SPHERE_SHAPE = 0x01000000"

subsection \<open>Descriptors\<close>

text \<open>
  A handle of a mobilized body is its index in the solver's body table; body 0 is
  Ground; \<open>None\<close> is the empty handle of a default-constructed \<^verbatim>\<open>MobilizedBody\<close>.
  A contact clique id is \<open>None\<close> when default-constructed (not valid).
\<close>

type_synonym MobilizedBody = "nat option"

type_synonym ContactCliqueId = "nat option"

definition Ground :: MobilizedBody where
  "Ground = Some 0"

definition isValid :: "ContactCliqueId \<Rightarrow> bool" where
  "isValid c = (c \<noteq> None)"

text \<open>
  A collision shape: the object behind \<^verbatim>\<open>GetShape()\<close>, with the parameters the code
  reads after its \<^verbatim>\<open>dynamic_pointer_cast\<close> (normal; radius; radius and length; size).
\<close>

datatype Shape =
    PlaneShape Vector3d
  | SphereShape real
  | CylinderShape real real
  | BoxShape Vector3d
  | OtherShape

record Collision =
  GetShapeType :: EntityType
  GetShape :: Shape
  Collision_GetRelativePose :: Pose3d

text \<open>
  A link.  Links and joints live on a heap and are named by their address (a \<^typ>\<open>nat\<close>).
  \<open>isSimbodyLink\<close> tells whether \<^verbatim>\<open>dynamic_pointer_cast<SimbodyLink>\<close> succeeds.
\<close>

record SimbodyLink =
  Link_GetName :: string
  isSimbodyLink :: bool
  Link_GetMass :: real
  mustBeBaseLink :: bool
  GetSelfCollide :: bool
  GetCollisions :: "Collision list"
  Link_GetRelativePose :: Pose3d
  GetParentModel_GetWorldPose :: Pose3d
  masterMobod :: MobilizedBody
  slaveMobods :: "MobilizedBody list"
  slaveWelds :: "nat list"
  Link_physicsInitialized :: bool

text \<open>
  A joint.  \<open>isSimbodyJoint\<close> tells whether \<^verbatim>\<open>dynamic_pointer_cast<SimbodyJoint>\<close>
  succeeds; \<open>GetThreadPitch\<close> is \<open>None\<close> when the joint is not a
  \<^verbatim>\<open>SimbodyScrewJoint\<close>.  The getters indexed by an axis number are the ones of
  \<^verbatim>\<open>Joint\<close> and \<^verbatim>\<open>SimbodyJoint\<close>.
\<close>

record SimbodyJoint =
  Joint_GetName :: string
  isSimbodyJoint :: bool
  GetType :: EntityType
  GetParent :: "nat option"
  GetChild :: "nat option"
  mustBreakLoopHere :: bool
  xPA :: Transform
  xCB :: Transform
  defxAB :: Transform
  GetAxisFrameOffset :: "nat \<Rightarrow> Quaterniond"
  GetLocalAxis :: "nat \<Rightarrow> Vector3d"
  GetThreadPitch :: "real option"
  GetLowerLimit :: "nat \<Rightarrow> real"
  GetUpperLimit :: "nat \<Rightarrow> real"
  GetStopStiffness :: "nat \<Rightarrow> real"
  GetStopDissipation :: "nat \<Rightarrow> real"
  GetDamping :: "nat \<Rightarrow> real"
  GetStiffness :: "nat \<Rightarrow> real"
  GetSpringReferencePosition :: "nat \<Rightarrow> real"
  mobod :: MobilizedBody
  isReversed :: bool
  limitForce :: "nat \<Rightarrow> nat option"
  damper :: "nat \<Rightarrow> nat option"
  spring :: "nat \<Rightarrow> nat option"
  Joint_physicsInitialized :: bool

text \<open>
  A model: its address, whether it is static, and the addresses of its joints and
  links in declaration order.
\<close>

record Model =
  modelPtr :: nat
  IsStatic :: bool
  GetJoints :: "nat list"
  GetLinks :: "nat list"

text \<open>
  \<^verbatim>\<open>UniversalJoint<Joint>::AXIS_PARENT\<close> and \<^verbatim>\<open>AXIS_CHILD\<close>, declared in
  \<^verbatim>\<open>gazebo/physics/UniversalJoint.hh\<close> (not among the sources).
\<close>

definition AXIS_PARENT :: nat where "AXIS_PARENT = 0"
definition AXIS_CHILD :: nat where "AXIS_CHILD = 1"

subsection \<open>The multibody graph maker\<close>

text \<open>
  A mobilizer of the generated graph, with the queries the code makes of it.  The
  inboard body reference is \<open>None\<close> for the world.
\<close>

record Mobilizer =
  getJointTypeName :: string
  isSlaveMobilizer :: bool
  getInboardBodyRef :: "nat option"
  getOutboardMasterBodyRef :: nat
  getNumFragments :: nat
  isAddedBaseMobilizer :: bool
  getJointRef :: nat
  isReversedFromJoint :: bool

datatype Mass = Mass real | Mass_Infinity

text \<open>The calls the code makes on a \<^verbatim>\<open>SimTK::MultibodyGraphMaker\<close>.\<close>

datatype mbg_call =
    addJointType string nat bool
  | addBody string Mass bool "nat option"
  | addJoint string string string string bool nat
  | generateGraph

text \<open>
  The graph maker: its table of joint types (name, degrees of freedom, whether a good
  loop joint is available), the calls made on it in order, and the mobilizers of the
  generated graph.  A new graph maker has \<open>weld\<close> and \<open>free\<close> predefined with 0 and 6
  degrees of freedom (the note at line 588).
\<close>

record MultibodyGraphMaker =
  jointTypes :: "(string \<times> nat \<times> bool) list"
  mbgCalls :: "mbg_call list"
  mobilizers :: "Mobilizer list"

definition MultibodyGraphMaker_new :: MultibodyGraphMaker where
  "MultibodyGraphMaker_new =
     \<lparr>jointTypes = [(''weld'', 0, True), (''free'', 6, True)], mbgCalls = [], mobilizers = []\<rparr>"

subsection \<open>Calls into the solver\<close>

datatype MassProperties = GetEffectiveMassProps nat nat

datatype Direction = Forward | Reverse

datatype MobilizerKind =
    FreeJoint
  | ScrewJoint real
  | UniversalJoint
  | PinJoint
  | SliderJoint
  | BallJoint

datatype ContactMaterial = ContactMaterial real real real real real

datatype PolygonalMesh =
    createCylinderMesh CoordinateAxis real real nat
  | createBrickMesh Vec3 nat

datatype ContactGeometry = HalfSpace | Sphere real | TriangleMesh PolygonalMesh

text \<open>
  A contact surface: geometry, material, the thickness when the constructor is given
  one, and the cliques the surface has joined.
\<close>

record ContactSurface =
  geometry :: ContactGeometry
  material :: ContactMaterial
  thickness :: "real option"
  cliques :: "nat list"

definition joinClique :: "nat \<Rightarrow> ContactSurface \<Rightarrow> ContactSurface" where
  "joinClique c surface = surface\<lparr>cliques := cliques surface @ [c]\<rparr>"

text \<open>
  The calls that build the solver's system.  \<open>MobilizedBody kind parent X_IF mass X_OM d\<close>
  constructs a mobilized body of the given kind on the parent body with inboard frame
  \<open>X_IF\<close>, outboard frame \<open>X_OM\<close> and direction \<open>d\<close>.  The force elements name the
  mobilized body and the coordinate they act on.
\<close>

datatype solver_call =
    createNewContactClique
  | MobilizedBody MobilizerKind MobilizedBody Transform MassProperties Transform Direction
  | setDefaultTransform nat Transform
  | setDefaultRotation nat Rotation
  | MobilityLinearStop nat nat real real real real
  | MobilityLinearDamper nat nat real
  | MobilityLinearSpring nat nat real real
  | addContactSurface nat Transform ContactSurface
  | Constraint_Weld MobilizedBody MobilizedBody
  | setDefaultGravityVector Vec3
  | setDefaultMagnitude real

text \<open>
  Every call the rebuild makes outside this file's code, in the order made: the
  solver calls above, the state capture and restore of the joint and link descriptors
  (\<^verbatim>\<open>SaveSimbodyState\<close>, \<^verbatim>\<open>RestoreSimbodyState\<close>), and the calls on the system, the
  new state and the integrator.
\<close>

datatype call =
    Simbody solver_call
  | Joint_SaveSimbodyState nat
  | Link_SaveSimbodyState nat
  | realizeTopology
  | State_setTime real
  | Joint_RestoreSimbodyState nat
  | Link_RestoreSimbodyState nat
  | Integrator_initialize

datatype Stage =
    Stage_Empty
  | Stage_Topology
  | Stage_Model
  | Stage_Instance
  | Stage_Time
  | Stage_Position
  | Stage_Velocity
  | Stage_Dynamics
  | Stage_Acceleration
  | Stage_Report

text \<open>
  What the code cannot decide by itself is a parameter: whether a call throws (given
  the calls made before it) and with which message, the mobilizers that
  \<^verbatim>\<open>generateGraph\<close> produces for the calls made on the graph maker, the time of a
  default state, the stage of the integrator's state after \<^verbatim>\<open>integ->initialize\<close>, and
  \<^verbatim>\<open>ignition::math::Quaternion::RotateVector\<close>.
\<close>

record Native =
  throws :: "call list \<Rightarrow> call \<Rightarrow> string option"
  graphThrows :: "mbg_call list \<Rightarrow> mbg_call \<Rightarrow> string option"
  graphResult :: "mbg_call list \<Rightarrow> Mobilizer list"
  defaultTime :: real
  initializedStage :: Stage
  RotateVector :: "Quaterniond \<Rightarrow> Vector3d \<Rightarrow> Vector3d"

text \<open>
  How a function can end other than by returning: a \<^verbatim>\<open>std::exception\<close> of the solver
  library, a \<^verbatim>\<open>gazebo::common::Exception\<close> (\<^verbatim>\<open>gzthrow\<close>), a failed \<^verbatim>\<open>GZ_ASSERT\<close>, or
  the use of a null pointer or of an empty handle.
\<close>

datatype failure =
    StdException string
  | GzException string
  | AssertionFailed string
  | NullPointer string

subsection \<open>The physics engine's state\<close>

record SimbodyPhysics =
  console :: console
  calls :: "call list"
  nextMobod :: nat
  nextForce :: nat
  nextClique :: nat
  nextConstraint :: nat
  jointHeap :: "nat \<Rightarrow> SimbodyJoint"
  linkHeap :: "nat \<Rightarrow> SimbodyLink"
  GetGravity :: Vector3d
  contactMaterialStiffness :: real
  contactMaterialDissipation :: real
  contactMaterialStaticFriction :: real
  contactMaterialDynamicFriction :: real
  contactMaterialViscousFriction :: real
  integStage :: Stage
  integTime :: real
  simbodyPhysicsInitialized :: bool

text \<open>Sequencing with failure: the first failure ends the function.\<close>

definition seqE :: "failure + 'a \<Rightarrow> ('a \<Rightarrow> failure + 'b) \<Rightarrow> failure + 'b" where
  "seqE r f = (case r of Inl e \<Rightarrow> Inl e | Inr x \<Rightarrow> f x)"

fun foldE :: "('x \<Rightarrow> 's \<Rightarrow> failure + 's) \<Rightarrow> 'x list \<Rightarrow> 's \<Rightarrow> failure + 's" where
  "foldE f [] s = Inr s"
| "foldE f (x # xs) s = seqE (f x s) (foldE f xs)"

definition gzlog :: "channel \<Rightarrow> string \<Rightarrow> SimbodyPhysics \<Rightarrow> SimbodyPhysics" where
  "gzlog ch msg s = s\<lparr>console := console s @ [(ch, msg)]\<rparr>"

definition invoke :: "Native \<Rightarrow> call \<Rightarrow> SimbodyPhysics \<Rightarrow> failure + SimbodyPhysics" where
  "invoke N c s =
     (case throws N (calls s) c of
        Some e \<Rightarrow> Inl (StdException e)
      | None \<Rightarrow> Inr (s\<lparr>calls := calls s @ [c]\<rparr>))"

definition solver :: "Native \<Rightarrow> solver_call \<Rightarrow> SimbodyPhysics \<Rightarrow> failure + SimbodyPhysics" where
  "solver N c s = invoke N (Simbody c) s"

definition updJoint :: "nat \<Rightarrow> (SimbodyJoint \<Rightarrow> SimbodyJoint) \<Rightarrow> SimbodyPhysics \<Rightarrow> SimbodyPhysics" where
  "updJoint j f s = s\<lparr>jointHeap := (jointHeap s)(j := f (jointHeap s j))\<rparr>"

definition updLink :: "nat \<Rightarrow> (SimbodyLink \<Rightarrow> SimbodyLink) \<Rightarrow> SimbodyPhysics \<Rightarrow> SimbodyPhysics" where
  "updLink l f s = s\<lparr>linkHeap := (linkHeap s)(l := f (linkHeap s l))\<rparr>"

text \<open>The decimal digits of a number, as \<^verbatim>\<open>operator<<\<close> prints an unsigned int.\<close>

fun decimal :: "nat \<Rightarrow> string" where
  "decimal n =
     (if n < 10 then [''0123456789'' ! n]
      else decimal (n div 10) @ [''0123456789'' ! (n mod 10)])"

declare decimal.simps [simp del]

section \<open>SimbodyPhysics: building the multibody graph\<close>

text \<open>
  \<^verbatim>\<open>SimbodyPhysics::GetTypeString\<close> (lines 1090-1133): the first flag found in the
  chain of tests names the joint type; an unrecognised type is reported.  An argument
  that the source writes with a leading underscore is written with \<open>p_\<close> here.
\<close>

definition GetTypeString :: "EntityType \<Rightarrow> SimbodyPhysics \<Rightarrow> string \<times> SimbodyPhysics" where
  "GetTypeString p_type s =
     (if p_type AND BALL_JOINT \<noteq> 0 then (''ball'', s)
      else if p_type AND HINGE2_JOINT \<noteq> 0 then (''revolute2'', s)
      else if p_type AND HINGE_JOINT \<noteq> 0 then (''revolute'', s)
      else if p_type AND SLIDER_JOINT \<noteq> 0 then (''prismatic'', s)
      else if p_type AND SCREW_JOINT \<noteq> 0 then (''screw'', s)
      else if p_type AND UNIVERSAL_JOINT \<noteq> 0 then (''universal'', s)
      else (''UNRECOGNIZED'', gzlog Gzerr ''Unrecognized joint type\<newline>'' s))"

text \<open>A call on the graph maker: it throws if the library says so, else it is recorded.\<close>

definition mbg_invoke ::
  "Native \<Rightarrow> mbg_call \<Rightarrow> MultibodyGraphMaker \<Rightarrow> failure + MultibodyGraphMaker" where
  "mbg_invoke N c g =
     (case graphThrows N (mbgCalls g) c of
        Some e \<Rightarrow> Inl (StdException e)
      | None \<Rightarrow> Inr (g\<lparr>mbgCalls := mbgCalls g @ [c]\<rparr>))"

text \<open>
  One statement \<^verbatim>\<open>_mbgraph.addJointType(GetTypeString(t), dofs, good)\<close> of step 1
  (lines 590-600).
\<close>

definition registerJointType ::
  "Native \<Rightarrow> EntityType \<Rightarrow> nat \<Rightarrow> bool \<Rightarrow> MultibodyGraphMaker \<times> SimbodyPhysics
     \<Rightarrow> failure + MultibodyGraphMaker \<times> SimbodyPhysics" where
  "registerJointType N t dofs good gs =
     (case gs of (g, s) \<Rightarrow>
        (case GetTypeString t s of (name, s1) \<Rightarrow>
           seqE (mbg_invoke N (addJointType name dofs good) g)
             (\<lambda>g1. Inr (g1\<lparr>jointTypes := jointTypes g1 @ [(name, dofs, good)]\<rparr>, s1))))"

text \<open>The body of the loop over the links in step 2 (lines 608-621).\<close>

definition addLinkBody ::
  "Native \<Rightarrow> nat \<Rightarrow> MultibodyGraphMaker \<times> SimbodyPhysics
     \<Rightarrow> failure + MultibodyGraphMaker \<times> SimbodyPhysics" where
  "addLinkBody N li gs =
     (case gs of (g, s) \<Rightarrow>
        (let link = linkHeap s li in
         if isSimbodyLink link then
           seqE (mbg_invoke N
                   (addBody (Link_GetName link) (Mass (Link_GetMass link))
                      (mustBeBaseLink link) (Some li)) g)
             (\<lambda>g1. Inr (g1, s))
         else
           Inr (g, gzlog Gzerr
                  (''simbodyLink ['' @ Link_GetName link @ '']is not a SimbodyLinkPtr\<newline>'') s)))"

text \<open>The body of the loop over the joints in step 3 (lines 626-646).\<close>

definition addJointEdge ::
  "Native \<Rightarrow> nat \<Rightarrow> MultibodyGraphMaker \<times> SimbodyPhysics
     \<Rightarrow> failure + MultibodyGraphMaker \<times> SimbodyPhysics" where
  "addJointEdge N ji gs =
     (case gs of (g, s) \<Rightarrow>
        (let joint = jointHeap s ji in
         if isSimbodyJoint joint then
           (case GetChild joint of
              Some child \<Rightarrow>
                (case GetParent joint of
                   Some parent \<Rightarrow>
                     (case GetTypeString (GetType joint) s of (name, s1) \<Rightarrow>
                        seqE (mbg_invoke N
                                (addJoint (Joint_GetName joint) name
                                   (Link_GetName (linkHeap s parent))
                                   (Link_GetName (linkHeap s child))
                                   (mustBreakLoopHere joint) ji) g)
                          (\<lambda>g1. Inr (g1, s1)))
                 | None \<Rightarrow>
                     (case GetTypeString (GetType joint) s of (name, s1) \<Rightarrow>
                        seqE (mbg_invoke N
                                (addJoint (Joint_GetName joint) name ''world''
                                   (Link_GetName (linkHeap s child))
                                   (mustBreakLoopHere joint) ji) g)
                          (\<lambda>g1. Inr (g1, s1))))
            | None \<Rightarrow>
                Inr (g, gzlog Gzerr
                       (''simbodyJoint ['' @ Joint_GetName joint @
                        ''] does not have a valid child link, which is required\<newline>'') s))
         else
           Inr (g, gzlog Gzerr
                  (''simbodyJoint ['' @ Joint_GetName joint @ '']is not a SimbodyJointPtr\<newline>'') s)))"

text \<open>
  \<^verbatim>\<open>SimbodyPhysics::CreateMultibodyGraph\<close> (lines 584-650).  The result is the graph
  maker and the engine state after the call, or the failure that ended it.
\<close>

definition CreateMultibodyGraph ::
  "Native \<Rightarrow> MultibodyGraphMaker \<Rightarrow> Model \<Rightarrow> SimbodyPhysics
     \<Rightarrow> failure + MultibodyGraphMaker \<times> SimbodyPhysics" where
  "CreateMultibodyGraph N p_mbgraph p_model s =
     seqE (registerJointType N HINGE_JOINT 1 False (p_mbgraph, s)) (\<lambda>gs.
     seqE (registerJointType N HINGE2_JOINT 2 False gs) (\<lambda>gs.
     seqE (registerJointType N SLIDER_JOINT 1 False gs) (\<lambda>gs.
     seqE (registerJointType N UNIVERSAL_JOINT 2 False gs) (\<lambda>gs.
     seqE (registerJointType N SCREW_JOINT 1 False gs) (\<lambda>gs.
     seqE (registerJointType N BALL_JOINT 3 False gs) (\<lambda>gs.
     seqE (case gs of (g, s1) \<Rightarrow>
             seqE (mbg_invoke N (addBody ''world'' Mass_Infinity False None) g)
               (\<lambda>g1. Inr (g1, s1))) (\<lambda>gs.
     seqE (foldE (addLinkBody N) (GetLinks p_model) gs) (\<lambda>gs.
     seqE (foldE (addJointEdge N) (GetJoints p_model) gs) (\<lambda>gs.
     case gs of (g, s1) \<Rightarrow>
       seqE (mbg_invoke N generateGraph g)
         (\<lambda>g1. Inr (g1\<lparr>mobilizers := graphResult N (mbgCalls g1)\<rparr>, s1)))))))))))"

text \<open>\<^verbatim>\<open>SimbodyPhysics::InitSimbodySystem\<close> (lines 653-664).\<close>

definition InitSimbodySystem :: "Native \<Rightarrow> SimbodyPhysics \<Rightarrow> failure + SimbodyPhysics" where
  "InitSimbodySystem N s =
     (if \<not> math_equal (Length (GetGravity s)) 0 then
        solver N (setDefaultGravityVector (Vector3ToVec3 (GetGravity s))) s
      else solver N (setDefaultMagnitude 0) s)"

section \<open>SimbodyPhysics: collision attachment\<close>

text \<open>
  Attaching a contact surface to a mobilized body (\<^verbatim>\<open>_mobod.updBody().addContactSurface\<close>);
  an empty handle has no body.
\<close>

definition attachSurface ::
  "Native \<Rightarrow> MobilizedBody \<Rightarrow> Transform \<Rightarrow> ContactSurface \<Rightarrow> SimbodyPhysics
     \<Rightarrow> failure + SimbodyPhysics" where
  "attachSurface N p_mobod X surface s =
     (case p_mobod of
        None \<Rightarrow> Inl (NullPointer ''empty MobilizedBody handle'')
      | Some b \<Rightarrow> solver N (addContactSurface b X surface) s)"

text \<open>
  The statement \<^verbatim>\<open>if (addModelClique) surface.joinClique(_modelClique);\<close> that every
  branch of the switch makes on its local surface.
\<close>

definition joinModelClique :: "bool \<Rightarrow> ContactCliqueId \<Rightarrow> ContactSurface \<Rightarrow> ContactSurface" where
  "joinModelClique addModelClique p_modelClique surface =
     (if addModelClique then
        (case p_modelClique of Some c \<Rightarrow> joinClique c surface | None \<Rightarrow> surface)
      else surface)"

text \<open>
  The body of the loop over the collisions (lines 1168-1267): the switch on the shape
  type without the \<^verbatim>\<open>SHAPE\<close> flag.  A shape object that is not of the class the branch
  casts it to gives a null pointer.
\<close>

definition addCollision ::
  "Native \<Rightarrow> ContactMaterial \<Rightarrow> bool \<Rightarrow> MobilizedBody \<Rightarrow> ContactCliqueId \<Rightarrow> Collision
     \<Rightarrow> SimbodyPhysics \<Rightarrow> failure + SimbodyPhysics" where
  "addCollision N mat addModelClique p_mobod p_modelClique ci s =
     (let X_LC = Pose2Transform (Collision_GetRelativePose ci);
          shapeType = GetShapeType ci AND NOT SHAPE in
      if shapeType = PLANE_SHAPE then
        (case GetShape ci of
           PlaneShape n \<Rightarrow>
             seqE (attachSurface N Ground (Transform_rot (Rotation_angle (pi / 2) YAxis))
                     \<lparr>geometry = HalfSpace, material = mat, thickness = None, cliques = []\<rparr> s)
               (\<lambda>s1.
                  let normal = Vector3ToVec3 n;
                      R_XN = Rotation_axis (UnitVec3_neg (UnitVec3 normal)) XAxis;
                      surface = \<lparr>geometry = HalfSpace, material = mat, thickness = None,
                                 cliques = []\<rparr>
                  in attachSurface N p_mobod (Transform_rot R_XN)
                       (joinModelClique addModelClique p_modelClique surface) s1)
         | _ \<Rightarrow> Inl (NullPointer ''PlaneShape''))
      else if shapeType = SPHERE_SHAPE then
        (case GetShape ci of
           SphereShape r \<Rightarrow>
             attachSurface N p_mobod X_LC
               (joinModelClique addModelClique p_modelClique
                  \<lparr>geometry = Sphere r, material = mat, thickness = None, cliques = []\<rparr>) s
         | _ \<Rightarrow> Inl (NullPointer ''SphereShape''))
      else if shapeType = CYLINDER_SHAPE then
        (case GetShape ci of
           CylinderShape r len \<Rightarrow>
             attachSurface N p_mobod X_LC
               (joinModelClique addModelClique p_modelClique
                  \<lparr>geometry = TriangleMesh (createCylinderMesh ZAxis r (len / 2) 1),
                   material = mat, thickness = Some 1, cliques = []\<rparr>) s
         | _ \<Rightarrow> Inl (NullPointer ''CylinderShape''))
      else if shapeType = BOX_SHAPE then
        (case GetShape ci of
           BoxShape sz \<Rightarrow>
             attachSurface N p_mobod X_LC
               (joinModelClique addModelClique p_modelClique
                  \<lparr>geometry = TriangleMesh (createBrickMesh (Vec3_div (Vector3ToVec3 sz) 2) 6),
                   material = mat, thickness = Some 1, cliques = []\<rparr>) s
         | _ \<Rightarrow> Inl (NullPointer ''BoxShape''))
      else
        Inr (gzlog Gzerr
               (''Collision type ['' @ decimal (unat (GetShapeType ci)) @ ''] unimplemented\<newline>'') s))"

text \<open>\<^verbatim>\<open>SimbodyPhysics::AddCollisionsToLink\<close> (lines 1142-1268); the link is given by its address.\<close>

definition AddCollisionsToLink ::
  "Native \<Rightarrow> nat \<Rightarrow> MobilizedBody \<Rightarrow> ContactCliqueId \<Rightarrow> SimbodyPhysics
     \<Rightarrow> failure + SimbodyPhysics" where
  "AddCollisionsToLink N p_link p_mobod p_modelClique s =
     (let mat = ContactMaterial (contactMaterialStiffness s) (contactMaterialDissipation s)
                  (contactMaterialStaticFriction s) (contactMaterialDynamicFriction s)
                  (contactMaterialViscousFriction s);
          addModelClique = (isValid p_modelClique \<and> \<not> GetSelfCollide (linkHeap s p_link))
      in foldE (addCollision N mat addModelClique p_mobod p_modelClique)
           (GetCollisions (linkHeap s p_link)) s)"

text \<open>\<^verbatim>\<open>SimbodyPhysics::AddStaticModelToSimbodySystem\<close> (lines 667-685).\<close>

definition AddStaticModelToSimbodySystem ::
  "Native \<Rightarrow> Model \<Rightarrow> SimbodyPhysics \<Rightarrow> failure + SimbodyPhysics" where
  "AddStaticModelToSimbodySystem N p_model s =
     foldE (\<lambda>li s1.
              if isSimbodyLink (linkHeap s1 li) then
                seqE (AddCollisionsToLink N li Ground None s1)
                  (\<lambda>s2. Inr (updLink li (\<lambda>l. l\<lparr>masterMobod := Ground\<rparr>) s2))
              else
                Inr (gzlog Gzerr
                       (''simbodyLink ['' @ Link_GetName (linkHeap s1 li) @
                        '']is not a SimbodyLinkPtr\<newline>'') s1))
       (GetLinks p_model) s"

section \<open>SimbodyPhysics: mobilizer synthesis\<close>

text \<open>
  Constructing a mobilized body or a force element: the solver records it and hands
  back the next index of its table.
\<close>

definition newMobilizedBody ::
  "Native \<Rightarrow> MobilizerKind \<Rightarrow> MobilizedBody \<Rightarrow> Transform \<Rightarrow> MassProperties \<Rightarrow> Transform
     \<Rightarrow> Direction \<Rightarrow> SimbodyPhysics \<Rightarrow> failure + nat \<times> SimbodyPhysics" where
  "newMobilizedBody N kind parent X_IF massProps X_OM direction s =
     seqE (solver N (MobilizedBody kind parent X_IF massProps X_OM direction) s)
       (\<lambda>s1. Inr (nextMobod s1, s1\<lparr>nextMobod := Suc (nextMobod s1)\<rparr>))"

definition newForce ::
  "Native \<Rightarrow> solver_call \<Rightarrow> SimbodyPhysics \<Rightarrow> failure + nat \<times> SimbodyPhysics" where
  "newForce N c s =
     seqE (solver N c s) (\<lambda>s1. Inr (nextForce s1, s1\<lparr>nextForce := Suc (nextForce s1)\<rparr>))"

text \<open>
  The three statements that give axis \<open>nj\<close> of a joint its limit stop, its damper and its
  spring, and store their handles in the joint.  The source writes them out after the
  mobilizer in the screw branch (lines 832-855), in the loop of the universal branch
  (lines 882-909), in the revolute branch (lines 943-966) and in the prismatic branch
  (lines 984-1004).  The getters read fields that these statements do not write.
\<close>

definition attachAxisForces ::
  "Native \<Rightarrow> nat \<Rightarrow> nat \<Rightarrow> nat \<Rightarrow> SimbodyPhysics \<Rightarrow> failure + SimbodyPhysics" where
  "attachAxisForces N j mobod1 nj s =
     (let gzJoint = jointHeap s j;
          low = GetLowerLimit gzJoint nj;
          high = GetUpperLimit gzJoint nj
      in
      seqE (newForce N (MobilityLinearStop mobod1 nj (GetStopStiffness gzJoint nj)
                          (GetStopDissipation gzJoint nj) low high) s) (\<lambda>(f1, s1).
      seqE (newForce N (MobilityLinearDamper mobod1 nj (GetDamping gzJoint nj))
              (updJoint j (\<lambda>g. g\<lparr>limitForce := (limitForce g)(nj := Some f1)\<rparr>) s1)) (\<lambda>(f2, s2).
      seqE (newForce N (MobilityLinearSpring mobod1 nj (GetStiffness gzJoint nj)
                          (GetSpringReferencePosition gzJoint nj))
              (updJoint j (\<lambda>g. g\<lparr>damper := (damper g)(nj := Some f2)\<rparr>) s2)) (\<lambda>(f3, s3).
      Inr (updJoint j (\<lambda>g. g\<lparr>spring := (spring g)(nj := Some f3)\<rparr>) s3)))))"

text \<open>
  The branch of the loop body for a mobilizer that the graph maker added (lines
  741-773).  \<^verbatim>\<open>GZ_ASSERT\<close> is taken as compiled in.
\<close>

definition mobilizeAddedBase ::
  "Native \<Rightarrow> Mobilizer \<Rightarrow> MobilizedBody \<Rightarrow> MassProperties \<Rightarrow> SimbodyPhysics
     \<Rightarrow> failure + MobilizedBody \<times> SimbodyPhysics" where
  "mobilizeAddedBase N mob parentMobod massProps s =
     (let type = getJointTypeName mob;
          gzInb = getInboardBodyRef mob;
          gzOutb = getOutboardMasterBodyRef mob
      in
      if type \<noteq> ''free'' then Inl (AssertionFailed ''type is not 'free', not allowed.'')
      else if type = ''free'' then
        seqE (newMobilizedBody N FreeJoint parentMobod Transform_identity massProps
                Transform_identity Forward s) (\<lambda>(freeJoint, s1).
        let inboard_X_ML =
              (case gzInb of
                 None \<Rightarrow>
                   Transform_inv (Pose2Transform (GetParentModel_GetWorldPose (linkHeap s1 gzOutb)))
               | Some i \<Rightarrow> Pose2Transform (Link_GetRelativePose (linkHeap s1 i)));
            outboard_X_ML = Pose2Transform (Link_GetRelativePose (linkHeap s1 gzOutb))
        in
        seqE (solver N (setDefaultTransform freeJoint
                          (Transform_mul (Transform_inv inboard_X_ML) outboard_X_ML)) s1)
          (\<lambda>s2. Inr (Some freeJoint, s2)))
      else Inr (None, s))"

text \<open>
  The branch of the loop body for a mobilizer that corresponds to an input joint
  (lines 775-1026): the frames and the direction are chosen by the reversed flag, the
  mobilized body is built by the branch of the joint type, and at the end the handle
  and the flag are stored in the joint.
\<close>

definition mobilizeJoint ::
  "Native \<Rightarrow> Mobilizer \<Rightarrow> MobilizedBody \<Rightarrow> MassProperties \<Rightarrow> SimbodyPhysics
     \<Rightarrow> failure + MobilizedBody \<times> SimbodyPhysics" where
  "mobilizeJoint N mob parentMobod massProps s =
     (let type = getJointTypeName mob;
          j = getJointRef mob;
          gzJoint = jointHeap s j;
          reversed = isReversedFromJoint mob;
          X_IF0 = (if reversed then xCB gzJoint else xPA gzJoint);
          X_OM0 = (if reversed then xPA gzJoint else xCB gzJoint);
          direction = (if reversed then Reverse else Forward)
      in
      seqE
        (if type = ''free'' then
           seqE (newMobilizedBody N FreeJoint parentMobod X_IF0 massProps X_OM0 direction s)
             (\<lambda>(freeJoint, s1).
           seqE (solver N (setDefaultTransform freeJoint
                             (if reversed then Transform_inv (defxAB gzJoint)
                              else defxAB gzJoint)) s1)
             (\<lambda>s2. Inr (Some freeJoint, s2)))
         else if type = ''screw'' then
           (let axis = UnitVec3 (Vector3ToVec3
                         (RotateVector N (GetAxisFrameOffset gzJoint 0) (GetLocalAxis gzJoint 0)))
            in
            case GetThreadPitch gzJoint of
              None \<Rightarrow> Inl (NullPointer ''SimbodyScrewJoint'')
            | Some pitch0 \<Rightarrow>
                (let s0 = (if math_equal pitch0 0 then
                             gzlog Gzerr (''thread pitch should not be zero (joint is a slider?)'' @
                                          '' using pitch = 1.0e6\<newline>'') s
                           else s);
                     pitch = (if math_equal pitch0 0 then 1000000 else pitch0);
                     R_JZ = Rotation_axis axis ZAxis;
                     X_IF = Transform (Rotation_mul (Transform_R X_IF0) R_JZ) (Transform_p X_IF0);
                     X_OM = Transform (Rotation_mul (Transform_R X_OM0) R_JZ) (Transform_p X_OM0)
                 in
                 seqE (newMobilizedBody N (ScrewJoint (- 1 / pitch)) parentMobod X_IF massProps
                         X_OM direction s0) (\<lambda>(screwJoint, s1).
                 seqE (attachAxisForces N j screwJoint 0
                         (gzlog Gzdbg (''Setting limitForce[0] for ['' @ Joint_GetName gzJoint @
                                       '']\<newline>'') s1))
                   (\<lambda>s2. Inr (Some screwJoint, s2)))))
         else if type = ''universal'' then
           (let axis1 = UnitVec3 (Vector3ToVec3
                          (RotateVector N (GetAxisFrameOffset gzJoint 0)
                             (GetLocalAxis gzJoint AXIS_PARENT)));
                axis2 = UnitVec3 (Vector3ToVec3
                          (RotateVector N (GetAxisFrameOffset gzJoint 0)
                             (GetLocalAxis gzJoint AXIS_CHILD)));
                R_JF = Rotation_axes axis1 XAxis axis2 YAxis;
                X_IF = Transform (Rotation_mul (Transform_R X_IF0) R_JF) (Transform_p X_IF0);
                X_OM = Transform (Rotation_mul (Transform_R X_OM0) R_JF) (Transform_p X_OM0)
            in
            seqE (newMobilizedBody N UniversalJoint parentMobod X_IF massProps X_OM direction s)
              (\<lambda>(uJoint, s1).
            seqE (foldE (attachAxisForces N j uJoint) [0, 1] s1)
              (\<lambda>s2. Inr (Some uJoint, s2))))
         else if type = ''revolute'' then
           (let axis = UnitVec3 (Vector3ToVec3
                         (RotateVector N (GetAxisFrameOffset gzJoint 0) (GetLocalAxis gzJoint 0)));
                R_JZ = Rotation_axis axis ZAxis;
                X_IF = Transform (Rotation_mul (Transform_R X_IF0) R_JZ) (Transform_p X_IF0);
                X_OM = Transform (Rotation_mul (Transform_R X_OM0) R_JZ) (Transform_p X_OM0)
            in
            seqE (newMobilizedBody N PinJoint parentMobod X_IF massProps X_OM direction s)
              (\<lambda>(pinJoint, s1).
            seqE (attachAxisForces N j pinJoint 0 s1)
              (\<lambda>s2. Inr (Some pinJoint, s2))))
         else if type = ''prismatic'' then
           (let axis = UnitVec3 (Vector3ToVec3
                         (RotateVector N (GetAxisFrameOffset gzJoint 0) (GetLocalAxis gzJoint 0)));
                R_JX = Rotation_axis axis XAxis;
                X_IF = Transform (Rotation_mul (Transform_R X_IF0) R_JX) (Transform_p X_IF0);
                X_OM = Transform (Rotation_mul (Transform_R X_OM0) R_JX) (Transform_p X_OM0)
            in
            seqE (newMobilizedBody N SliderJoint parentMobod X_IF massProps X_OM direction s)
              (\<lambda>(sliderJoint, s1).
            seqE (attachAxisForces N j sliderJoint 0 s1)
              (\<lambda>s2. Inr (Some sliderJoint, s2))))
         else if type = ''ball'' then
           seqE (newMobilizedBody N BallJoint parentMobod X_IF0 massProps X_OM0 direction s)
             (\<lambda>(ballJoint, s1).
           seqE (solver N (setDefaultRotation ballJoint
                             (if reversed then Rotation_inv (Transform_R (defxAB gzJoint))
                              else Transform_R (defxAB gzJoint))) s1)
             (\<lambda>s2. Inr (Some ballJoint, s2)))
         else
           Inr (None, gzlog Gzerr (''Simbody joint type ['' @ type @ ''] not implemented.\<newline>'') s))
        (\<lambda>(mobod1, s1).
           Inr (mobod1, updJoint j (\<lambda>g. g\<lparr>mobod := mobod1, isReversed := reversed\<rparr>) s1)))"

text \<open>The body of the loop over the mobilizers of the graph (lines 706-1036).\<close>

definition addMobilizer ::
  "Native \<Rightarrow> ContactCliqueId \<Rightarrow> Mobilizer \<Rightarrow> SimbodyPhysics \<Rightarrow> failure + SimbodyPhysics" where
  "addMobilizer N modelClique mob s =
     (let isSlave = isSlaveMobilizer mob;
          gzInb = getInboardBodyRef mob;
          gzOutb = getOutboardMasterBodyRef mob;
          massProps = GetEffectiveMassProps gzOutb (getNumFragments mob);
          parentMobod = (case gzInb of None \<Rightarrow> Ground | Some i \<Rightarrow> masterMobod (linkHeap s i))
      in
      seqE (if isAddedBaseMobilizer mob then mobilizeAddedBase N mob parentMobod massProps s
            else mobilizeJoint N mob parentMobod massProps s) (\<lambda>(mobod1, s1).
      AddCollisionsToLink N gzOutb mobod1 modelClique
        (if isSlave then updLink gzOutb (\<lambda>l. l\<lparr>slaveMobods := slaveMobods l @ [mobod1]\<rparr>) s1
         else updLink gzOutb (\<lambda>l. l\<lparr>masterMobod := mobod1\<rparr>) s1)))"

text \<open>
  The body of the loop over the links in the welding pass (lines 1048-1057): one weld
  for each slave of the link.
\<close>

definition weldSlaves :: "Native \<Rightarrow> nat \<Rightarrow> SimbodyPhysics \<Rightarrow> failure + SimbodyPhysics" where
  "weldSlaves N lx s =
     (if \<not> isSimbodyLink (linkHeap s lx) then Inl (NullPointer ''SimbodyLink'')
      else
        foldE (\<lambda>slave s1.
                 seqE (solver N (Constraint_Weld (masterMobod (linkHeap s1 lx)) slave) s1)
                   (\<lambda>s2. Inr (updLink lx (\<lambda>l. l\<lparr>slaveWelds := slaveWelds l @ [nextConstraint s2]\<rparr>)
                                (s2\<lparr>nextConstraint := Suc (nextConstraint s2)\<rparr>))))
          (slaveMobods (linkHeap s lx)) s)"

text \<open>
  \<^verbatim>\<open>SimbodyPhysics::AddDynamicModelToSimbodySystem\<close> (lines 688-1088).  \<open>world\<close> is the
  list of models that \<^verbatim>\<open>this->world->GetModels()\<close> returns.
\<close>

definition AddDynamicModelToSimbodySystem ::
  "Native \<Rightarrow> Model list \<Rightarrow> MultibodyGraphMaker \<Rightarrow> SimbodyPhysics \<Rightarrow> failure + SimbodyPhysics" where
  "AddDynamicModelToSimbodySystem N world p_mbgraph s =
     seqE (solver N createNewContactClique s) (\<lambda>s1.
     seqE (foldE (addMobilizer N (Some (nextClique s1))) (mobilizers p_mbgraph)
             (s1\<lparr>nextClique := Suc (nextClique s1)\<rparr>)) (\<lambda>s2.
     foldE (\<lambda>mi. foldE (weldSlaves N) (GetLinks mi)) world s2))"

section \<open>SimbodyPhysics: rebuilding the system for a model\<close>

text \<open>
  The capture of the solver state before the rebuild (lines 268-292), for the joints
  and links of every model of the world but the one being built.  A descriptor that
  is not of the Simbody class gives a null pointer.
\<close>

definition saveJointState :: "Native \<Rightarrow> nat \<Rightarrow> SimbodyPhysics \<Rightarrow> failure + SimbodyPhysics" where
  "saveJointState N jx s =
     (if isSimbodyJoint (jointHeap s jx) then invoke N (Joint_SaveSimbodyState jx) s
      else Inl (NullPointer ''SimbodyJoint''))"

definition saveLinkState :: "Native \<Rightarrow> nat \<Rightarrow> SimbodyPhysics \<Rightarrow> failure + SimbodyPhysics" where
  "saveLinkState N lx s =
     (if isSimbodyLink (linkHeap s lx) then invoke N (Link_SaveSimbodyState lx) s
      else Inl (NullPointer ''SimbodyLink''))"

definition saveSimbodyStates ::
  "Native \<Rightarrow> Model list \<Rightarrow> Model \<Rightarrow> SimbodyPhysics \<Rightarrow> failure + SimbodyPhysics" where
  "saveSimbodyStates N world p_model s =
     foldE (\<lambda>mi s1.
              if modelPtr mi \<noteq> modelPtr p_model then
                seqE (foldE (saveJointState N) (GetJoints mi) s1)
                  (foldE (saveLinkState N) (GetLinks mi))
              else Inr s1)
       world s"

text \<open>The restore into the new state (lines 340-360), for every model of the world.\<close>

definition restoreJointState :: "Native \<Rightarrow> nat \<Rightarrow> SimbodyPhysics \<Rightarrow> failure + SimbodyPhysics" where
  "restoreJointState N jx s =
     (if isSimbodyJoint (jointHeap s jx) then invoke N (Joint_RestoreSimbodyState jx) s
      else Inl (NullPointer ''SimbodyJoint''))"

definition restoreLinkState :: "Native \<Rightarrow> nat \<Rightarrow> SimbodyPhysics \<Rightarrow> failure + SimbodyPhysics" where
  "restoreLinkState N lx s =
     (if isSimbodyLink (linkHeap s lx) then invoke N (Link_RestoreSimbodyState lx) s
      else Inl (NullPointer ''SimbodyLink''))"

definition restoreSimbodyStates ::
  "Native \<Rightarrow> Model list \<Rightarrow> SimbodyPhysics \<Rightarrow> failure + SimbodyPhysics" where
  "restoreSimbodyStates N world s =
     foldE (\<lambda>mi s1.
              seqE (foldE (restoreJointState N) (GetJoints mi) s1)
                (foldE (restoreLinkState N) (GetLinks mi)))
       world s"

text \<open>The body of the first \<^verbatim>\<open>try\<close> block (lines 298-313).\<close>

definition buildSimbodySystem ::
  "Native \<Rightarrow> Model list \<Rightarrow> Model \<Rightarrow> SimbodyPhysics \<Rightarrow> failure + SimbodyPhysics" where
  "buildSimbodySystem N world p_model s =
     (if IsStatic p_model then AddStaticModelToSimbodySystem N p_model s
      else
        seqE (CreateMultibodyGraph N MultibodyGraphMaker_new p_model s) (\<lambda>(mbgraph, s1).
        AddDynamicModelToSimbodySystem N world mbgraph s1))"

text \<open>
  \<^verbatim>\<open>catch(const std::exception& e) { gzthrow(prefix + e.what()); }\<close>: a solver exception
  is thrown again as a \<^verbatim>\<open>gazebo::common::Exception\<close> with the prefixed message; nothing
  else is caught.
\<close>

definition rethrow :: "string \<Rightarrow> failure + 'a \<Rightarrow> failure + 'a" where
  "rethrow prefix r =
     (case r of
        Inl (StdException e) \<Rightarrow> Inl (GzException (prefix @ e))
      | Inl other \<Rightarrow> Inl other
      | Inr x \<Rightarrow> Inr x)"

text \<open>The two loops that mark the links and joints of the model as initialized (lines 367-391).\<close>

definition markLink :: "nat \<Rightarrow> SimbodyPhysics \<Rightarrow> SimbodyPhysics" where
  "markLink li s =
     (if isSimbodyLink (linkHeap s li) then
        updLink li (\<lambda>l. l\<lparr>Link_physicsInitialized := True\<rparr>) s
      else gzlog Gzerr (''failed to cast link ['' @ Link_GetName (linkHeap s li) @
                        ''] as simbody link\<newline>'') s)"

definition markJoint :: "nat \<Rightarrow> SimbodyPhysics \<Rightarrow> SimbodyPhysics" where
  "markJoint ji s =
     (if isSimbodyJoint (jointHeap s ji) then
        updJoint ji (\<lambda>g. g\<lparr>Joint_physicsInitialized := True\<rparr>) s
      else gzlog Gzerr (''simbodyJoint ['' @ Joint_GetName (jointHeap s ji) @
                        '']is not a SimbodyJointPtr\<newline>'') s)"

text \<open>
  The statements of \<^verbatim>\<open>SimbodyPhysics::InitModel\<close> before the first \<^verbatim>\<open>try\<close> block (lines
  260-294): the values of \<^verbatim>\<open>stateTime\<close> and \<^verbatim>\<open>simbodyStateSaved\<close> after them, and the
  engine state.  The integrator's current state is read through \<open>integStage\<close> and
  \<open>integTime\<close>.
\<close>

definition saveBeforeRebuild ::
  "Native \<Rightarrow> Model list \<Rightarrow> Model \<Rightarrow> SimbodyPhysics
     \<Rightarrow> failure + real \<times> bool \<times> SimbodyPhysics" where
  "saveBeforeRebuild N world p_model s =
     (if integStage s \<noteq> Stage_Empty then
        seqE (saveSimbodyStates N world p_model s) (\<lambda>s1. Inr (integTime s, True, s1))
      else Inr (0, False, s))"

text \<open>
  \<^verbatim>\<open>SimbodyPhysics::InitModel\<close> (lines 257-394).  The new state is the default state
  that \<^verbatim>\<open>realizeTopology\<close> returns; after \<^verbatim>\<open>integ->initialize(state)\<close> the integrator
  holds it, with the time that was set.
\<close>

definition InitModel ::
  "Native \<Rightarrow> Model list \<Rightarrow> Model \<Rightarrow> SimbodyPhysics \<Rightarrow> failure + SimbodyPhysics" where
  "InitModel N world p_model s =
     seqE (saveBeforeRebuild N world p_model s) (\<lambda>(stateTime, simbodyStateSaved, s1).
     seqE (rethrow ''Simbody build EXCEPTION: '' (buildSimbodySystem N world p_model s1)) (\<lambda>s2.
     seqE (rethrow ''Simbody init EXCEPTION: '' (InitSimbodySystem N s2)) (\<lambda>s3.
     seqE (invoke N realizeTopology s3) (\<lambda>s4.
     seqE (if simbodyStateSaved then
             seqE (invoke N (State_setTime stateTime) s4) (restoreSimbodyStates N world)
           else Inr s4) (\<lambda>s5.
     seqE (invoke N Integrator_initialize s5) (\<lambda>s6.
     Inr ((fold markJoint (GetJoints p_model)
             (fold markLink (GetLinks p_model)
                (s6\<lparr>integStage := initializedStage N,
                    integTime := (if simbodyStateSaved then stateTime else defaultTime N)\<rparr>)))
          \<lparr>simbodyPhysicsInitialized := True\<rparr>)))))))"

section \<open>Predicates and example values used in the statements and proofs\<close>

fun adds_body_or_joint :: "mbg_call \<Rightarrow> bool" where
  "adds_body_or_joint (addBody n m b r) = True"
| "adds_body_or_joint (addJoint n t p c b r) = True"
| "adds_body_or_joint (addJointType n d b) = False"
| "adds_body_or_joint generateGraph = False"

text \<open>The joint that a call on the graph maker registers, if it registers one.\<close>

fun added_joint :: "mbg_call \<Rightarrow> nat option" where
  "added_joint (addJoint n t p c b r) = Some r"
| "added_joint (addBody n m b r) = None"
| "added_joint (addJointType n d b) = None"
| "added_joint generateGraph = None"

text \<open>The line written for a joint without a child link (lines 641-642).\<close>

definition no_child_message :: "SimbodyJoint \<Rightarrow> channel \<times> string" where
  "no_child_message joint =
     (Gzerr, ''simbodyJoint ['' @ Joint_GetName joint @
             ''] does not have a valid child link, which is required\<newline>'')"

text \<open>A solver library in which no call throws; its graph maker generates no mobilizer.\<close>

definition no_throw :: Native where
  "no_throw = \<lparr>throws = (\<lambda>_ _. None), graphThrows = (\<lambda>_ _. None), graphResult = (\<lambda>_. []),
      defaultTime = 0, initializedStage = Stage_Topology, RotateVector = (\<lambda>_ v. v)\<rparr>"

definition origin :: Pose3d where
  "origin = Pose3d (Vector3d 0 0 0) (Quaterniond 1 0 0 0)"

text \<open>A link without collisions, and a revolute joint about z with neither parent nor child.\<close>

definition link0 :: SimbodyLink where
  "link0 = \<lparr>Link_GetName = ''link'', isSimbodyLink = True, Link_GetMass = 1,
     mustBeBaseLink = False, GetSelfCollide = False, GetCollisions = [],
     Link_GetRelativePose = origin, GetParentModel_GetWorldPose = origin,
     masterMobod = None, slaveMobods = [], slaveWelds = [], Link_physicsInitialized = False\<rparr>"

definition joint0 :: SimbodyJoint where
  "joint0 = \<lparr>Joint_GetName = ''joint'', isSimbodyJoint = True, GetType = JOINT OR HINGE_JOINT,
     GetParent = None, GetChild = None, mustBreakLoopHere = False,
     xPA = Transform_identity, xCB = Transform_identity, defxAB = Transform_identity,
     GetAxisFrameOffset = (\<lambda>_. Quaterniond 1 0 0 0), GetLocalAxis = (\<lambda>_. Vector3d 0 0 1),
     GetThreadPitch = None,
     GetLowerLimit = (\<lambda>_. - 1), GetUpperLimit = (\<lambda>_. 1), GetStopStiffness = (\<lambda>_. 100),
     GetStopDissipation = (\<lambda>_. 1), GetDamping = (\<lambda>_. 0), GetStiffness = (\<lambda>_. 0),
     GetSpringReferencePosition = (\<lambda>_. 0),
     mobod = None, isReversed = False, limitForce = (\<lambda>_. None), damper = (\<lambda>_. None),
     spring = (\<lambda>_. None), Joint_physicsInitialized = False\<rparr>"

text \<open>
  An engine that has built nothing yet: only Ground exists, every address holds
  \<open>link0\<close> or \<open>joint0\<close>, and the integrator's state is empty.
\<close>

definition physics0 :: SimbodyPhysics where
  "physics0 = \<lparr>console = [], calls = [], nextMobod = 1, nextForce = 0, nextClique = 0,
     nextConstraint = 0, jointHeap = (\<lambda>_. joint0), linkHeap = (\<lambda>_. link0),
     GetGravity = Vector3d 0 0 (- 9.8),
     contactMaterialStiffness = 1, contactMaterialDissipation = 1,
     contactMaterialStaticFriction = 1, contactMaterialDynamicFriction = 1,
     contactMaterialViscousFriction = 1,
     integStage = Stage_Empty, integTime = 0, simbodyPhysicsInitialized = False\<rparr>"

text \<open>A dynamic model with one link and one joint, at addresses 0.\<close>

definition model0 :: Model where
  "model0 = \<lparr>modelPtr = 0, IsStatic = False, GetJoints = [0], GetLinks = [0]\<rparr>"

text \<open>
  A second scene: joint 1 is a hinge named \<open>hinge\<close> whose child is link 0, every other
  address holds \<open>joint0\<close>; a dynamic model with the joints 0 and 1 and the link 0.
\<close>

definition hinge1 :: SimbodyJoint where
  "hinge1 = joint0\<lparr>Joint_GetName := ''hinge'', GetChild := Some 0\<rparr>"

definition physics1 :: SimbodyPhysics where
  "physics1 = physics0\<lparr>jointHeap := (\<lambda>n. if n = 1 then hinge1 else joint0)\<rparr>"

definition model1 :: Model where
  "model1 = \<lparr>modelPtr = 1, IsStatic = False, GetJoints = [0, 1], GetLinks = [0]\<rparr>"

text \<open>
  What a step of the graph construction may change: it adds bodies and joints to the
  graph maker and lines to the console; a joint it adds has a child link.
\<close>

definition graph_step ::
  "MultibodyGraphMaker \<times> SimbodyPhysics \<Rightarrow> MultibodyGraphMaker \<times> SimbodyPhysics \<Rightarrow> bool" where
  "graph_step a b =
     (jointTypes (fst b) = jointTypes (fst a) \<and>
      jointHeap (snd b) = jointHeap (snd a) \<and> linkHeap (snd b) = linkHeap (snd a) \<and>
      (\<exists>ms. console (snd b) = console (snd a) @ ms) \<and>
      (\<exists>cs. mbgCalls (fst b) = mbgCalls (fst a) @ cs \<and> list_all adds_body_or_joint cs \<and>
         list_all (\<lambda>c. \<forall>r. added_joint c = Some r \<longrightarrow>
                        GetChild (jointHeap (snd a) r) \<noteq> None) cs))"

text \<open>The graph maker after step 1 and the registration of the world body.\<close>

definition registered :: "MultibodyGraphMaker \<Rightarrow> MultibodyGraphMaker" where
  "registered G =
     G\<lparr>jointTypes := jointTypes G @
         [(''revolute'', 1, False), (''revolute2'', 2, False), (''prismatic'', 1, False),
          (''universal'', 2, False), (''screw'', 1, False), (''ball'', 3, False)],
       mbgCalls := mbgCalls G @
         [addJointType ''revolute'' 1 False, addJointType ''revolute2'' 2 False,
          addJointType ''prismatic'' 1 False, addJointType ''universal'' 2 False,
          addJointType ''screw'' 1 False, addJointType ''ball'' 3 False,
          addBody ''world'' Mass_Infinity False None]\<rparr>"

text \<open>What a run of the graph construction shows: the calls on the graph maker and the console.\<close>

definition graph_outcome ::
  "failure + MultibodyGraphMaker \<times> SimbodyPhysics \<Rightarrow> failure + mbg_call list \<times> console" where
  "graph_outcome r = (case r of Inl e \<Rightarrow> Inl e | Inr (g, s) \<Rightarrow> Inr (mbgCalls g, console s))"

text \<open>
  The frame at which the plane branch attaches its additional half-space to Ground
  (line 1181).
\<close>

definition ground_plane_frame :: Transform where
  "ground_plane_frame = Transform_rot (Rotation_angle (pi / 2) YAxis)"

text \<open>
  What is expected of an \<^verbatim>\<open>addContactSurface\<close> call made for a link whose mobilized
  body is \<open>m\<close>: the additional half-space of the plane branch is on Ground and has joined
  no clique; every other surface is on \<open>m\<close> and has joined exactly the cliques \<open>cl\<close>.
\<close>

fun surface_ok :: "MobilizedBody \<Rightarrow> nat list \<Rightarrow> solver_call \<Rightarrow> bool" where
  "surface_ok m cl (addContactSurface b X surface) =
     (if X = ground_plane_frame then b = 0 \<and> cliques surface = []
      else Some b = m \<and> cliques surface = cl)"
| "surface_ok m cl c = False"

text \<open>The calls that attach the additional half-space of the plane branch.\<close>

fun is_ground_plane :: "solver_call \<Rightarrow> bool" where
  "is_ground_plane (addContactSurface b X surface) = (X = ground_plane_frame)"
| "is_ground_plane c = False"

text \<open>An \<^verbatim>\<open>addContactSurface\<close> call whose surface has joined no clique.\<close>

fun surface_unjoined :: "solver_call \<Rightarrow> bool" where
  "surface_unjoined (addContactSurface b X surface) = (cliques surface = [])"
| "surface_unjoined c = False"

text \<open>
  The value the switch of \<^verbatim>\<open>AddCollisionsToLink\<close> looks at, the collisions of the plane
  branch, and the collisions for which the switch has a branch.
\<close>

definition shape_kind :: "Collision \<Rightarrow> EntityType" where
  "shape_kind ci = GetShapeType ci AND NOT SHAPE"

definition is_plane :: "Collision \<Rightarrow> bool" where
  "is_plane ci = (shape_kind ci = PLANE_SHAPE)"

definition is_supported :: "Collision \<Rightarrow> bool" where
  "is_supported ci =
     (shape_kind ci = PLANE_SHAPE \<or> shape_kind ci = SPHERE_SHAPE \<or>
      shape_kind ci = CYLINDER_SHAPE \<or> shape_kind ci = BOX_SHAPE)"

text \<open>
  The calls \<open>new\<close> fit the collisions \<open>cols\<close>: every call is as expected, there is one
  additional half-space for each plane, and one other surface for each collision that the
  switch has a branch for.
\<close>

definition surfaces_fit ::
  "MobilizedBody \<Rightarrow> nat list \<Rightarrow> Collision list \<Rightarrow> solver_call list \<Rightarrow> bool" where
  "surfaces_fit m cl cols new =
     (list_all (surface_ok m cl) new \<and>
      length (filter is_ground_plane new) = length (filter is_plane cols) \<and>
      length (filter (\<lambda>c. \<not> is_ground_plane c) new) = length (filter is_supported cols))"

text \<open>
  A link with a plane and a unit sphere as collisions, which does not collide with
  itself, in an engine that has built nothing yet.
\<close>

definition plane_collision :: Collision where
  "plane_collision = \<lparr>GetShapeType = SHAPE OR PLANE_SHAPE, GetShape = PlaneShape (Vector3d 0 0 1),
     Collision_GetRelativePose = origin\<rparr>"

definition sphere_collision :: Collision where
  "sphere_collision = \<lparr>GetShapeType = SHAPE OR SPHERE_SHAPE, GetShape = SphereShape 1,
     Collision_GetRelativePose = origin\<rparr>"

definition collide_physics :: SimbodyPhysics where
  "collide_physics =
     physics0\<lparr>linkHeap := (\<lambda>_. link0\<lparr>GetCollisions := [plane_collision, sphere_collision]\<rparr>)\<rparr>"

text \<open>
  The contact surfaces attached in a run, in order: the body of each and the cliques it
  has joined.
\<close>

definition attached_cliques :: "failure + SimbodyPhysics \<Rightarrow> (nat \<times> nat list) list" where
  "attached_cliques r =
     (case r of
        Inl e \<Rightarrow> []
      | Inr s \<Rightarrow>
          concat (map (\<lambda>c. case c of
                             Simbody (addContactSurface b X surface) \<Rightarrow> [(b, cliques surface)]
                           | _ \<Rightarrow> [])
                    (calls s)))"

text \<open>
  The three force elements that \<open>attachAxisForces\<close> creates for axis \<open>nj\<close> of the joint
  \<open>gzJoint\<close> on the mobilized body \<open>h\<close>, in the order of the source.
\<close>

definition axis_forces :: "SimbodyJoint \<Rightarrow> nat \<Rightarrow> nat \<Rightarrow> solver_call list" where
  "axis_forces gzJoint h nj =
     [MobilityLinearStop h nj (GetStopStiffness gzJoint nj) (GetStopDissipation gzJoint nj)
        (GetLowerLimit gzJoint nj) (GetUpperLimit gzJoint nj),
      MobilityLinearDamper h nj (GetDamping gzJoint nj),
      MobilityLinearSpring h nj (GetStiffness gzJoint nj) (GetSpringReferencePosition gzJoint nj)]"

text \<open>
  A frame of the joint as the branches pass it to the mobilizer: unchanged (\<open>None\<close>), or
  with its rotation multiplied by the rotation that aligns the joint's axis
  (\<^verbatim>\<open>Transform(X.R() * R, X.p())\<close>).
\<close>

definition aligned :: "Rotation option \<Rightarrow> Transform \<Rightarrow> Transform" where
  "aligned R X =
     (case R of None \<Rightarrow> X
      | Some r \<Rightarrow> Transform (Rotation_mul (Transform_R X) r) (Transform_p X))"

text \<open>Axis \<open>k\<close> of the joint, rotated by the offset of its axis frame, as a unit vector.\<close>

definition joint_axis :: "Native \<Rightarrow> SimbodyJoint \<Rightarrow> nat \<Rightarrow> UnitVec3" where
  "joint_axis N gzJoint k =
     UnitVec3 (Vector3ToVec3 (RotateVector N (GetAxisFrameOffset gzJoint 0) (GetLocalAxis gzJoint k)))"

text \<open>The joint types that the branches of the loop body know.\<close>

definition recognised :: "string \<Rightarrow> bool" where
  "recognised t = (t = ''free'' \<or> t = ''screw'' \<or> t = ''universal'' \<or> t = ''revolute'' \<or>
                   t = ''prismatic'' \<or> t = ''ball'')"

text \<open>
  The solver calls and the console lines of one run of \<open>mobilizeJoint\<close> that returns,
  for the mobilizer \<open>mob\<close> of the joint \<open>g\<close>, when \<open>h\<close> is the next index of the body table.
\<close>

definition joint_calls ::
  "Native \<Rightarrow> Mobilizer \<Rightarrow> SimbodyJoint \<Rightarrow> MobilizedBody \<Rightarrow> MassProperties \<Rightarrow> nat
     \<Rightarrow> solver_call list" where
  "joint_calls N mob g p mp h =
     (let t = getJointTypeName mob;
          r = isReversedFromJoint mob;
          X = (if r then xCB g else xPA g);
          Y = (if r then xPA g else xCB g);
          d = (if r then Reverse else Forward);
          body = (\<lambda>kind R. MobilizedBody kind p (aligned R X) mp (aligned R Y) d)
      in
      if t = ''free'' then
        [body FreeJoint None,
         setDefaultTransform h (if r then Transform_inv (defxAB g) else defxAB g)]
      else if t = ''screw'' then
        body (ScrewJoint (- 1 / (if math_equal (the (GetThreadPitch g)) 0 then 1000000
                                  else the (GetThreadPitch g))))
          (Some (Rotation_axis (joint_axis N g 0) ZAxis)) # axis_forces g h 0
      else if t = ''universal'' then
        body UniversalJoint
          (Some (Rotation_axes (joint_axis N g AXIS_PARENT) XAxis (joint_axis N g AXIS_CHILD) YAxis))
          # axis_forces g h 0 @ axis_forces g h 1
      else if t = ''revolute'' then
        body PinJoint (Some (Rotation_axis (joint_axis N g 0) ZAxis)) # axis_forces g h 0
      else if t = ''prismatic'' then
        body SliderJoint (Some (Rotation_axis (joint_axis N g 0) XAxis)) # axis_forces g h 0
      else if t = ''ball'' then
        [body BallJoint None,
         setDefaultRotation h (if r then Rotation_inv (Transform_R (defxAB g))
                               else Transform_R (defxAB g))]
      else [])"

definition joint_lines :: "Mobilizer \<Rightarrow> SimbodyJoint \<Rightarrow> console" where
  "joint_lines mob g =
     (let t = getJointTypeName mob in
      if t = ''screw'' then
        (if math_equal (the (GetThreadPitch g)) 0 then
           [(Gzerr, ''thread pitch should not be zero (joint is a slider?) using pitch = 1.0e6\<newline>'')]
         else [])
        @ [(Gzdbg, ''Setting limitForce[0] for ['' @ Joint_GetName g @ '']\<newline>'')]
      else if recognised t then []
      else [(Gzerr, ''Simbody joint type ['' @ t @ ''] not implemented.\<newline>'')])"

text \<open>
  The shape that the branches of \<open>mobilizeJoint\<close> share: the frames chosen by the reversed
  flag, the construction of the mobilized body, what follows it (\<open>F\<close>), and the store of
  the handle and of the flag on the joint.
\<close>

definition store_joint ::
  "Mobilizer \<Rightarrow> MobilizedBody \<times> SimbodyPhysics \<Rightarrow> failure + MobilizedBody \<times> SimbodyPhysics" where
  "store_joint mob =
     (\<lambda>(mobod1, s1).
        Inr (mobod1, updJoint (getJointRef mob)
               (\<lambda>g. g\<lparr>mobod := mobod1, isReversed := isReversedFromJoint mob\<rparr>) s1))"

definition inboard0 :: "Mobilizer \<Rightarrow> SimbodyJoint \<Rightarrow> Transform" where
  "inboard0 mob g = (if isReversedFromJoint mob then xCB g else xPA g)"

definition outboard0 :: "Mobilizer \<Rightarrow> SimbodyJoint \<Rightarrow> Transform" where
  "outboard0 mob g = (if isReversedFromJoint mob then xPA g else xCB g)"

definition direction0 :: "Mobilizer \<Rightarrow> Direction" where
  "direction0 mob = (if isReversedFromJoint mob then Reverse else Forward)"

definition body_then ::
  "Native \<Rightarrow> Mobilizer \<Rightarrow> MobilizerKind \<Rightarrow> Rotation option \<Rightarrow> MobilizedBody \<Rightarrow> MassProperties
     \<Rightarrow> SimbodyJoint \<Rightarrow> (nat \<Rightarrow> SimbodyPhysics \<Rightarrow> failure + SimbodyPhysics) \<Rightarrow> SimbodyPhysics
     \<Rightarrow> failure + MobilizedBody \<times> SimbodyPhysics" where
  "body_then N mob kind R p mp g F s0 =
     seqE (seqE (newMobilizedBody N kind p (aligned R (inboard0 mob g)) mp
                   (aligned R (outboard0 mob g)) (direction0 mob) s0)
             (\<lambda>(h, s1). seqE (F h s1) (\<lambda>s2. Inr (Some h, s2))))
       (store_joint mob)"

text \<open>A failure that is an exception of the solver library.\<close>

definition library_failure :: "failure \<Rightarrow> bool" where
  "library_failure f = (case f of StdException e \<Rightarrow> True | _ \<Rightarrow> False)"

text \<open>
  The solver calls that construct a mobilized body, those that construct a force element
  of an axis, and the controllable axes of a joint type (the universal branch loops over
  the axes 0 and 1, the revolute, prismatic and screw branches handle axis 0).
\<close>

fun is_mobilized_body :: "solver_call \<Rightarrow> bool" where
  "is_mobilized_body (MobilizedBody kind parent X_IF massProps X_OM direction) = True"
| "is_mobilized_body c = False"

fun is_force_element :: "solver_call \<Rightarrow> bool" where
  "is_force_element (MobilityLinearStop h nj stiffness dissipation low high) = True"
| "is_force_element (MobilityLinearDamper h nj damping) = True"
| "is_force_element (MobilityLinearSpring h nj stiffness reference) = True"
| "is_force_element c = False"

definition controllable_axes :: "string \<Rightarrow> nat list" where
  "controllable_axes t = (if t = ''universal'' then [0, 1] else [0])"

text \<open>
  A third scene: two distinct frames; a revolute joint \<open>pin\<close> whose parent-side frame is
  \<open>frameA\<close> and whose child-side frame is \<open>frameB\<close>, with damping 0; a screw joint with
  thread pitch 0 at address 1; and mobilizers for them as the graph maker reports them,
  one of them reversed.
\<close>

definition frameA :: Transform where
  "frameA = Transform (Rotation_quat (Quaternion 1 0 0 0)) (Vec3 1 0 0)"

definition frameB :: Transform where
  "frameB = Transform (Rotation_quat (Quaternion 1 0 0 0)) (Vec3 0 1 0)"

definition pin_joint :: SimbodyJoint where
  "pin_joint = joint0\<lparr>Joint_GetName := ''pin'', GetChild := Some 0, xPA := frameA, xCB := frameB\<rparr>"

definition screw_joint :: SimbodyJoint where
  "screw_joint = pin_joint\<lparr>Joint_GetName := ''screw'', GetType := JOINT OR SCREW_JOINT,
                            GetThreadPitch := Some 0\<rparr>"

definition physics2 :: SimbodyPhysics where
  "physics2 = physics0\<lparr>jointHeap := (\<lambda>n. if n = 1 then screw_joint else pin_joint)\<rparr>"

definition pin_forward :: Mobilizer where
  "pin_forward = \<lparr>getJointTypeName = ''revolute'', isSlaveMobilizer = False,
     getInboardBodyRef = None, getOutboardMasterBodyRef = 0, getNumFragments = 1,
     isAddedBaseMobilizer = False, getJointRef = 0, isReversedFromJoint = False\<rparr>"

definition pin_reversed :: Mobilizer where
  "pin_reversed = pin_forward\<lparr>isReversedFromJoint := True\<rparr>"

definition universal_forward :: Mobilizer where
  "universal_forward = pin_forward\<lparr>getJointTypeName := ''universal''\<rparr>"

definition screw_forward :: Mobilizer where
  "screw_forward = pin_forward\<lparr>getJointTypeName := ''screw'', getJointRef := 1\<rparr>"

definition mass0 :: MassProperties where
  "mass0 = GetEffectiveMassProps 0 1"

text \<open>
  What the build of the system may do to the log of calls: it appends calls on the
  solver, and no capture, restore, realization or integrator call.
\<close>

fun is_solver_call :: "call \<Rightarrow> bool" where
  "is_solver_call (Simbody c) = True"
| "is_solver_call c = False"

definition appends_solver_calls :: "SimbodyPhysics \<Rightarrow> SimbodyPhysics \<Rightarrow> bool" where
  "appends_solver_calls s s' = (\<exists>new. calls s' = calls s @ new \<and> list_all is_solver_call new)"

text \<open>
  The captures that \<open>saveSimbodyStates\<close> makes and the restores that
  \<open>restoreSimbodyStates\<close> makes, in order.
\<close>

definition save_calls :: "Model list \<Rightarrow> Model \<Rightarrow> call list" where
  "save_calls world p_model =
     concat (map (\<lambda>mi. if modelPtr mi \<noteq> modelPtr p_model then
                          map Joint_SaveSimbodyState (GetJoints mi) @
                          map Link_SaveSimbodyState (GetLinks mi)
                        else []) world)"

definition restore_calls :: "Model list \<Rightarrow> call list" where
  "restore_calls world =
     concat (map (\<lambda>mi. map Joint_RestoreSimbodyState (GetJoints mi) @
                        map Link_RestoreSimbodyState (GetLinks mi)) world)"

text \<open>
  A fourth scene: a static model with the link 1 and no joint, in a world with the
  model of the second scene; an engine with a prior solver state at time 5, and one
  without prior state whose integrator time reads 3; a solver library whose graph maker
  throws on every call, and one that throws when the gravity is set.
\<close>

definition static2 :: Model where
  "static2 = \<lparr>modelPtr = 2, IsStatic = True, GetJoints = [], GetLinks = [1]\<rparr>"

definition world2 :: "Model list" where
  "world2 = [model1, static2]"

definition physics3 :: SimbodyPhysics where
  "physics3 = physics0\<lparr>integStage := Stage_Time, integTime := 5\<rparr>"

definition physics4 :: SimbodyPhysics where
  "physics4 = physics0\<lparr>integTime := 3\<rparr>"

definition graph_throws :: Native where
  "graph_throws = no_throw\<lparr>graphThrows := (\<lambda>_ _. Some ''boom'')\<rparr>"

definition gravity_throws :: Native where
  "gravity_throws = no_throw\<lparr>throws :=
     (\<lambda>_ c. case c of
               Simbody (setDefaultGravityVector v) \<Rightarrow> Some ''gravity''
             | Simbody (setDefaultMagnitude m) \<Rightarrow> Some ''gravity''
             | _ \<Rightarrow> None)\<rparr>"

section \<open>Theorems: BulletSliderJoint\<close>

text \<open>
  Claim C10.  \<^verbatim>\<open>SetHighStop\<close> and \<^verbatim>\<open>SetLowStop\<close> store the stop value in the generic
  joint before they look at the native constraint: whatever the pointer is, the joint
  after the call is the joint after the base-class setter for axis 0, with the limit
  of the constraint updated when it exists and with a line on the error stream when it
  does not, and the flag returned tells which.  So when the constraint has not been
  created the call returns false and the joint's stored stop is the new value all the
  same: the failing call has changed the joint.
\<close>

theorem BulletSliderJoint_stop_stored_before_check:
  "upperLimit (snd (SetHighStop i a j)) 0 = a
   \<and> fst (SetHighStop i a j) = (bulletSlider j \<noteq> None)
   \<and> (bulletSlider j = None \<longrightarrow>
        snd (SetHighStop i a j) =
          (Joint_SetHighStop 0 a j)\<lparr>bulletConsole := bulletConsole j @
             [(Gzerr, ''bulletSlider not yet created.\<newline>'')]\<rparr>)
   \<and> (\<forall>slider. bulletSlider j = Some slider \<longrightarrow>
        snd (SetHighStop i a j) =
          (Joint_SetHighStop 0 a j)\<lparr>bulletSlider := Some (slider\<lparr>upperLinLimit := a\<rparr>)\<rparr>)
   \<and> lowerLimit (snd (SetLowStop k b j)) 0 = b
   \<and> fst (SetLowStop k b j) = (bulletSlider j \<noteq> None)
   \<and> (bulletSlider j = None \<longrightarrow>
        snd (SetLowStop k b j) =
          (Joint_SetLowStop 0 b j)\<lparr>bulletConsole := bulletConsole j @
             [(Gzerr, ''bulletSlider not yet created.\<newline>'')]\<rparr>)
   \<and> (\<forall>slider. bulletSlider j = Some slider \<longrightarrow>
        snd (SetLowStop k b j) =
          (Joint_SetLowStop 0 b j)\<lparr>bulletSlider := Some (slider\<lparr>lowerLinLimit := b\<rparr>)\<rparr>)"
  by (cases "bulletSlider j")
     (simp_all add: SetHighStop_def SetLowStop_def Joint_SetHighStop_def Joint_SetLowStop_def)

text \<open>
  Two joints whose stored stops are both 0.  The first has no constraint yet: setting
  the high stop to 2 and the low stop to -1 returns false twice, writes the line, and
  the stored stops are 2 and -1.  The second has its constraint: the same calls return
  true, the stored stops are 2 and -1, and so are the limits of the constraint.
\<close>

theorem BulletSliderJoint_stop_stored_before_check_witness:
  "bulletSlider slider_joint_new = None
   \<and> upperLimit slider_joint_new 0 = 0
   \<and> lowerLimit slider_joint_new 0 = 0
   \<and> fst (SetHighStop 0 2 slider_joint_new) = False
   \<and> upperLimit (snd (SetHighStop 0 2 slider_joint_new)) 0 = 2
   \<and> bulletConsole (snd (SetHighStop 0 2 slider_joint_new)) =
        [(Gzerr, ''bulletSlider not yet created.\<newline>'')]
   \<and> fst (SetLowStop 0 (- 1) slider_joint_new) = False
   \<and> lowerLimit (snd (SetLowStop 0 (- 1) slider_joint_new)) 0 = - 1
   \<and> bulletSlider slider_joint_ready = Some \<lparr>lowerLinLimit = 0, upperLinLimit = 0\<rparr>
   \<and> fst (SetHighStop 0 2 slider_joint_ready) = True
   \<and> upperLimit (snd (SetHighStop 0 2 slider_joint_ready)) 0 = 2
   \<and> bulletSlider (snd (SetHighStop 0 2 slider_joint_ready)) =
        Some \<lparr>lowerLinLimit = 0, upperLinLimit = 2\<rparr>
   \<and> fst (SetLowStop 0 (- 1) slider_joint_ready) = True
   \<and> lowerLimit (snd (SetLowStop 0 (- 1) slider_joint_ready)) 0 = - 1
   \<and> bulletSlider (snd (SetLowStop 0 (- 1) slider_joint_ready)) =
        Some \<lparr>lowerLinLimit = - 1, upperLinLimit = 0\<rparr>"
proof -
  have n: "bulletSlider slider_joint_new = None" "upperLimit slider_joint_new 0 = 0"
    "lowerLimit slider_joint_new 0 = 0" "bulletConsole slider_joint_new = []"
    by (simp_all add: slider_joint_new_def)
  have r: "bulletSlider slider_joint_ready = Some \<lparr>lowerLinLimit = 0, upperLinLimit = 0\<rparr>"
    by (simp add: slider_joint_ready_def)
  from BulletSliderJoint_stop_stored_before_check [of 0 2 slider_joint_new 0 "- 1"]
    BulletSliderJoint_stop_stored_before_check [of 0 2 slider_joint_ready 0 "- 1"]
  show ?thesis
    using n r by (simp add: Joint_SetHighStop_def Joint_SetLowStop_def)
qed

section \<open>Theorems: building the multibody graph\<close>


lemma seqE_simps [simp]: "seqE (Inr x) f = f x" "seqE (Inl e) f = Inl e"
  by (simp_all add: seqE_def)

lemma seqE_eq_Inr: "seqE r f = Inr y \<longleftrightarrow> (\<exists>x. r = Inr x \<and> f x = Inr y)"
  by (cases r) simp_all

lemma foldE_append: "foldE f (xs @ ys) a = seqE (foldE f xs a) (foldE f ys)"
proof (induction xs arbitrary: a)
  case Nil
  show ?case by simp
next
  case (Cons x xs)
  show ?case by (cases "f x a") (simp_all add: Cons.IH)
qed

lemma foldE_invariant:
  assumes "foldE f xs a = Inr b" and "P a"
    and "\<And>x u v. x \<in> set xs \<Longrightarrow> P u \<Longrightarrow> f x u = Inr v \<Longrightarrow> P v"
  shows "P b"
  using assms
proof (induction xs arbitrary: a)
  case Nil
  then show ?case by simp
next
  case (Cons x xs)
  from Cons.prems(1) obtain c where c: "f x a = Inr c" "foldE f xs c = Inr b"
    by (auto simp: seqE_eq_Inr)
  have "P c" using Cons.prems(2,3) c(1) by auto
  then show ?case using Cons.IH [OF c(2)] Cons.prems(3) by auto
qed

lemma foldE_total:
  assumes "\<And>x u. x \<in> set xs \<Longrightarrow> \<exists>v. f x u = Inr v"
  shows "\<exists>b. foldE f xs a = Inr b"
  using assms
proof (induction xs arbitrary: a)
  case Nil
  show ?case by simp
next
  case (Cons x xs)
  then obtain c where "f x a = Inr c" by fastforce
  then show ?case using Cons by auto
qed

lemma GetTypeString_consts [simp]:
  "GetTypeString HINGE_JOINT s = (''revolute'', s)"
  "GetTypeString HINGE2_JOINT s = (''revolute2'', s)"
  "GetTypeString SLIDER_JOINT s = (''prismatic'', s)"
  "GetTypeString UNIVERSAL_JOINT s = (''universal'', s)"
  "GetTypeString SCREW_JOINT s = (''screw'', s)"
  "GetTypeString BALL_JOINT s = (''ball'', s)"
  by (simp_all add: GetTypeString_def HINGE_JOINT_def HINGE2_JOINT_def SLIDER_JOINT_def
        UNIVERSAL_JOINT_def SCREW_JOINT_def BALL_JOINT_def)

lemma GetTypeString_state:
  "snd (GetTypeString t s) = s \<or>
   snd (GetTypeString t s) = gzlog Gzerr ''Unrecognized joint type\<newline>'' s"
  by (simp add: GetTypeString_def)

lemma mbg_invoke_Inr:
  "mbg_invoke N c g = Inr g' \<Longrightarrow> g' = g\<lparr>mbgCalls := mbgCalls g @ [c]\<rparr>"
  by (auto simp: mbg_invoke_def split: option.splits)

lemma mbg_invoke_no_throw:
  "\<forall>h c. graphThrows N h c = None \<Longrightarrow> mbg_invoke N c g = Inr (g\<lparr>mbgCalls := mbgCalls g @ [c]\<rparr>)"
  by (simp add: mbg_invoke_def)

lemma graph_step_refl: "graph_step a a"
  by (simp add: graph_step_def)

lemma graph_step_trans:
  assumes "graph_step a b" and "graph_step b c"
  shows "graph_step a c"
proof -
  from assms(1) obtain ms1 cs1 where ab:
    "jointTypes (fst b) = jointTypes (fst a)" "jointHeap (snd b) = jointHeap (snd a)"
    "linkHeap (snd b) = linkHeap (snd a)" "console (snd b) = console (snd a) @ ms1"
    "mbgCalls (fst b) = mbgCalls (fst a) @ cs1" "list_all adds_body_or_joint cs1"
    "list_all (\<lambda>c. \<forall>r. added_joint c = Some r \<longrightarrow>
        GetChild (jointHeap (snd a) r) \<noteq> None) cs1"
    unfolding graph_step_def by blast
  from assms(2) obtain ms2 cs2 where bc:
    "jointTypes (fst c) = jointTypes (fst b)" "jointHeap (snd c) = jointHeap (snd b)"
    "linkHeap (snd c) = linkHeap (snd b)" "console (snd c) = console (snd b) @ ms2"
    "mbgCalls (fst c) = mbgCalls (fst b) @ cs2" "list_all adds_body_or_joint cs2"
    "list_all (\<lambda>c. \<forall>r. added_joint c = Some r \<longrightarrow>
        GetChild (jointHeap (snd b) r) \<noteq> None) cs2"
    unfolding graph_step_def by blast
  have 1: "console (snd c) = console (snd a) @ (ms1 @ ms2)"
    using ab(4) bc(4) by simp
  have 2: "mbgCalls (fst c) = mbgCalls (fst a) @ (cs1 @ cs2)"
    using ab(5) bc(5) by simp
  have 3: "list_all adds_body_or_joint (cs1 @ cs2)"
    using ab(6) bc(6) by simp
  have 4: "list_all (\<lambda>c. \<forall>r. added_joint c = Some r \<longrightarrow>
        GetChild (jointHeap (snd a) r) \<noteq> None) (cs1 @ cs2)"
    using ab(7) bc(7) ab(2) by simp
  show ?thesis
    unfolding graph_step_def
    using ab(1,2,3) bc(1,2,3) 1 2 3 4 by (intro conjI exI [of _ "ms1 @ ms2"] exI [of _ "cs1 @ cs2"]) simp_all
qed

lemma addLinkBody_step: "addLinkBody N li a = Inr b \<Longrightarrow> graph_step a b"
  by (cases a) (auto simp: addLinkBody_def Let_def graph_step_def gzlog_def seqE_eq_Inr
      dest!: mbg_invoke_Inr split: if_splits)

lemma addJointEdge_step: "addJointEdge N ji a = Inr b \<Longrightarrow> graph_step a b"
  using GetTypeString_state [of "GetType (jointHeap (snd a) ji)" "snd a"]
  by (cases a) (auto simp: addJointEdge_def Let_def graph_step_def gzlog_def seqE_eq_Inr
      dest!: mbg_invoke_Inr split: if_splits option.splits prod.splits)


lemma foldE_links_step: "foldE (addLinkBody N) ls a = Inr b \<Longrightarrow> graph_step a b"
  by (rule foldE_invariant [where P = "graph_step a"])
     (auto intro: graph_step_refl graph_step_trans addLinkBody_step)

lemma foldE_joints_step: "foldE (addJointEdge N) js a = Inr b \<Longrightarrow> graph_step a b"
  by (rule foldE_invariant [where P = "graph_step a"])
     (auto intro: graph_step_refl graph_step_trans addJointEdge_step)

lemma addLinkBody_total:
  "\<forall>h c. graphThrows N h c = None \<Longrightarrow> \<exists>b. addLinkBody N li a = Inr b"
  by (cases a) (simp add: addLinkBody_def Let_def mbg_invoke_no_throw)

lemma addJointEdge_total:
  "\<forall>h c. graphThrows N h c = None \<Longrightarrow> \<exists>b. addJointEdge N ji a = Inr b"
  by (cases a) (simp add: addJointEdge_def Let_def mbg_invoke_no_throw
      split: option.splits prod.splits)

lemma registerJointType_Inr:
  "registerJointType N t d b (g, s) = Inr (g', s') \<Longrightarrow>
     g' = g\<lparr>mbgCalls := mbgCalls g @ [addJointType (fst (GetTypeString t s)) d b],
            jointTypes := jointTypes g @ [(fst (GetTypeString t s), d, b)]\<rparr>
     \<and> s' = snd (GetTypeString t s)"
  by (auto simp: registerJointType_def seqE_eq_Inr split: prod.splits dest!: mbg_invoke_Inr)

lemma registerJointType_no_throw:
  "\<forall>h c. graphThrows N h c = None \<Longrightarrow>
   registerJointType N t d b (g, s) =
     Inr (g\<lparr>mbgCalls := mbgCalls g @ [addJointType (fst (GetTypeString t s)) d b],
            jointTypes := jointTypes g @ [(fst (GetTypeString t s), d, b)]\<rparr>,
          snd (GetTypeString t s))"
  by (simp add: registerJointType_def mbg_invoke_no_throw split: prod.splits)

lemma CreateMultibodyGraph_total:
  assumes "\<forall>h c. graphThrows N h c = None"
  shows "\<exists>g s'. CreateMultibodyGraph N G M s = Inr (g, s')"
proof -
  obtain a where a: "foldE (addLinkBody N) (GetLinks M)
      (registered G, s) = Inr a"
    using foldE_total [of "GetLinks M" "addLinkBody N"] addLinkBody_total [OF assms] by blast
  obtain b where b: "foldE (addJointEdge N) (GetJoints M) a = Inr b"
    using foldE_total [of "GetJoints M" "addJointEdge N"] addJointEdge_total [OF assms] by blast
  show ?thesis
    using a b assms
    by (cases b)
       (simp add: CreateMultibodyGraph_def registerJointType_no_throw mbg_invoke_no_throw
          registered_def)
qed

lemma CreateMultibodyGraph_shape:
  assumes "CreateMultibodyGraph N G M s = Inr (g, s')"
  shows "\<exists>a b. 
     foldE (addLinkBody N) (GetLinks M)
      (registered G, s) = Inr a
     \<and> foldE (addJointEdge N) (GetJoints M) a = Inr b
     \<and> g = (fst b)\<lparr>mbgCalls := mbgCalls (fst b) @ [generateGraph],
                    mobilizers := graphResult N (mbgCalls (fst b) @ [generateGraph])\<rparr>
     \<and> s' = snd b"
  using assms
  unfolding CreateMultibodyGraph_def
  apply (clarsimp simp: seqE_eq_Inr registered_def dest!: registerJointType_Inr)
  apply (auto dest!: mbg_invoke_Inr)
  done


text \<open>
  Claim C6.  On a new graph maker, which has \<open>weld\<close> with 0 and \<open>free\<close> with 6 degrees
  of freedom predefined, \<^verbatim>\<open>CreateMultibodyGraph\<close> registers \<open>revolute\<close> with 1,
  \<open>revolute2\<close> with 2, \<open>prismatic\<close> with 1, \<open>universal\<close> with 2, \<open>screw\<close> with 1 and
  \<open>ball\<close> with 3 degrees of freedom.  These six registrations are the first calls on
  the graph maker; the calls that follow only add bodies and joints, and
  \<^verbatim>\<open>generateGraph\<close> is the last call.  The function returns whenever the graph maker
  does not throw.
\<close>

theorem CreateMultibodyGraph_registers_types_first:
  "((\<forall>h c. graphThrows N h c = None) \<longrightarrow>
      (\<exists>g s'. CreateMultibodyGraph N MultibodyGraphMaker_new M s = Inr (g, s')))
   \<and> (\<forall>g s'. CreateMultibodyGraph N MultibodyGraphMaker_new M s = Inr (g, s') \<longrightarrow>
        jointTypes g =
          [(''weld'', 0, True), (''free'', 6, True), (''revolute'', 1, False),
           (''revolute2'', 2, False), (''prismatic'', 1, False), (''universal'', 2, False),
           (''screw'', 1, False), (''ball'', 3, False)]
        \<and> (\<exists>rest. mbgCalls g =
              [addJointType ''revolute'' 1 False, addJointType ''revolute2'' 2 False,
               addJointType ''prismatic'' 1 False, addJointType ''universal'' 2 False,
               addJointType ''screw'' 1 False, addJointType ''ball'' 3 False]
              @ rest @ [generateGraph]
            \<and> list_all adds_body_or_joint rest))"
proof (intro conjI impI allI)
  assume "\<forall>h c. graphThrows N h c = None"
  then show "\<exists>g s'. CreateMultibodyGraph N MultibodyGraphMaker_new M s = Inr (g, s')"
    by (rule CreateMultibodyGraph_total)
next
  fix g s'
  assume ok: "CreateMultibodyGraph N MultibodyGraphMaker_new M s = Inr (g, s')"
  from CreateMultibodyGraph_shape [OF ok] obtain a b where
    a: "foldE (addLinkBody N) (GetLinks M) (registered MultibodyGraphMaker_new, s) = Inr a" and
    b: "foldE (addJointEdge N) (GetJoints M) a = Inr b" and
    g: "g = (fst b)\<lparr>mbgCalls := mbgCalls (fst b) @ [generateGraph],
                     mobilizers := graphResult N (mbgCalls (fst b) @ [generateGraph])\<rparr>"
    by blast
  have step: "graph_step (registered MultibodyGraphMaker_new, s) b"
    using foldE_links_step [OF a] foldE_joints_step [OF b] by (rule graph_step_trans)
  then obtain cs where cs:
    "mbgCalls (fst b) = mbgCalls (registered MultibodyGraphMaker_new) @ cs"
    "list_all adds_body_or_joint cs"
    "jointTypes (fst b) = jointTypes (registered MultibodyGraphMaker_new)"
    unfolding graph_step_def by auto
  show "jointTypes g =
          [(''weld'', 0, True), (''free'', 6, True), (''revolute'', 1, False),
           (''revolute2'', 2, False), (''prismatic'', 1, False), (''universal'', 2, False),
           (''screw'', 1, False), (''ball'', 3, False)]"
    using cs(3) g by (simp add: registered_def MultibodyGraphMaker_new_def)
  show "\<exists>rest. mbgCalls g =
              [addJointType ''revolute'' 1 False, addJointType ''revolute2'' 2 False,
               addJointType ''prismatic'' 1 False, addJointType ''universal'' 2 False,
               addJointType ''screw'' 1 False, addJointType ''ball'' 3 False]
              @ rest @ [generateGraph]
            \<and> list_all adds_body_or_joint rest"
    using cs(1,2) g
    by (intro exI [of _ "addBody ''world'' Mass_Infinity False None # cs"])
       (simp add: registered_def MultibodyGraphMaker_new_def)
qed

text \<open>The model with one link and one joint, on a library that does not throw.\<close>

theorem CreateMultibodyGraph_registers_types_first_witness:
  "(\<forall>h c. graphThrows no_throw h c = None)
   \<and> (\<exists>g s'. CreateMultibodyGraph no_throw MultibodyGraphMaker_new model0 physics0 = Inr (g, s')
        \<and> jointTypes g =
          [(''weld'', 0, True), (''free'', 6, True), (''revolute'', 1, False),
           (''revolute2'', 2, False), (''prismatic'', 1, False), (''universal'', 2, False),
           (''screw'', 1, False), (''ball'', 3, False)]
        \<and> (\<exists>rest. mbgCalls g =
              [addJointType ''revolute'' 1 False, addJointType ''revolute2'' 2 False,
               addJointType ''prismatic'' 1 False, addJointType ''universal'' 2 False,
               addJointType ''screw'' 1 False, addJointType ''ball'' 3 False]
              @ rest @ [generateGraph]
            \<and> list_all adds_body_or_joint rest))"
proof -
  have nt: "\<forall>h c. graphThrows no_throw h c = None"
    by (simp add: no_throw_def)
  from CreateMultibodyGraph_registers_types_first [of no_throw model0 physics0] nt
  show ?thesis by blast
qed

lemma addJointEdge_effect:
  assumes "addJointEdge N k a = Inr c" and "isSimbodyJoint (jointHeap (snd a) k)"
  shows "(GetChild (jointHeap (snd a) k) = None \<longrightarrow>
            no_child_message (jointHeap (snd a) k) \<in> set (console (snd c)))
       \<and> (GetChild (jointHeap (snd a) k) \<noteq> None \<longrightarrow>
            Some k \<in> added_joint ` set (mbgCalls (fst c)))"
  using assms
  by (cases a) (auto simp: addJointEdge_def Let_def gzlog_def seqE_eq_Inr no_child_message_def
      dest!: mbg_invoke_Inr split: if_splits option.splits prod.splits)

lemma graph_step_mono:
  assumes "graph_step c b"
  shows "set (console (snd c)) \<subseteq> set (console (snd b))"
    and "set (mbgCalls (fst c)) \<subseteq> set (mbgCalls (fst b))"
    and "jointHeap (snd b) = jointHeap (snd c)"
  using assms unfolding graph_step_def by auto

lemma foldE_joints_effect:
  assumes "foldE (addJointEdge N) js a = Inr b"
    and "k \<in> set js" and "isSimbodyJoint (jointHeap (snd a) k)"
  shows "(GetChild (jointHeap (snd a) k) = None \<longrightarrow>
            no_child_message (jointHeap (snd a) k) \<in> set (console (snd b)))
       \<and> (GetChild (jointHeap (snd a) k) \<noteq> None \<longrightarrow>
            Some k \<in> added_joint ` set (mbgCalls (fst b)))"
  using assms
proof (induction js arbitrary: a)
  case Nil
  then show ?case by simp
next
  case (Cons x js)
  from Cons.prems(1) obtain c where c: "addJointEdge N x a = Inr c"
    "foldE (addJointEdge N) js c = Inr b"
    by (auto simp: seqE_eq_Inr)
  have ac: "graph_step a c" using c(1) by (rule addJointEdge_step)
  have cb: "graph_step c b" using c(2) by (rule foldE_joints_step)
  have heap: "jointHeap (snd c) = jointHeap (snd a)"
    using graph_step_mono(3) [OF ac] .
  show ?case
  proof (cases "k \<in> set js")
    case True
    have "isSimbodyJoint (jointHeap (snd c) k)" using Cons.prems(3) heap by simp
    from Cons.IH [OF c(2) True this] show ?thesis by (simp add: heap)
  next
    case False
    then have "k = x" using Cons.prems(2) by simp
    then show ?thesis
      using addJointEdge_effect [OF c(1)] Cons.prems(3) graph_step_mono(1,2) [OF cb]
      by auto
  qed
qed

lemma CreateMultibodyGraph_skip_on_return:
  assumes ok: "CreateMultibodyGraph N MultibodyGraphMaker_new M s = Inr (g, s')"
    and j: "j \<in> set (GetJoints M)" "isSimbodyJoint (jointHeap s j)"
      "GetChild (jointHeap s j) = None"
  shows "no_child_message (jointHeap s j) \<in> set (console s')"
    and "Some j \<notin> added_joint ` set (mbgCalls g)"
    and "\<forall>k \<in> set (GetJoints M).
            isSimbodyJoint (jointHeap s k) \<and> GetChild (jointHeap s k) \<noteq> None \<longrightarrow>
            Some k \<in> added_joint ` set (mbgCalls g)"
    and "last (mbgCalls g) = generateGraph"
proof -
  from CreateMultibodyGraph_shape [OF ok] obtain a b where
    a: "foldE (addLinkBody N) (GetLinks M) (registered MultibodyGraphMaker_new, s) = Inr a" and
    b: "foldE (addJointEdge N) (GetJoints M) a = Inr b" and
    g: "g = (fst b)\<lparr>mbgCalls := mbgCalls (fst b) @ [generateGraph],
                     mobilizers := graphResult N (mbgCalls (fst b) @ [generateGraph])\<rparr>" and
    s': "s' = snd b"
    by blast
  have sa: "graph_step (registered MultibodyGraphMaker_new, s) a"
    using a by (rule foldE_links_step)
  have step: "graph_step (registered MultibodyGraphMaker_new, s) b"
    using sa foldE_joints_step [OF b] by (rule graph_step_trans)
  have heap: "jointHeap (snd a) = jointHeap s"
    using graph_step_mono(3) [OF sa] by simp
  show "no_child_message (jointHeap s j) \<in> set (console s')"
    using foldE_joints_effect [OF b j(1)] j(2,3) heap s' by simp
  show "\<forall>k \<in> set (GetJoints M).
            isSimbodyJoint (jointHeap s k) \<and> GetChild (jointHeap s k) \<noteq> None \<longrightarrow>
            Some k \<in> added_joint ` set (mbgCalls g)"
  proof (intro ballI impI)
    fix k assume k: "k \<in> set (GetJoints M)"
      "isSimbodyJoint (jointHeap s k) \<and> GetChild (jointHeap s k) \<noteq> None"
    from foldE_joints_effect [OF b k(1)] k(2) heap
    have "Some k \<in> added_joint ` set (mbgCalls (fst b))" by auto
    then show "Some k \<in> added_joint ` set (mbgCalls g)" using g by auto
  qed
  have "\<exists>cs. mbgCalls (fst b) = mbgCalls (registered MultibodyGraphMaker_new) @ cs \<and>
    list_all (\<lambda>c. \<forall>r. added_joint c = Some r \<longrightarrow>
                        GetChild (jointHeap s r) \<noteq> None) cs"
    using step unfolding graph_step_def by auto
  then obtain cs where cs:
    "mbgCalls (fst b) = mbgCalls (registered MultibodyGraphMaker_new) @ cs"
    "list_all (\<lambda>c. \<forall>r. added_joint c = Some r \<longrightarrow>
                        GetChild (jointHeap s r) \<noteq> None) cs"
    by blast
  show "Some j \<notin> added_joint ` set (mbgCalls g)"
  proof
    assume "Some j \<in> added_joint ` set (mbgCalls g)"
    then obtain c where c: "c \<in> set (mbgCalls g)" "added_joint c = Some j" by force
    then have "c \<in> set cs"
      using g cs(1) by (auto simp: registered_def MultibodyGraphMaker_new_def)
    then show False using cs(2) c(2) j(3) by (auto simp: list_all_iff)
  qed
  show "last (mbgCalls g) = generateGraph" using g by simp
qed

lemma addJointEdge_no_child:
  assumes "isSimbodyJoint (jointHeap (s0 :: SimbodyPhysics) j)"
    and "GetChild (jointHeap s0 j) = None"
  shows "addJointEdge N j (g0, s0) =
           Inr (g0, s0\<lparr>console := console s0 @ [no_child_message (jointHeap s0 j)]\<rparr>)"
  using assms by (simp add: addJointEdge_def Let_def gzlog_def no_child_message_def)

text \<open>
  Claim C3, as amended.  The claim says that a joint without a valid child link makes the
  graph construction fail.  The code reports the joint on the error stream and goes
  on.  For every solver library: the loop step for such a joint returns, leaves the
  graph maker as it is and only writes the line for the joint; and whenever
  \<^verbatim>\<open>CreateMultibodyGraph\<close> returns, the console holds that line, the joint is not
  registered with the graph maker, every Simbody joint of the model that has a child
  link is registered, and \<^verbatim>\<open>generateGraph\<close> is the last call.  The function returns
  whenever the graph maker does not throw.
\<close>

theorem CreateMultibodyGraph_skips_joint_without_child:
  assumes "j \<in> set (GetJoints M)"
    and "isSimbodyJoint (jointHeap (s :: SimbodyPhysics) j)"
    and "GetChild (jointHeap s j) = None"
  shows "(\<forall>g0 (s0 :: SimbodyPhysics). jointHeap s0 = jointHeap s \<longrightarrow>
            addJointEdge N j (g0, s0) =
              Inr (g0, s0\<lparr>console := console s0 @ [no_child_message (jointHeap s j)]\<rparr>))
      \<and> (\<forall>g s'. CreateMultibodyGraph N MultibodyGraphMaker_new M s = Inr (g, s') \<longrightarrow>
            no_child_message (jointHeap s j) \<in> set (console s')
          \<and> Some j \<notin> added_joint ` set (mbgCalls g)
          \<and> (\<forall>k \<in> set (GetJoints M).
                isSimbodyJoint (jointHeap s k) \<and> GetChild (jointHeap s k) \<noteq> None \<longrightarrow>
                Some k \<in> added_joint ` set (mbgCalls g))
          \<and> last (mbgCalls g) = generateGraph)
      \<and> ((\<forall>h c. graphThrows N h c = None) \<longrightarrow>
            (\<exists>g s'. CreateMultibodyGraph N MultibodyGraphMaker_new M s = Inr (g, s')))"
proof (intro conjI allI impI)
  fix g0 and s0 :: SimbodyPhysics assume "jointHeap s0 = jointHeap s"
  then show "addJointEdge N j (g0, s0) =
      Inr (g0, s0\<lparr>console := console s0 @ [no_child_message (jointHeap s j)]\<rparr>)"
    using addJointEdge_no_child [of s0 j N g0] assms(2,3) by simp
next
  fix g s' assume ok: "CreateMultibodyGraph N MultibodyGraphMaker_new M s = Inr (g, s')"
  note r = CreateMultibodyGraph_skip_on_return [OF ok assms]
  show "no_child_message (jointHeap s j) \<in> set (console s')" by (rule r(1))
  show "Some j \<notin> added_joint ` set (mbgCalls g)" by (rule r(2))
  show "\<forall>k \<in> set (GetJoints M).
          isSimbodyJoint (jointHeap s k) \<and> GetChild (jointHeap s k) \<noteq> None \<longrightarrow>
          Some k \<in> added_joint ` set (mbgCalls g)" by (rule r(3))
  show "last (mbgCalls g) = generateGraph" by (rule r(4))
next
  assume "\<forall>h c. graphThrows N h c = None"
  then show "\<exists>g s'. CreateMultibodyGraph N MultibodyGraphMaker_new M s = Inr (g, s')"
    by (rule CreateMultibodyGraph_total)
qed

text \<open>
  A model with two joints: joint 0 has no child link, joint 1 is a hinge whose child is
  link 0.  On a library that does not throw the construction returns: joint 0 is
  reported and not registered, joint 1 is registered, and \<^verbatim>\<open>generateGraph\<close> is the last
  call.
\<close>

theorem CreateMultibodyGraph_skips_joint_without_child_witness:
  "0 \<in> set (GetJoints model1)
   \<and> isSimbodyJoint (jointHeap physics1 0)
   \<and> GetChild (jointHeap physics1 0) = None
   \<and> 1 \<in> set (GetJoints model1)
   \<and> isSimbodyJoint (jointHeap physics1 1)
   \<and> GetChild (jointHeap physics1 1) = Some 0
   \<and> (\<forall>h c. graphThrows no_throw h c = None)
   \<and> addJointEdge no_throw 0 (MultibodyGraphMaker_new, physics1) =
        Inr (MultibodyGraphMaker_new,
             physics1\<lparr>console := console physics1 @ [no_child_message (jointHeap physics1 0)]\<rparr>)
   \<and> (\<exists>g s'. CreateMultibodyGraph no_throw MultibodyGraphMaker_new model1 physics1 = Inr (g, s')
      \<and> no_child_message (jointHeap physics1 0) \<in> set (console s')
      \<and> Some 0 \<notin> added_joint ` set (mbgCalls g)
      \<and> Some 1 \<in> added_joint ` set (mbgCalls g)
      \<and> last (mbgCalls g) = generateGraph)"
proof -
  have h: "0 \<in> set (GetJoints model1)" "isSimbodyJoint (jointHeap physics1 0)"
    "GetChild (jointHeap physics1 0) = None"
    by (simp_all add: model1_def physics1_def physics0_def joint0_def)
  have k: "1 \<in> set (GetJoints model1)" "isSimbodyJoint (jointHeap physics1 1)"
    "GetChild (jointHeap physics1 1) = Some 0"
    by (simp_all add: model1_def physics1_def physics0_def hinge1_def joint0_def)
  have nt: "\<forall>h c. graphThrows no_throw h c = None"
    by (simp add: no_throw_def)
  note inst = CreateMultibodyGraph_skips_joint_without_child [OF h, of no_throw]
  from inst nt obtain g s' where
    ok: "CreateMultibodyGraph no_throw MultibodyGraphMaker_new model1 physics1 = Inr (g, s')"
    by blast
  from inst ok have r: "no_child_message (jointHeap physics1 0) \<in> set (console s')"
    "Some 0 \<notin> added_joint ` set (mbgCalls g)"
    "\<forall>k \<in> set (GetJoints model1).
        isSimbodyJoint (jointHeap physics1 k) \<and> GetChild (jointHeap physics1 k) \<noteq> None \<longrightarrow>
        Some k \<in> added_joint ` set (mbgCalls g)"
    "last (mbgCalls g) = generateGraph"
    by blast+
  from r(3) k have "Some 1 \<in> added_joint ` set (mbgCalls g)" by auto
  moreover from inst have "addJointEdge no_throw 0 (MultibodyGraphMaker_new, physics1) =
        Inr (MultibodyGraphMaker_new,
             physics1\<lparr>console := console physics1 @ [no_child_message (jointHeap physics1 0)]\<rparr>)"
    by blast
  ultimately show ?thesis using h k nt ok r(1,2,4) by blast
qed

lemma joint0_type: "GetTypeString (GetType joint0) s = (''revolute'', s)"
  by (simp add: GetTypeString_def joint0_def JOINT_def HINGE_JOINT_def BALL_JOINT_def HINGE2_JOINT_def)

lemma addJointEdge_joint0: "addJointEdge no_throw 0 (g, physics0) = Inr (g, gzlog Gzerr (snd (no_child_message joint0)) physics0)"
  by (simp add: addJointEdge_def physics0_def joint0_def no_child_message_def)

lemma addLinkBody_link0: "addLinkBody no_throw 0 (g, physics0) = Inr (g\<lparr>mbgCalls := mbgCalls g @ [addBody ''link'' (Mass 1) False (Some 0)]\<rparr>, physics0)"
  by (simp add: addLinkBody_def physics0_def link0_def mbg_invoke_def no_throw_def)

lemma no_throw_graph: "\<forall>h c. graphThrows no_throw h c = None"
  by (simp add: no_throw_def)

text \<open>
  Claim C3 as stated fails on the model with one link and one joint without child:
  the construction returns with all nine calls made, \<^verbatim>\<open>generateGraph\<close> included;
  the only trace of the joint is the line on the error stream.
\<close>

theorem CreateMultibodyGraph_no_child_counterexample:
  "GetJoints model0 = [0] \<and> GetChild (jointHeap physics0 0) = None
   \<and> graph_outcome (CreateMultibodyGraph no_throw MultibodyGraphMaker_new model0 physics0) =
       Inr ([addJointType ''revolute'' 1 False, addJointType ''revolute2'' 2 False,
             addJointType ''prismatic'' 1 False, addJointType ''universal'' 2 False,
             addJointType ''screw'' 1 False, addJointType ''ball'' 3 False,
             addBody ''world'' Mass_Infinity False None,
             addBody ''link'' (Mass 1) False (Some 0), generateGraph],
            [(Gzerr, ''simbodyJoint [joint] does not have a valid child link, which is required\<newline>'')])"
proof -
  have a: "GetJoints model0 = [0]" "GetLinks model0 = [0]" by (simp_all add: model0_def)
  have b: "GetChild (jointHeap physics0 0) = None" by (simp add: physics0_def joint0_def)
  have c: "console (gzlog Gzerr (snd (no_child_message joint0)) physics0) =
     [(Gzerr, ''simbodyJoint [joint] does not have a valid child link, which is required\<newline>'')]"
    by (simp add: gzlog_def physics0_def no_child_message_def joint0_def)
  show ?thesis
    using a b c
    by (simp add: graph_outcome_def CreateMultibodyGraph_def registerJointType_no_throw [OF no_throw_graph]
        mbg_invoke_no_throw [OF no_throw_graph] addJointEdge_joint0 addLinkBody_link0 MultibodyGraphMaker_new_def)
qed

section \<open>Theorems: collision attachment\<close>

lemma invoke_Inr: "invoke N c s = Inr s' \<Longrightarrow> s' = s\<lparr>calls := calls s @ [c]\<rparr>"
  by (auto simp: invoke_def split: option.splits)

lemma solver_Inr: "solver N c s = Inr s' \<Longrightarrow> s' = s\<lparr>calls := calls s @ [Simbody c]\<rparr>"
  by (simp add: solver_def invoke_Inr)

lemma Pose2Transform_not_rot [simp]: "Pose2Transform p \<noteq> Transform_rot r"
  by (cases p rule: Pose2Transform.cases) simp

lemma attachSurface_calls:
  "attachSurface N m X sf s = Inr s' \<Longrightarrow>
     \<exists>b. m = Some b \<and> calls s' = calls s @ [Simbody (addContactSurface b X sf)]"
  by (auto simp: attachSurface_def split: option.splits dest: solver_Inr)

lemma joinModelClique_cliques:
  "cliques sf = [] \<Longrightarrow>
   cliques (joinModelClique amc c sf) = (if amc \<and> c \<noteq> None then [the c] else [])"
  by (auto simp: joinModelClique_def joinClique_def split: option.splits)

lemma shape_kinds_distinct:
  "PLANE_SHAPE \<noteq> SPHERE_SHAPE" "PLANE_SHAPE \<noteq> CYLINDER_SHAPE" "PLANE_SHAPE \<noteq> BOX_SHAPE"
  "SPHERE_SHAPE \<noteq> PLANE_SHAPE" "SPHERE_SHAPE \<noteq> CYLINDER_SHAPE" "SPHERE_SHAPE \<noteq> BOX_SHAPE"
  "CYLINDER_SHAPE \<noteq> PLANE_SHAPE" "CYLINDER_SHAPE \<noteq> SPHERE_SHAPE" "CYLINDER_SHAPE \<noteq> BOX_SHAPE"
  "BOX_SHAPE \<noteq> PLANE_SHAPE" "BOX_SHAPE \<noteq> SPHERE_SHAPE" "BOX_SHAPE \<noteq> CYLINDER_SHAPE"
  by (simp_all add: PLANE_SHAPE_def SPHERE_SHAPE_def CYLINDER_SHAPE_def BOX_SHAPE_def)

lemma surfaces_fit_Nil: "surfaces_fit m cl [] []"
  by (simp add: surfaces_fit_def)

lemma surfaces_fit_append:
  "surfaces_fit m cl [ci] n1 \<Longrightarrow> surfaces_fit m cl cols n2 \<Longrightarrow>
   surfaces_fit m cl (ci # cols) (n1 @ n2)"
  by (auto simp: surfaces_fit_def)

lemma addCollision_calls:
  assumes ok: "addCollision N mat amc m c ci s = Inr s'"
  shows "\<exists>new. calls s' = calls s @ map Simbody new \<and>
           surfaces_fit m (if amc \<and> c \<noteq> None then [the c] else []) [ci] new"
proof -
  let ?cl = "if amc \<and> c \<noteq> None then [the c] else []"
  let ?t = "GetShapeType ci AND NOT SHAPE"
  consider (plane) "?t = PLANE_SHAPE"
    | (sphere) "?t \<noteq> PLANE_SHAPE" "?t = SPHERE_SHAPE"
    | (cylinder) "?t \<noteq> PLANE_SHAPE" "?t \<noteq> SPHERE_SHAPE" "?t = CYLINDER_SHAPE"
    | (box) "?t \<noteq> PLANE_SHAPE" "?t \<noteq> SPHERE_SHAPE" "?t \<noteq> CYLINDER_SHAPE" "?t = BOX_SHAPE"
    | (other) "?t \<noteq> PLANE_SHAPE" "?t \<noteq> SPHERE_SHAPE" "?t \<noteq> CYLINDER_SHAPE" "?t \<noteq> BOX_SHAPE"
    by blast
  then show ?thesis
  proof cases
    case plane
    from ok plane obtain n where n: "GetShape ci = PlaneShape n"
      by (cases "GetShape ci") (simp_all add: addCollision_def)
    from ok plane n obtain s1 where
      s1: "attachSurface N Ground ground_plane_frame
             \<lparr>geometry = HalfSpace, material = mat, thickness = None, cliques = []\<rparr> s = Inr s1"
      and s2: "attachSurface N m
             (Transform_rot (Rotation_axis (UnitVec3_neg (UnitVec3 (Vector3ToVec3 n))) XAxis))
             (joinModelClique amc c
                \<lparr>geometry = HalfSpace, material = mat, thickness = None, cliques = []\<rparr>) s1 = Inr s'"
      by (auto simp: addCollision_def Let_def seqE_eq_Inr ground_plane_frame_def)
    from attachSurface_calls [OF s1] attachSurface_calls [OF s2] obtain b where
      b: "m = Some b"
      "calls s' = calls s @ map Simbody [addContactSurface 0 ground_plane_frame
             \<lparr>geometry = HalfSpace, material = mat, thickness = None, cliques = []\<rparr>,
           addContactSurface b
             (Transform_rot (Rotation_axis (UnitVec3_neg (UnitVec3 (Vector3ToVec3 n))) XAxis))
             (joinModelClique amc c
                \<lparr>geometry = HalfSpace, material = mat, thickness = None, cliques = []\<rparr>)]"
      by (auto simp: Ground_def)
    show ?thesis
      by (rule exI, rule conjI, rule b(2))
         (simp add: surfaces_fit_def b(1) joinModelClique_cliques ground_plane_frame_def
            is_plane_def is_supported_def shape_kind_def plane)
  next
    case sphere
    from ok sphere obtain r where r: "GetShape ci = SphereShape r"
      by (cases "GetShape ci") (simp_all add: addCollision_def)
    from ok sphere r have
      "attachSurface N m (Pose2Transform (Collision_GetRelativePose ci))
         (joinModelClique amc c
            \<lparr>geometry = Sphere r, material = mat, thickness = None, cliques = []\<rparr>) s = Inr s'"
      by (simp add: addCollision_def Let_def)
    from attachSurface_calls [OF this] obtain b where b: "m = Some b"
      "calls s' = calls s @ map Simbody
         [addContactSurface b (Pose2Transform (Collision_GetRelativePose ci))
           (joinModelClique amc c
              \<lparr>geometry = Sphere r, material = mat, thickness = None, cliques = []\<rparr>)]"
      by auto
    show ?thesis
      by (rule exI, rule conjI, rule b(2))
         (simp add: surfaces_fit_def b(1) joinModelClique_cliques ground_plane_frame_def
            is_plane_def is_supported_def shape_kind_def sphere shape_kinds_distinct)
  next
    case cylinder
    from ok cylinder obtain r len where r: "GetShape ci = CylinderShape r len"
      by (cases "GetShape ci") (simp_all add: addCollision_def)
    from ok cylinder r have
      "attachSurface N m (Pose2Transform (Collision_GetRelativePose ci))
         (joinModelClique amc c
            \<lparr>geometry = TriangleMesh (createCylinderMesh ZAxis r (len / 2) 1),
             material = mat, thickness = Some 1, cliques = []\<rparr>) s = Inr s'"
      by (simp add: addCollision_def Let_def)
    from attachSurface_calls [OF this] obtain b where b: "m = Some b"
      "calls s' = calls s @ map Simbody
         [addContactSurface b (Pose2Transform (Collision_GetRelativePose ci))
           (joinModelClique amc c
            \<lparr>geometry = TriangleMesh (createCylinderMesh ZAxis r (len / 2) 1),
             material = mat, thickness = Some 1, cliques = []\<rparr>)]"
      by auto
    show ?thesis
      by (rule exI, rule conjI, rule b(2))
         (simp add: surfaces_fit_def b(1) joinModelClique_cliques ground_plane_frame_def
            is_plane_def is_supported_def shape_kind_def cylinder shape_kinds_distinct)
  next
    case box
    from ok box obtain sz where r: "GetShape ci = BoxShape sz"
      by (cases "GetShape ci") (simp_all add: addCollision_def)
    from ok box r have
      "attachSurface N m (Pose2Transform (Collision_GetRelativePose ci))
         (joinModelClique amc c
            \<lparr>geometry = TriangleMesh (createBrickMesh (Vec3_div (Vector3ToVec3 sz) 2) 6),
             material = mat, thickness = Some 1, cliques = []\<rparr>) s = Inr s'"
      by (simp add: addCollision_def Let_def)
    from attachSurface_calls [OF this] obtain b where b: "m = Some b"
      "calls s' = calls s @ map Simbody
         [addContactSurface b (Pose2Transform (Collision_GetRelativePose ci))
           (joinModelClique amc c
            \<lparr>geometry = TriangleMesh (createBrickMesh (Vec3_div (Vector3ToVec3 sz) 2) 6),
             material = mat, thickness = Some 1, cliques = []\<rparr>)]"
      by auto
    show ?thesis
      by (rule exI, rule conjI, rule b(2))
         (simp add: surfaces_fit_def b(1) joinModelClique_cliques ground_plane_frame_def
            is_plane_def is_supported_def shape_kind_def box shape_kinds_distinct)
  next
    case other
    with ok have "calls s' = calls s @ map Simbody []"
      by (auto simp: addCollision_def Let_def gzlog_def)
    then show ?thesis
      by (rule_tac x = "[]" in exI)
         (simp add: surfaces_fit_def is_plane_def is_supported_def shape_kind_def other)
  qed
qed

lemma foldE_addCollision_calls:
  assumes "foldE (addCollision N mat amc m c) cols s = Inr s'"
  shows "\<exists>new. calls s' = calls s @ map Simbody new \<and>
           surfaces_fit m (if amc \<and> c \<noteq> None then [the c] else []) cols new"
  using assms
proof (induction cols arbitrary: s)
  case Nil
  then show ?case by (intro exI [of _ "[]"]) (simp add: surfaces_fit_Nil)
next
  case (Cons ci cols)
  from Cons.prems obtain u where u: "addCollision N mat amc m c ci s = Inr u"
    "foldE (addCollision N mat amc m c) cols u = Inr s'"
    by (auto simp: seqE_eq_Inr)
  from addCollision_calls [OF u(1)] obtain n1 where n1: "calls u = calls s @ map Simbody n1"
    "surfaces_fit m (if amc \<and> c \<noteq> None then [the c] else []) [ci] n1" by blast
  from Cons.IH [OF u(2)] obtain n2 where n2: "calls s' = calls u @ map Simbody n2"
    "surfaces_fit m (if amc \<and> c \<noteq> None then [the c] else []) cols n2" by blast
  show ?case
    using n1(1) n2(1) surfaces_fit_append [OF n1(2) n2(2)]
    by (intro exI [of _ "n1 @ n2"]) simp
qed

lemma AddCollisionsToLink_calls:
  assumes "AddCollisionsToLink N l m c s = Inr s'"
  shows "\<exists>new. calls s' = calls s @ map Simbody new \<and>
     surfaces_fit m
       (if isValid c \<and> \<not> GetSelfCollide (linkHeap s l) then [the c] else [])
       (GetCollisions (linkHeap s l)) new"
proof -
  have "\<exists>new. calls s' = calls s @ map Simbody new \<and>
     surfaces_fit m
       (if (isValid c \<and> \<not> GetSelfCollide (linkHeap s l)) \<and> c \<noteq> None then [the c] else [])
       (GetCollisions (linkHeap s l)) new"
    using assms unfolding AddCollisionsToLink_def Let_def
    by (rule foldE_addCollision_calls)
  moreover have "((isValid c \<and> \<not> GetSelfCollide (linkHeap s l)) \<and> c \<noteq> None) =
      (isValid c \<and> \<not> GetSelfCollide (linkHeap s l))"
    by (auto simp: isValid_def)
  ultimately show ?thesis by (simp only:)
qed

lemma surface_ok_unjoined: "surface_ok m [] c \<Longrightarrow> surface_unjoined c"
  by (cases c) (simp_all split: if_splits)

lemma AddStatic_calls:
  assumes "AddStaticModelToSimbodySystem N M s = Inr s'"
  shows "\<exists>new. calls s' = calls s @ map Simbody new \<and> list_all surface_unjoined new"
  unfolding AddStaticModelToSimbodySystem_def
proof (rule foldE_invariant [OF assms [unfolded AddStaticModelToSimbodySystem_def],
    where P = "\<lambda>u. \<exists>new. calls u = calls s @ map Simbody new \<and> list_all surface_unjoined new"])
  show "\<exists>new. calls s = calls s @ map Simbody new \<and> list_all surface_unjoined new"
    by (intro exI [of _ "[]"]) simp
next
  fix x u v
  assume u: "\<exists>new. calls u = calls s @ map Simbody new \<and> list_all surface_unjoined new"
    and step: "(if isSimbodyLink (linkHeap u x)
         then seqE (AddCollisionsToLink N x Ground None u)
               (\<lambda>s2. Inr (updLink x (\<lambda>l. l\<lparr>masterMobod := Ground\<rparr>) s2))
         else Inr (gzlog Gzerr
                    (''simbodyLink ['' @ Link_GetName (linkHeap u x) @
                     '']is not a SimbodyLinkPtr\<newline>'') u)) = Inr v"
  from u obtain n1 where n1: "calls u = calls s @ map Simbody n1" "list_all surface_unjoined n1"
    by blast
  have "\<exists>n2. calls v = calls u @ map Simbody n2 \<and> list_all surface_unjoined n2"
  proof (cases "isSimbodyLink (linkHeap u x)")
    case True
    with step obtain w where w: "AddCollisionsToLink N x Ground None u = Inr w"
      "v = updLink x (\<lambda>l. l\<lparr>masterMobod := Ground\<rparr>) w"
      by (auto simp: seqE_eq_Inr)
    from AddCollisionsToLink_calls [OF w(1)] obtain n2 where
      "calls w = calls u @ map Simbody n2" "list_all (surface_ok Ground []) n2"
      by (auto simp: isValid_def surfaces_fit_def)
    then show ?thesis using w(2)
      by (intro exI [of _ n2]) (auto simp: updLink_def list_all_iff intro: surface_ok_unjoined)
  next
    case False
    with step have "calls v = calls u" by (auto simp: gzlog_def)
    then show ?thesis by (intro exI [of _ "[]"]) simp
  qed
  then obtain n2 where "calls v = calls u @ map Simbody n2" "list_all surface_unjoined n2" by blast
  then show "\<exists>new. calls v = calls s @ map Simbody new \<and> list_all surface_unjoined new"
    using n1 by (intro exI [of _ "n1 @ n2"]) simp
qed

text \<open>
  Claim C8, as amended.  The claim says that every contact surface created for a
  collision shape of the link joins the clique exactly when the clique id is valid and the
  link does not collide with itself.  The plane branch creates two surfaces, and the
  first, attached to Ground, never joins a clique.  What holds on every run of
  \<^verbatim>\<open>AddCollisionsToLink\<close> that returns, for every solver library: the calls it makes are
  \<^verbatim>\<open>addContactSurface\<close> calls; the surface it attaches to the passed mobilized body for
  a collision has joined exactly the passed clique when the clique id is valid and the
  link has self-collision off, and no clique otherwise; the additional half-space that the
  plane branch attaches to Ground has joined no clique; there is one additional
  half-space for each plane and one surface on the passed body for each collision
  that the switch has a branch for.  On every run of \<^verbatim>\<open>AddStaticModelToSimbodySystem\<close>
  that returns, which passes a clique id that is not valid, no attached surface has joined
  a clique.
\<close>

theorem AddCollisionsToLink_clique_membership:
  "(AddCollisionsToLink N l m c s = Inr s' \<longrightarrow>
      (\<exists>new. calls s' = calls s @ map Simbody new \<and>
         list_all (surface_ok m
           (if isValid c \<and> \<not> GetSelfCollide (linkHeap s l) then [the c] else [])) new \<and>
         length (filter is_ground_plane new) =
           length (filter is_plane (GetCollisions (linkHeap s l))) \<and>
         length (filter (\<lambda>x. \<not> is_ground_plane x) new) =
           length (filter is_supported (GetCollisions (linkHeap s l)))))
   \<and> (AddStaticModelToSimbodySystem N M s = Inr s'' \<longrightarrow>
      (\<exists>new. calls s'' = calls s @ map Simbody new \<and> list_all surface_unjoined new))"
  using AddCollisionsToLink_calls [of N l m c s s'] AddStatic_calls [of N M s s'']
  unfolding surfaces_fit_def by blast

lemma no_throw_solver: "solver no_throw c s = Inr (s\<lparr>calls := calls s @ [Simbody c]\<rparr>)"
  by (simp add: solver_def invoke_def no_throw_def)

lemma plane_type: "GetShapeType plane_collision AND NOT SHAPE = PLANE_SHAPE"
  by (simp add: plane_collision_def SHAPE_def PLANE_SHAPE_def)

lemma sphere_type: "GetShapeType sphere_collision AND NOT SHAPE = SPHERE_SHAPE"
  "SPHERE_SHAPE \<noteq> PLANE_SHAPE"
  by (simp_all add: sphere_collision_def SHAPE_def PLANE_SHAPE_def SPHERE_SHAPE_def)

lemma example_shapes:
  "GetShape plane_collision = PlaneShape (Vector3d 0 0 1)"
  "GetShape sphere_collision = SphereShape 1"
  "Collision_GetRelativePose sphere_collision = origin"
  by (simp_all add: plane_collision_def sphere_collision_def)

lemma addCollision_plane:
  "addCollision no_throw mat amc (Some b) c plane_collision s =
     Inr (s\<lparr>calls := calls s @
       [Simbody (addContactSurface 0 ground_plane_frame
          \<lparr>geometry = HalfSpace, material = mat, thickness = None, cliques = []\<rparr>),
        Simbody (addContactSurface b
          (Transform_rot (Rotation_axis (UnitVec3_neg (UnitVec3 (Vec3 0 0 1))) XAxis))
          (joinModelClique amc c
             \<lparr>geometry = HalfSpace, material = mat, thickness = None, cliques = []\<rparr>))]\<rparr>)"
  by (simp add: addCollision_def plane_type Let_def attachSurface_def Ground_def no_throw_solver
      ground_plane_frame_def example_shapes)

lemma addCollision_sphere:
  "addCollision no_throw mat amc (Some b) c sphere_collision s =
     Inr (s\<lparr>calls := calls s @
       [Simbody (addContactSurface b (Pose2Transform origin)
          (joinModelClique amc c
             \<lparr>geometry = Sphere 1, material = mat, thickness = None, cliques = []\<rparr>))]\<rparr>)"
  by (simp add: addCollision_def sphere_type Let_def attachSurface_def no_throw_solver
      example_shapes)

lemma collide_link:
  "GetCollisions (linkHeap collide_physics l) = [plane_collision, sphere_collision]"
  "GetSelfCollide (linkHeap collide_physics l) = False"
  "calls collide_physics = []"
  by (simp_all add: collide_physics_def link0_def physics0_def)

text \<open>
  Claim C8 as stated fails for a link with a plane and a sphere, self-collision off,
  attached to body 1 with the valid clique 0: three surfaces are created, and the first
  (the half-space on Ground, body 0) has joined no clique, while the two on body 1 have
  joined clique 0.
\<close>

theorem AddCollisionsToLink_ground_plane_counterexample:
  "isValid (Some 0) \<and> \<not> GetSelfCollide (linkHeap collide_physics 0)
   \<and> GetCollisions (linkHeap collide_physics 0) = [plane_collision, sphere_collision]
   \<and> attached_cliques (AddCollisionsToLink no_throw 0 (Some 1) (Some 0) collide_physics) =
       [(0, []), (1, [0]), (1, [0])]"
  by (simp add: isValid_def collide_link AddCollisionsToLink_def addCollision_plane
      addCollision_sphere attached_cliques_def joinModelClique_def joinClique_def Let_def)

lemma AddCollisionsToLink_example:
  assumes "GetCollisions (linkHeap s l) = [plane_collision, sphere_collision]"
  shows "\<exists>s'. AddCollisionsToLink no_throw l (Some b) c s = Inr s'"
  using assms
  by (simp add: AddCollisionsToLink_def Let_def addCollision_plane addCollision_sphere)

lemma AddStatic_example:
  "\<exists>s'. AddStaticModelToSimbodySystem no_throw model0 collide_physics = Inr s'"
proof -
  have l: "isSimbodyLink (linkHeap collide_physics 0)"
    by (simp add: collide_physics_def link0_def)
  obtain u where u: "AddCollisionsToLink no_throw 0 Ground None collide_physics = Inr u"
    using AddCollisionsToLink_example [OF collide_link(1), of 0 0 None] by (auto simp: Ground_def)
  show ?thesis
    using l u by (simp add: AddStaticModelToSimbodySystem_def model0_def)
qed

lemma example_kinds:
  "is_plane plane_collision" "\<not> is_plane sphere_collision"
  "is_supported plane_collision" "is_supported sphere_collision"
  by (simp_all add: is_plane_def is_supported_def shape_kind_def plane_type sphere_type)

text \<open>
  The link with a plane and a sphere: attached to body 1 with the valid clique 0, and as
  the link of a static model.
\<close>

theorem AddCollisionsToLink_clique_membership_witness:
  "\<not> isl (AddCollisionsToLink no_throw 0 (Some 1) (Some 0) collide_physics)
   \<and> (\<exists>new. calls (projr (AddCollisionsToLink no_throw 0 (Some 1) (Some 0) collide_physics)) =
              calls collide_physics @ map Simbody new
            \<and> list_all (surface_ok (Some 1) [0]) new
            \<and> length (filter is_ground_plane new) = 1
            \<and> length (filter (\<lambda>x. \<not> is_ground_plane x) new) = 2)
   \<and> \<not> isl (AddStaticModelToSimbodySystem no_throw model0 collide_physics)
   \<and> (\<exists>new. calls (projr (AddStaticModelToSimbodySystem no_throw model0 collide_physics)) =
              calls collide_physics @ map Simbody new
            \<and> list_all surface_unjoined new)"
proof -
  obtain u where u: "AddCollisionsToLink no_throw 0 (Some 1) (Some 0) collide_physics = Inr u"
    using AddCollisionsToLink_example [OF collide_link(1)] by blast
  obtain v where v: "AddStaticModelToSimbodySystem no_throw model0 collide_physics = Inr v"
    using AddStatic_example by blast
  from AddCollisionsToLink_clique_membership
    [of no_throw 0 "Some 1" "Some 0" collide_physics u model0 v] u v
  show ?thesis by (simp add: isValid_def collide_link example_kinds numeral_2_eq_2)
qed

section \<open>Theorems: mobilizer synthesis\<close>

lemma newMobilizedBody_Inr:
  "newMobilizedBody N kind p X mp Y d s = Inr (h, s1) \<Longrightarrow>
     h = nextMobod s \<and>
     s1 = s\<lparr>calls := calls s @ [Simbody (MobilizedBody kind p X mp Y d)],
            nextMobod := Suc (nextMobod s)\<rparr>"
  by (auto simp: newMobilizedBody_def seqE_eq_Inr dest!: solver_Inr)

lemma newForce_Inr:
  "newForce N c s = Inr (f, s1) \<Longrightarrow>
     f = nextForce s \<and>
     s1 = s\<lparr>calls := calls s @ [Simbody c], nextForce := Suc (nextForce s)\<rparr>"
  by (auto simp: newForce_def seqE_eq_Inr dest!: solver_Inr)

lemma attachAxisForces_Inr:
  assumes "attachAxisForces N j h nj s = Inr s'"
  shows "s' = s\<lparr>calls := calls s @ map Simbody (axis_forces (jointHeap s j) h nj),
                 nextForce := nextForce s + 3,
                 jointHeap := (jointHeap s)(j := (jointHeap s j)
                    \<lparr>limitForce := (limitForce (jointHeap s j))(nj := Some (nextForce s)),
                     damper := (damper (jointHeap s j))(nj := Some (nextForce s + 1)),
                     spring := (spring (jointHeap s j))(nj := Some (nextForce s + 2))\<rparr>)\<rparr>"
  using assms
  unfolding attachAxisForces_def Let_def
  by (auto simp: seqE_eq_Inr updJoint_def axis_forces_def dest!: newForce_Inr)

lemma axis_forces_upd [simp]:
  "axis_forces (g\<lparr>limitForce := a, damper := b, spring := c\<rparr>) h nj = axis_forces g h nj"
  by (simp add: axis_forces_def)

lemma store_fields:
  "mobod (jointHeap (updJoint j (\<lambda>g. g\<lparr>mobod := m, isReversed := r\<rparr>) u) j) = m"
  "isReversed (jointHeap (updJoint j (\<lambda>g. g\<lparr>mobod := m, isReversed := r\<rparr>) u) j) = r"
  "calls (updJoint j f u) = calls u"
  "console (updJoint j f u) = console u"
  by (simp_all add: updJoint_def)

lemma forces_fields:
  assumes "attachAxisForces N j h nj s = Inr s'"
  shows "calls s' = calls s @ map Simbody (axis_forces (jointHeap s j) h nj)"
    and "console s' = console s"
    and "axis_forces (jointHeap s' j) = axis_forces (jointHeap s j)"
  using attachAxisForces_Inr [OF assms] by (simp_all add: fun_eq_iff)

lemma body_fields:
  assumes "newMobilizedBody N kind p X mp Y d s = Inr (h, s1)"
  shows "h = nextMobod s"
    and "calls s1 = calls s @ [Simbody (MobilizedBody kind p X mp Y d)]"
    and "console s1 = console s"
    and "jointHeap s1 = jointHeap s"
  using newMobilizedBody_Inr [OF assms] by simp_all

lemma solver_fields:
  assumes "solver N c s = Inr s1"
  shows "calls s1 = calls s @ [Simbody c]" and "console s1 = console s"
  using solver_Inr [OF assms] by simp_all

lemmas body_then_unfold =
  body_then_def store_joint_def inboard0_def outboard0_def direction0_def aligned_def joint_axis_def

lemma mobilizeJoint_free_eq:
  assumes "getJointTypeName mob = ''free''"
  shows "mobilizeJoint N mob p mp s =
         body_then N mob FreeJoint None p mp (jointHeap s (getJointRef mob))
           (\<lambda>h. solver N (setDefaultTransform h
                   (if isReversedFromJoint mob
                    then Transform_inv (defxAB (jointHeap s (getJointRef mob)))
                    else defxAB (jointHeap s (getJointRef mob))))) s"
  using assms by (simp add: mobilizeJoint_def Let_def body_then_unfold)

lemma mobilizeJoint_ball_eq:
  assumes "getJointTypeName mob = ''ball''"
  shows "mobilizeJoint N mob p mp s =
         body_then N mob BallJoint None p mp (jointHeap s (getJointRef mob))
           (\<lambda>h. solver N (setDefaultRotation h
                   (if isReversedFromJoint mob
                    then Rotation_inv (Transform_R (defxAB (jointHeap s (getJointRef mob))))
                    else Transform_R (defxAB (jointHeap s (getJointRef mob)))))) s"
  using assms by (simp add: mobilizeJoint_def Let_def body_then_unfold)

lemma mobilizeJoint_screw_eq:
  assumes "getJointTypeName mob = ''screw''"
    and "GetThreadPitch (jointHeap s (getJointRef mob)) = Some pitch0"
  shows "mobilizeJoint N mob p mp s =
         body_then N mob (ScrewJoint (- 1 / (if math_equal pitch0 0 then 1000000 else pitch0)))
           (Some (Rotation_axis (joint_axis N (jointHeap s (getJointRef mob)) 0) ZAxis))
           p mp (jointHeap s (getJointRef mob))
           (\<lambda>h s1. attachAxisForces N (getJointRef mob) h 0
                     (gzlog Gzdbg (''Setting limitForce[0] for ['' @
                          Joint_GetName (jointHeap s (getJointRef mob)) @ '']\<newline>'') s1))
           (if math_equal pitch0 0 then
              gzlog Gzerr (''thread pitch should not be zero (joint is a slider?)'' @
                           '' using pitch = 1.0e6\<newline>'') s
            else s)"
  using assms by (simp add: mobilizeJoint_def Let_def body_then_unfold)

lemma mobilizeJoint_screw_null:
  assumes "getJointTypeName mob = ''screw''"
    and "GetThreadPitch (jointHeap s (getJointRef mob)) = None"
  shows "mobilizeJoint N mob p mp s = Inl (NullPointer ''SimbodyScrewJoint'')"
  using assms by (simp add: mobilizeJoint_def Let_def)

lemma mobilizeJoint_universal_eq:
  assumes "getJointTypeName mob = ''universal''"
  shows "mobilizeJoint N mob p mp s =
         body_then N mob UniversalJoint
           (Some (Rotation_axes
                    (joint_axis N (jointHeap s (getJointRef mob)) AXIS_PARENT) XAxis
                    (joint_axis N (jointHeap s (getJointRef mob)) AXIS_CHILD) YAxis))
           p mp (jointHeap s (getJointRef mob))
           (\<lambda>h. foldE (attachAxisForces N (getJointRef mob) h) [0, 1]) s"
  using assms by (simp add: mobilizeJoint_def Let_def body_then_unfold)

lemma mobilizeJoint_revolute_eq:
  assumes "getJointTypeName mob = ''revolute''"
  shows "mobilizeJoint N mob p mp s =
         body_then N mob PinJoint
           (Some (Rotation_axis (joint_axis N (jointHeap s (getJointRef mob)) 0) ZAxis))
           p mp (jointHeap s (getJointRef mob))
           (\<lambda>h. attachAxisForces N (getJointRef mob) h 0) s"
  using assms by (simp add: mobilizeJoint_def Let_def body_then_unfold)

lemma mobilizeJoint_prismatic_eq:
  assumes "getJointTypeName mob = ''prismatic''"
  shows "mobilizeJoint N mob p mp s =
         body_then N mob SliderJoint
           (Some (Rotation_axis (joint_axis N (jointHeap s (getJointRef mob)) 0) XAxis))
           p mp (jointHeap s (getJointRef mob))
           (\<lambda>h. attachAxisForces N (getJointRef mob) h 0) s"
  using assms by (simp add: mobilizeJoint_def Let_def body_then_unfold)

lemma mobilizeJoint_other_eq:
  assumes "\<not> recognised (getJointTypeName mob)"
  shows "mobilizeJoint N mob p mp s =
        store_joint mob (None, gzlog Gzerr
           (''Simbody joint type ['' @ getJointTypeName mob @ ''] not implemented.\<newline>'') s)"
  using assms by (simp add: mobilizeJoint_def Let_def recognised_def store_joint_def)

lemma body_then_Inr:
  assumes "body_then N mob kind R p mp g F s0 = Inr (m, s')"
  obtains s1 s2 where
    "calls s1 = calls s0 @ [Simbody (MobilizedBody kind p (aligned R (inboard0 mob g)) mp
                                       (aligned R (outboard0 mob g)) (direction0 mob))]"
    and "console s1 = console s0" and "jointHeap s1 = jointHeap s0"
    and "F (nextMobod s0) s1 = Inr s2"
    and "m = Some (nextMobod s0)"
    and "s' = updJoint (getJointRef mob)
                (\<lambda>g. g\<lparr>mobod := Some (nextMobod s0), isReversed := isReversedFromJoint mob\<rparr>) s2"
proof -
  from assms obtain h s1 s2 where
    1: "newMobilizedBody N kind p (aligned R (inboard0 mob g)) mp
          (aligned R (outboard0 mob g)) (direction0 mob) s0 = Inr (h, s1)" and
    2: "F h s1 = Inr s2" and
    3: "m = Some h" "s' = updJoint (getJointRef mob)
                (\<lambda>g. g\<lparr>mobod := Some h, isReversed := isReversedFromJoint mob\<rparr>) s2"
    by (auto simp: body_then_def store_joint_def seqE_eq_Inr)
  from body_fields [OF 1] 2 3 that show thesis by simp
qed

lemma solver_total:
  "\<forall>h c. throws N h c = None \<Longrightarrow> solver N c s = Inr (s\<lparr>calls := calls s @ [Simbody c]\<rparr>)"
  by (simp add: solver_def invoke_def)

lemma newForce_total:
  "\<forall>h c. throws N h c = None \<Longrightarrow> \<exists>f s1. newForce N c s = Inr (f, s1)"
  by (simp add: newForce_def solver_total)

lemma attachAxisForces_total:
  assumes "\<forall>h c. throws N h c = None"
  shows "\<exists>s'. attachAxisForces N j h nj s = Inr s'"
proof -
  obtain f1 s1 where 1: "newForce N (MobilityLinearStop h nj (GetStopStiffness (jointHeap s j) nj)
       (GetStopDissipation (jointHeap s j) nj) (GetLowerLimit (jointHeap s j) nj)
       (GetUpperLimit (jointHeap s j) nj)) s = Inr (f1, s1)"
    using newForce_total [OF assms] by blast
  obtain f2 s2 where 2: "newForce N (MobilityLinearDamper h nj (GetDamping (jointHeap s j) nj))
       (updJoint j (\<lambda>g. g\<lparr>limitForce := (limitForce g)(nj := Some f1)\<rparr>) s1) = Inr (f2, s2)"
    using newForce_total [OF assms] by blast
  obtain f3 s3 where 3: "newForce N (MobilityLinearSpring h nj (GetStiffness (jointHeap s j) nj)
       (GetSpringReferencePosition (jointHeap s j) nj))
       (updJoint j (\<lambda>g. g\<lparr>damper := (damper g)(nj := Some f2)\<rparr>) s2) = Inr (f3, s3)"
    using newForce_total [OF assms] by blast
  show ?thesis
    by (simp add: attachAxisForces_def Let_def 1 2 3)
qed

lemma body_then_total:
  assumes "\<forall>h c. throws N h c = None" and "\<And>h s1. \<exists>s2. F h s1 = Inr s2"
  shows "\<exists>s'. body_then N mob kind R p mp g F s0 = Inr (Some (nextMobod s0), s')"
proof -
  let ?c = "MobilizedBody kind p (aligned R (inboard0 mob g)) mp
              (aligned R (outboard0 mob g)) (direction0 mob)"
  let ?s1 = "s0\<lparr>calls := calls s0 @ [Simbody ?c], nextMobod := Suc (nextMobod s0)\<rparr>"
  have 1: "newMobilizedBody N kind p (aligned R (inboard0 mob g)) mp
              (aligned R (outboard0 mob g)) (direction0 mob) s0 = Inr (nextMobod s0, ?s1)"
    by (simp add: newMobilizedBody_def solver_total [OF assms(1)])
  obtain s2 where 2: "F (nextMobod s0) ?s1 = Inr s2"
    using assms(2) by blast
  show ?thesis
    by (simp add: body_then_def store_joint_def 1 2)
qed

lemma seqE_eq_Inl:
  "seqE r k = Inl f \<longleftrightarrow> r = Inl f \<or> (\<exists>x. r = Inr x \<and> k x = Inl f)"
  by (cases r) (simp_all add: seqE_def)

lemma solver_failure:
  "solver N c s = Inl f \<Longrightarrow> library_failure f"
  by (auto simp: solver_def invoke_def library_failure_def split: option.splits)

lemma newForce_failure:
  "newForce N c s = Inl f \<Longrightarrow> library_failure f"
  by (auto simp: newForce_def seqE_eq_Inl dest: solver_failure)

lemma attachAxisForces_failure:
  "attachAxisForces N j h nj s = Inl f \<Longrightarrow> library_failure f"
  by (auto simp: attachAxisForces_def Let_def seqE_eq_Inl dest: newForce_failure)

lemma body_then_failure:
  assumes "body_then N mob kind R p mp g F s0 = Inl f"
    and "\<And>h s1. F h s1 = Inl f \<Longrightarrow> library_failure f"
  shows "library_failure f"
  using assms
  by (auto simp: body_then_def store_joint_def newMobilizedBody_def seqE_eq_Inl
      dest: solver_failure)

lemma mobilizeJoint_calls:
  assumes ok: "mobilizeJoint N mob p mp s = Inr (m, s')"
  shows "calls s' = calls s @
           map Simbody (joint_calls N mob (jointHeap s (getJointRef mob)) p mp (nextMobod s))"
    and "console s' = console s @ joint_lines mob (jointHeap s (getJointRef mob))"
    and "m = (if recognised (getJointTypeName mob) then Some (nextMobod s) else None)"
    and "mobod (jointHeap s' (getJointRef mob)) = m"
    and "isReversed (jointHeap s' (getJointRef mob)) = isReversedFromJoint mob"
proof -
  let ?t = "getJointTypeName mob"
  let ?j = "getJointRef mob"
  let ?g = "jointHeap s ?j"
  let ?concl = "calls s' = calls s @
           map Simbody (joint_calls N mob ?g p mp (nextMobod s))
    \<and> console s' = console s @ joint_lines mob ?g
    \<and> m = (if recognised ?t then Some (nextMobod s) else None)
    \<and> mobod (jointHeap s' ?j) = m
    \<and> isReversed (jointHeap s' ?j) = isReversedFromJoint mob"
  note unf = store_fields joint_calls_def joint_lines_def recognised_def Let_def
    inboard0_def outboard0_def direction0_def
  consider (free) "?t = ''free''" | (screw) "?t = ''screw''" | (universal) "?t = ''universal''"
    | (revolute) "?t = ''revolute''" | (prismatic) "?t = ''prismatic''" | (ball) "?t = ''ball''"
    | (other) "\<not> recognised ?t"
    unfolding recognised_def by blast
  then have ?concl
  proof cases
    case free
    from ok obtain s1 s2 where f:
      "calls s1 = calls s @ [Simbody (MobilizedBody FreeJoint p (aligned None (inboard0 mob ?g)) mp
                                       (aligned None (outboard0 mob ?g)) (direction0 mob))]"
      "console s1 = console s" "jointHeap s1 = jointHeap s"
      "solver N (setDefaultTransform (nextMobod s)
         (if isReversedFromJoint mob then Transform_inv (defxAB ?g) else defxAB ?g)) s1 = Inr s2"
      "m = Some (nextMobod s)"
      "s' = updJoint ?j (\<lambda>g. g\<lparr>mobod := Some (nextMobod s),
                                  isReversed := isReversedFromJoint mob\<rparr>) s2"
      unfolding mobilizeJoint_free_eq [OF free] by (rule body_then_Inr)
    show ?thesis
      using f(1,2,3,5,6) solver_fields [OF f(4)] free by (simp add: unf)
  next
    case ball
    from ok obtain s1 s2 where f:
      "calls s1 = calls s @ [Simbody (MobilizedBody BallJoint p (aligned None (inboard0 mob ?g)) mp
                                       (aligned None (outboard0 mob ?g)) (direction0 mob))]"
      "console s1 = console s" "jointHeap s1 = jointHeap s"
      "solver N (setDefaultRotation (nextMobod s)
         (if isReversedFromJoint mob then Rotation_inv (Transform_R (defxAB ?g))
          else Transform_R (defxAB ?g))) s1 = Inr s2"
      "m = Some (nextMobod s)"
      "s' = updJoint ?j (\<lambda>g. g\<lparr>mobod := Some (nextMobod s),
                                  isReversed := isReversedFromJoint mob\<rparr>) s2"
      unfolding mobilizeJoint_ball_eq [OF ball] by (rule body_then_Inr)
    show ?thesis
      using f(1,2,3,5,6) solver_fields [OF f(4)] ball by (simp add: unf)
  next
    case screw
    obtain pitch0 where pitch0: "GetThreadPitch ?g = Some pitch0"
      using ok mobilizeJoint_screw_null [OF screw, of s N p mp]
      by (cases "GetThreadPitch ?g") simp_all
    let ?s0 = "if math_equal pitch0 0 then
                 gzlog Gzerr (''thread pitch should not be zero (joint is a slider?)'' @
                              '' using pitch = 1.0e6\<newline>'') s
               else s"
    let ?R = "Some (Rotation_axis (joint_axis N ?g 0) ZAxis)"
    have s0: "calls ?s0 = calls s" "nextMobod ?s0 = nextMobod s" "jointHeap ?s0 = jointHeap s"
      "console ?s0 = console s @ (if math_equal pitch0 0 then
         [(Gzerr, ''thread pitch should not be zero (joint is a slider?) using pitch = 1.0e6\<newline>'')]
         else [])"
      by (simp_all add: gzlog_def)
    from ok obtain s1 s2 where f:
      "calls s1 = calls ?s0 @ [Simbody (MobilizedBody
           (ScrewJoint (- 1 / (if math_equal pitch0 0 then 1000000 else pitch0))) p
           (aligned ?R (inboard0 mob ?g)) mp (aligned ?R (outboard0 mob ?g)) (direction0 mob))]"
      "console s1 = console ?s0" "jointHeap s1 = jointHeap ?s0"
      "attachAxisForces N ?j (nextMobod ?s0) 0
         (gzlog Gzdbg (''Setting limitForce[0] for ['' @ Joint_GetName ?g @ '']\<newline>'') s1)
         = Inr s2"
      "m = Some (nextMobod ?s0)"
      "s' = updJoint ?j (\<lambda>g. g\<lparr>mobod := Some (nextMobod ?s0),
                                  isReversed := isReversedFromJoint mob\<rparr>) s2"
      unfolding mobilizeJoint_screw_eq [OF screw pitch0] by (rule body_then_Inr)
    have g: "calls (gzlog Gzdbg x s1) = calls s1" "jointHeap (gzlog Gzdbg x s1) = jointHeap s1"
      "console (gzlog Gzdbg x s1) = console s1 @ [(Gzdbg, x)]" for x
      by (simp_all add: gzlog_def)
    show ?thesis
      using f(1,2,3,5,6) forces_fields(1,2) [OF f(4)] screw pitch0
      by (simp add: unf s0 g)
  next
    case universal
    let ?R = "Some (Rotation_axes (joint_axis N ?g AXIS_PARENT) XAxis
                      (joint_axis N ?g AXIS_CHILD) YAxis)"
    from ok obtain s1 s2 where f:
      "calls s1 = calls s @ [Simbody (MobilizedBody UniversalJoint p
           (aligned ?R (inboard0 mob ?g)) mp (aligned ?R (outboard0 mob ?g)) (direction0 mob))]"
      "console s1 = console s" "jointHeap s1 = jointHeap s"
      "foldE (attachAxisForces N ?j (nextMobod s)) [0, 1] s1 = Inr s2"
      "m = Some (nextMobod s)"
      "s' = updJoint ?j (\<lambda>g. g\<lparr>mobod := Some (nextMobod s),
                                  isReversed := isReversedFromJoint mob\<rparr>) s2"
      unfolding mobilizeJoint_universal_eq [OF universal] by (rule body_then_Inr)
    from f(4) obtain sa where
      a: "attachAxisForces N ?j (nextMobod s) 0 s1 = Inr sa" and
      b: "attachAxisForces N ?j (nextMobod s) 1 sa = Inr s2"
      by (auto simp: seqE_eq_Inr)
    show ?thesis
      using f(1,2,3,5,6) forces_fields [OF a] forces_fields(1,2) [OF b] universal
      by (simp add: unf)
  next
    case revolute
    let ?R = "Some (Rotation_axis (joint_axis N ?g 0) ZAxis)"
    from ok obtain s1 s2 where f:
      "calls s1 = calls s @ [Simbody (MobilizedBody PinJoint p
           (aligned ?R (inboard0 mob ?g)) mp (aligned ?R (outboard0 mob ?g)) (direction0 mob))]"
      "console s1 = console s" "jointHeap s1 = jointHeap s"
      "attachAxisForces N ?j (nextMobod s) 0 s1 = Inr s2"
      "m = Some (nextMobod s)"
      "s' = updJoint ?j (\<lambda>g. g\<lparr>mobod := Some (nextMobod s),
                                  isReversed := isReversedFromJoint mob\<rparr>) s2"
      unfolding mobilizeJoint_revolute_eq [OF revolute] by (rule body_then_Inr)
    show ?thesis
      using f(1,2,3,5,6) forces_fields(1,2) [OF f(4)] revolute by (simp add: unf)
  next
    case prismatic
    let ?R = "Some (Rotation_axis (joint_axis N ?g 0) XAxis)"
    from ok obtain s1 s2 where f:
      "calls s1 = calls s @ [Simbody (MobilizedBody SliderJoint p
           (aligned ?R (inboard0 mob ?g)) mp (aligned ?R (outboard0 mob ?g)) (direction0 mob))]"
      "console s1 = console s" "jointHeap s1 = jointHeap s"
      "attachAxisForces N ?j (nextMobod s) 0 s1 = Inr s2"
      "m = Some (nextMobod s)"
      "s' = updJoint ?j (\<lambda>g. g\<lparr>mobod := Some (nextMobod s),
                                  isReversed := isReversedFromJoint mob\<rparr>) s2"
      unfolding mobilizeJoint_prismatic_eq [OF prismatic] by (rule body_then_Inr)
    show ?thesis
      using f(1,2,3,5,6) forces_fields(1,2) [OF f(4)] prismatic by (simp add: unf)
  next
    case other
    from ok have "m = None"
      "s' = updJoint ?j (\<lambda>g. g\<lparr>mobod := None, isReversed := isReversedFromJoint mob\<rparr>)
              (gzlog Gzerr (''Simbody joint type ['' @ ?t @ ''] not implemented.\<newline>'') s)"
      unfolding mobilizeJoint_other_eq [OF other] by (auto simp: store_joint_def)
    then show ?thesis
      using other by (simp add: store_fields joint_calls_def joint_lines_def Let_def gzlog_def
          recognised_def)
  qed
  then show "calls s' = calls s @
           map Simbody (joint_calls N mob (jointHeap s (getJointRef mob)) p mp (nextMobod s))"
    and "console s' = console s @ joint_lines mob (jointHeap s (getJointRef mob))"
    and "m = (if recognised (getJointTypeName mob) then Some (nextMobod s) else None)"
    and "mobod (jointHeap s' (getJointRef mob)) = m"
    and "isReversed (jointHeap s' (getJointRef mob)) = isReversedFromJoint mob"
    by blast+
qed

lemma mobilizeJoint_total:
  assumes nt: "\<forall>h c. throws N h c = None"
    and rec: "recognised (getJointTypeName mob)"
    and pitch: "getJointTypeName mob = ''screw'' \<Longrightarrow>
                  GetThreadPitch (jointHeap s (getJointRef mob)) \<noteq> None"
  shows "\<exists>s'. mobilizeJoint N mob p mp s = Inr (Some (nextMobod s), s')"
proof -
  let ?t = "getJointTypeName mob"
  let ?g = "jointHeap s (getJointRef mob)"
  have forces: "\<exists>s2. attachAxisForces N j h nj s1 = Inr s2" for j h nj s1
    by (rule attachAxisForces_total [OF nt])
  have two: "\<exists>s2. foldE (attachAxisForces N j h) [0, 1] s1 = Inr s2" for j h s1
  proof -
    obtain sa where a: "attachAxisForces N j h 0 s1 = Inr sa" using forces by blast
    obtain sb where b: "attachAxisForces N j h 1 sa = Inr sb" using forces by blast
    show ?thesis using a b by simp
  qed
  have one: "\<exists>s2. solver N c s1 = Inr s2" for c s1
    by (simp add: solver_total [OF nt])
  consider (free) "?t = ''free''" | (screw) "?t = ''screw''" | (universal) "?t = ''universal''"
    | (revolute) "?t = ''revolute''" | (prismatic) "?t = ''prismatic''" | (ball) "?t = ''ball''"
    using rec unfolding recognised_def by blast
  then show ?thesis
  proof cases
    case free
    show ?thesis unfolding mobilizeJoint_free_eq [OF free]
      by (rule body_then_total [OF nt]) (rule one)
  next
    case ball
    show ?thesis unfolding mobilizeJoint_ball_eq [OF ball]
      by (rule body_then_total [OF nt]) (rule one)
  next
    case universal
    show ?thesis unfolding mobilizeJoint_universal_eq [OF universal]
      by (rule body_then_total [OF nt]) (rule two)
  next
    case revolute
    show ?thesis unfolding mobilizeJoint_revolute_eq [OF revolute]
      by (rule body_then_total [OF nt]) (rule forces)
  next
    case prismatic
    show ?thesis unfolding mobilizeJoint_prismatic_eq [OF prismatic]
      by (rule body_then_total [OF nt]) (rule forces)
  next
    case screw
    from pitch [OF screw] obtain pitch0 where pitch0: "GetThreadPitch ?g = Some pitch0"
      by blast
    let ?s0 = "if math_equal pitch0 0 then
                 gzlog Gzerr (''thread pitch should not be zero (joint is a slider?)'' @
                              '' using pitch = 1.0e6\<newline>'') s
               else s"
    have n: "nextMobod ?s0 = nextMobod s" by (simp add: gzlog_def)
    have "\<exists>s'. body_then N mob (ScrewJoint (- 1 / (if math_equal pitch0 0 then 1000000 else pitch0)))
           (Some (Rotation_axis (joint_axis N ?g 0) ZAxis)) p mp ?g
           (\<lambda>h s1. attachAxisForces N (getJointRef mob) h 0
                     (gzlog Gzdbg (''Setting limitForce[0] for ['' @
                          Joint_GetName ?g @ '']\<newline>'') s1)) ?s0
           = Inr (Some (nextMobod ?s0), s')"
      by (rule body_then_total [OF nt]) (rule forces)
    then show ?thesis unfolding mobilizeJoint_screw_eq [OF screw pitch0] n .
  qed
qed

lemma mobilizeJoint_screw_failure:
  assumes "getJointTypeName mob = ''screw''"
    and "GetThreadPitch (jointHeap s (getJointRef mob)) = Some pitch0"
    and "mobilizeJoint N mob p mp s = Inl f"
  shows "library_failure f"
  using assms(3) unfolding mobilizeJoint_screw_eq [OF assms(1,2)]
  by (rule body_then_failure) (rule attachAxisForces_failure)

lemma no_throw_throws: "\<forall>h c. throws no_throw h c = None"
  by (simp add: no_throw_def)

lemma physics2_fields:
  "nextMobod physics2 = 1" "calls physics2 = []" "console physics2 = []"
  "jointHeap physics2 0 = pin_joint" "jointHeap physics2 1 = screw_joint"
  "jointHeap physics2 (Suc 0) = screw_joint"
  by (simp_all add: physics2_def physics0_def)

lemma pin_joint_fields:
  "xPA pin_joint = frameA" "xCB pin_joint = frameB"
  "GetStopStiffness pin_joint nj = 100" "GetStopDissipation pin_joint nj = 1"
  "GetLowerLimit pin_joint nj = - 1" "GetUpperLimit pin_joint nj = 1"
  "GetDamping pin_joint nj = 0" "GetStiffness pin_joint nj = 0"
  "GetSpringReferencePosition pin_joint nj = 0"
  by (simp_all add: pin_joint_def joint0_def)

lemma screw_joint_fields:
  "GetThreadPitch screw_joint = Some 0" "Joint_GetName screw_joint = ''screw''"
  "GetStopStiffness screw_joint nj = 100" "GetStopDissipation screw_joint nj = 1"
  "GetLowerLimit screw_joint nj = - 1" "GetUpperLimit screw_joint nj = 1"
  "GetDamping screw_joint nj = 0" "GetStiffness screw_joint nj = 0"
  "GetSpringReferencePosition screw_joint nj = 0"
  by (simp_all add: screw_joint_def pin_joint_def joint0_def)

lemma mobilizer_fields:
  "getJointTypeName pin_forward = ''revolute''" "getJointRef pin_forward = 0"
  "isReversedFromJoint pin_forward = False"
  "getJointTypeName pin_reversed = ''revolute''" "getJointRef pin_reversed = 0"
  "isReversedFromJoint pin_reversed = True"
  "getJointTypeName universal_forward = ''universal''" "getJointRef universal_forward = 0"
  "isReversedFromJoint universal_forward = False"
  "getJointTypeName screw_forward = ''screw''" "getJointRef screw_forward = 1"
  "isReversedFromJoint screw_forward = False"
  by (simp_all add: pin_forward_def pin_reversed_def universal_forward_def screw_forward_def)

lemma joint_calls_head:
  assumes "recognised (getJointTypeName mob)"
  shows "\<exists>kind R rest.
           joint_calls N mob g p mp h =
             MobilizedBody kind p
               (aligned R (if isReversedFromJoint mob then xCB g else xPA g)) mp
               (aligned R (if isReversedFromJoint mob then xPA g else xCB g))
               (if isReversedFromJoint mob then Reverse else Forward) # rest
           \<and> \<not> list_ex is_mobilized_body rest"
  using assms unfolding recognised_def joint_calls_def Let_def
  by (elim disjE) (auto simp: axis_forces_def)

lemma joint_calls_forces:
  assumes "getJointTypeName mob = ''revolute'' \<or> getJointTypeName mob = ''prismatic'' \<or>
           getJointTypeName mob = ''screw'' \<or> getJointTypeName mob = ''universal''"
  shows "filter is_force_element (joint_calls N mob g p mp h) =
           concat (map (axis_forces g h) (controllable_axes (getJointTypeName mob)))"
  using assms unfolding joint_calls_def Let_def controllable_axes_def
  by (elim disjE) (simp_all add: axis_forces_def)

text \<open>
  Claim C4.  Whatever the solver library does, when the branch for a mobilizer that corresponds
  to an input joint returns, the handle it returns and the graph's reversed flag are
  the ones stored on the joint descriptor.  If a mobilized body was constructed
  (the handle is valid), it is the next body of the solver's table, and the construction
  is the first new solver call and the only construction of a mobilized body among them:
  for a reversed joint its inboard frame is built on the joint's child-side transform
  \<open>xCB\<close>, its outboard frame on the parent-side transform \<open>xPA\<close>, and the direction is
  Reverse; otherwise the inboard frame is built on \<open>xPA\<close>, the outboard frame on \<open>xCB\<close>,
  and the direction is Forward (\<open>aligned R\<close> is the rotation of the frame onto the
  joint's axis that the branch of the joint type applies to both frames, or nothing).
  If no mobilized body was constructed, no solver call was made.  If the solver library
  does not throw, the branch returns with a valid handle for each of the six known joint
  types (a screw joint being a screw joint descriptor).
\<close>

theorem mobilizeJoint_frames_follow_reversed_flag:
  "(\<forall>m s'. mobilizeJoint N mob p mp s = Inr (m, s') \<longrightarrow>
      mobod (jointHeap s' (getJointRef mob)) = m \<and>
      isReversed (jointHeap s' (getJointRef mob)) = isReversedFromJoint mob \<and>
      (m = None \<longrightarrow> calls s' = calls s) \<and>
      (\<forall>h. m = Some h \<longrightarrow>
         h = nextMobod s \<and>
         (\<exists>kind R rest.
            \<not> list_ex is_mobilized_body rest \<and>
            (isReversedFromJoint mob \<longrightarrow>
               calls s' = calls s @ map Simbody
                 (MobilizedBody kind p
                    (aligned R (xCB (jointHeap s (getJointRef mob)))) mp
                    (aligned R (xPA (jointHeap s (getJointRef mob)))) Reverse # rest)) \<and>
            (\<not> isReversedFromJoint mob \<longrightarrow>
               calls s' = calls s @ map Simbody
                 (MobilizedBody kind p
                    (aligned R (xPA (jointHeap s (getJointRef mob)))) mp
                    (aligned R (xCB (jointHeap s (getJointRef mob)))) Forward # rest))))) \<and>
   ((\<forall>h c. throws N h c = None) \<and> recognised (getJointTypeName mob) \<and>
    (getJointTypeName mob = ''screw'' \<longrightarrow>
       GetThreadPitch (jointHeap s (getJointRef mob)) \<noteq> None) \<longrightarrow>
    (\<exists>s'. mobilizeJoint N mob p mp s = Inr (Some (nextMobod s), s')))"
proof (intro conjI allI impI)
  fix m s'
  assume ok: "mobilizeJoint N mob p mp s = Inr (m, s')"
  note c = mobilizeJoint_calls [OF ok]
  show "mobod (jointHeap s' (getJointRef mob)) = m" by (rule c(4))
  show "isReversed (jointHeap s' (getJointRef mob)) = isReversedFromJoint mob" by (rule c(5))
  {
    assume "m = None"
    with c(3) have "\<not> recognised (getJointTypeName mob)" by (simp split: if_splits)
    then have "joint_calls N mob (jointHeap s (getJointRef mob)) p mp (nextMobod s) = []"
      by (simp add: joint_calls_def recognised_def Let_def)
    with c(1) show "calls s' = calls s" by simp
  }
  {
    fix h
    assume h: "m = Some h"
    with c(3) have r: "recognised (getJointTypeName mob)" and hn: "h = nextMobod s"
      by (simp_all split: if_splits)
    show "h = nextMobod s" by (rule hn)
    from joint_calls_head [OF r, of N "jointHeap s (getJointRef mob)" p mp "nextMobod s"]
    obtain kind R rest where
      jc: "joint_calls N mob (jointHeap s (getJointRef mob)) p mp (nextMobod s) =
             MobilizedBody kind p
               (aligned R (if isReversedFromJoint mob then xCB (jointHeap s (getJointRef mob))
                           else xPA (jointHeap s (getJointRef mob)))) mp
               (aligned R (if isReversedFromJoint mob then xPA (jointHeap s (getJointRef mob))
                           else xCB (jointHeap s (getJointRef mob))))
               (if isReversedFromJoint mob then Reverse else Forward) # rest" and
      nb: "\<not> list_ex is_mobilized_body rest"
      by blast
    show "\<exists>kind R rest.
            \<not> list_ex is_mobilized_body rest \<and>
            (isReversedFromJoint mob \<longrightarrow>
               calls s' = calls s @ map Simbody
                 (MobilizedBody kind p
                    (aligned R (xCB (jointHeap s (getJointRef mob)))) mp
                    (aligned R (xPA (jointHeap s (getJointRef mob)))) Reverse # rest)) \<and>
            (\<not> isReversedFromJoint mob \<longrightarrow>
               calls s' = calls s @ map Simbody
                 (MobilizedBody kind p
                    (aligned R (xPA (jointHeap s (getJointRef mob)))) mp
                    (aligned R (xCB (jointHeap s (getJointRef mob)))) Forward # rest))"
      using c(1) nb unfolding jc
      by (intro exI [of _ kind] exI [of _ R] exI [of _ rest]) simp
  }
next
  assume a: "(\<forall>h c. throws N h c = None) \<and> recognised (getJointTypeName mob) \<and>
    (getJointTypeName mob = ''screw'' \<longrightarrow>
       GetThreadPitch (jointHeap s (getJointRef mob)) \<noteq> None)"
  then show "\<exists>s'. mobilizeJoint N mob p mp s = Inr (Some (nextMobod s), s')"
    by (intro mobilizeJoint_total) simp_all
qed

theorem mobilizeJoint_frames_follow_reversed_flag_witness:
  "(\<exists>s' kind R rest.
      mobilizeJoint no_throw pin_forward Ground mass0 physics2 = Inr (Some 1, s') \<and>
      mobod (jointHeap s' 0) = Some 1 \<and> isReversed (jointHeap s' 0) = False \<and>
      calls s' = map Simbody (MobilizedBody kind Ground (aligned R frameA) mass0
                                (aligned R frameB) Forward # rest) \<and>
      \<not> list_ex is_mobilized_body rest) \<and>
   (\<exists>s' kind R rest.
      mobilizeJoint no_throw pin_reversed Ground mass0 physics2 = Inr (Some 1, s') \<and>
      mobod (jointHeap s' 0) = Some 1 \<and> isReversed (jointHeap s' 0) = True \<and>
      calls s' = map Simbody (MobilizedBody kind Ground (aligned R frameB) mass0
                                (aligned R frameA) Reverse # rest) \<and>
      \<not> list_ex is_mobilized_body rest) \<and>
   frameA \<noteq> frameB"
proof -
  note fwd = mobilizeJoint_frames_follow_reversed_flag
    [of no_throw pin_forward Ground mass0 physics2]
  note rev = mobilizeJoint_frames_follow_reversed_flag
    [of no_throw pin_reversed Ground mass0 physics2]
  have rec: "recognised ''revolute''" by (simp add: recognised_def)
  have "\<exists>s'. mobilizeJoint no_throw pin_forward Ground mass0 physics2 =
               Inr (Some (nextMobod physics2), s')"
    using fwd [THEN conjunct2] no_throw_throws rec by (simp add: mobilizer_fields)
  then obtain s1 where
    r1: "mobilizeJoint no_throw pin_forward Ground mass0 physics2 = Inr (Some 1, s1)"
    by (auto simp: physics2_fields)
  have "\<exists>s'. mobilizeJoint no_throw pin_reversed Ground mass0 physics2 =
               Inr (Some (nextMobod physics2), s')"
    using rev [THEN conjunct2] no_throw_throws rec by (simp add: mobilizer_fields)
  then obtain s2 where
    r2: "mobilizeJoint no_throw pin_reversed Ground mass0 physics2 = Inr (Some 1, s2)"
    by (auto simp: physics2_fields)
  have f1: "mobod (jointHeap s1 0) = Some 1 \<and> isReversed (jointHeap s1 0) = False \<and>
      (\<exists>kind R rest. \<not> list_ex is_mobilized_body rest \<and>
         calls s1 = map Simbody (MobilizedBody kind Ground (aligned R frameA) mass0
                                   (aligned R frameB) Forward # rest))"
    using fwd [THEN conjunct1, THEN spec, THEN spec, THEN mp, OF r1]
    by (simp add: mobilizer_fields physics2_fields pin_joint_fields)
  have f2: "mobod (jointHeap s2 0) = Some 1 \<and> isReversed (jointHeap s2 0) = True \<and>
      (\<exists>kind R rest. \<not> list_ex is_mobilized_body rest \<and>
         calls s2 = map Simbody (MobilizedBody kind Ground (aligned R frameB) mass0
                                   (aligned R frameA) Reverse # rest))"
    using rev [THEN conjunct1, THEN spec, THEN spec, THEN mp, OF r2]
    by (simp add: mobilizer_fields physics2_fields pin_joint_fields)
  have ne: "frameA \<noteq> frameB" by (simp add: frameA_def frameB_def)
  from r1 f1 have a: "\<exists>s' kind R rest.
      mobilizeJoint no_throw pin_forward Ground mass0 physics2 = Inr (Some 1, s') \<and>
      mobod (jointHeap s' 0) = Some 1 \<and> isReversed (jointHeap s' 0) = False \<and>
      calls s' = map Simbody (MobilizedBody kind Ground (aligned R frameA) mass0
                                (aligned R frameB) Forward # rest) \<and>
      \<not> list_ex is_mobilized_body rest"
    by blast
  from r2 f2 have b: "\<exists>s' kind R rest.
      mobilizeJoint no_throw pin_reversed Ground mass0 physics2 = Inr (Some 1, s') \<and>
      mobod (jointHeap s' 0) = Some 1 \<and> isReversed (jointHeap s' 0) = True \<and>
      calls s' = map Simbody (MobilizedBody kind Ground (aligned R frameB) mass0
                                (aligned R frameA) Reverse # rest) \<and>
      \<not> list_ex is_mobilized_body rest"
    by blast
  from a b ne show ?thesis by (intro conjI)
qed

text \<open>
  Claim C5.  For a mobilizer that corresponds to an input joint of type revolute, prismatic,
  screw or universal: whatever the solver library does, when the branch returns, the
  force elements among the new solver calls are, for each controllable axis in order
  (axis 0, and for a universal joint axis 0 then axis 1), exactly one limit stop built
  from the joint's stop stiffness, stop dissipation, lower limit and upper limit, then
  exactly one damper built from the joint's damping, whatever its value, then exactly one
  spring built from the joint's stiffness and spring reference position, all on the
  mobilized body just constructed.  If the solver library does not throw (and a screw
  joint is a screw joint descriptor), the branch returns.
\<close>

theorem mobilizeJoint_axis_force_elements:
  assumes "getJointTypeName mob = ''revolute'' \<or> getJointTypeName mob = ''prismatic'' \<or>
           getJointTypeName mob = ''screw'' \<or> getJointTypeName mob = ''universal''"
  shows "(\<forall>m s'. mobilizeJoint N mob p mp s = Inr (m, s') \<longrightarrow>
            m = Some (nextMobod s) \<and>
            (\<exists>new. calls s' = calls s @ map Simbody new \<and>
               filter is_force_element new =
                 concat (map (\<lambda>nj.
                    [MobilityLinearStop (nextMobod s) nj
                       (GetStopStiffness (jointHeap s (getJointRef mob)) nj)
                       (GetStopDissipation (jointHeap s (getJointRef mob)) nj)
                       (GetLowerLimit (jointHeap s (getJointRef mob)) nj)
                       (GetUpperLimit (jointHeap s (getJointRef mob)) nj),
                     MobilityLinearDamper (nextMobod s) nj
                       (GetDamping (jointHeap s (getJointRef mob)) nj),
                     MobilityLinearSpring (nextMobod s) nj
                       (GetStiffness (jointHeap s (getJointRef mob)) nj)
                       (GetSpringReferencePosition (jointHeap s (getJointRef mob)) nj)])
                   (controllable_axes (getJointTypeName mob))))) \<and>
         ((\<forall>h c. throws N h c = None) \<and>
          (getJointTypeName mob = ''screw'' \<longrightarrow>
             GetThreadPitch (jointHeap s (getJointRef mob)) \<noteq> None) \<longrightarrow>
          (\<exists>s'. mobilizeJoint N mob p mp s = Inr (Some (nextMobod s), s')))"
proof (intro conjI allI impI)
  have rec: "recognised (getJointTypeName mob)"
    using assms unfolding recognised_def by blast
  {
    fix m s'
    assume ok: "mobilizeJoint N mob p mp s = Inr (m, s')"
    note c = mobilizeJoint_calls [OF ok]
    show "m = Some (nextMobod s)" using c(3) rec by simp
    have "axis_forces (jointHeap s (getJointRef mob)) (nextMobod s) =
          (\<lambda>nj. [MobilityLinearStop (nextMobod s) nj
                       (GetStopStiffness (jointHeap s (getJointRef mob)) nj)
                       (GetStopDissipation (jointHeap s (getJointRef mob)) nj)
                       (GetLowerLimit (jointHeap s (getJointRef mob)) nj)
                       (GetUpperLimit (jointHeap s (getJointRef mob)) nj),
                     MobilityLinearDamper (nextMobod s) nj
                       (GetDamping (jointHeap s (getJointRef mob)) nj),
                     MobilityLinearSpring (nextMobod s) nj
                       (GetStiffness (jointHeap s (getJointRef mob)) nj)
                       (GetSpringReferencePosition (jointHeap s (getJointRef mob)) nj)])"
      by (rule ext) (simp add: axis_forces_def)
    with c(1) joint_calls_forces [OF assms, of N "jointHeap s (getJointRef mob)" p mp "nextMobod s"]
    show "\<exists>new. calls s' = calls s @ map Simbody new \<and>
               filter is_force_element new =
                 concat (map (\<lambda>nj.
                    [MobilityLinearStop (nextMobod s) nj
                       (GetStopStiffness (jointHeap s (getJointRef mob)) nj)
                       (GetStopDissipation (jointHeap s (getJointRef mob)) nj)
                       (GetLowerLimit (jointHeap s (getJointRef mob)) nj)
                       (GetUpperLimit (jointHeap s (getJointRef mob)) nj),
                     MobilityLinearDamper (nextMobod s) nj
                       (GetDamping (jointHeap s (getJointRef mob)) nj),
                     MobilityLinearSpring (nextMobod s) nj
                       (GetStiffness (jointHeap s (getJointRef mob)) nj)
                       (GetSpringReferencePosition (jointHeap s (getJointRef mob)) nj)])
                   (controllable_axes (getJointTypeName mob)))"
      by (intro exI [of _ "joint_calls N mob (jointHeap s (getJointRef mob)) p mp (nextMobod s)"])
         simp
  }
  assume a: "(\<forall>h c. throws N h c = None) \<and>
          (getJointTypeName mob = ''screw'' \<longrightarrow>
             GetThreadPitch (jointHeap s (getJointRef mob)) \<noteq> None)"
  then show "\<exists>s'. mobilizeJoint N mob p mp s = Inr (Some (nextMobod s), s')"
    using rec by (intro mobilizeJoint_total) simp_all
qed

theorem mobilizeJoint_axis_force_elements_witness:
  "(\<exists>s' new.
      mobilizeJoint no_throw pin_forward Ground mass0 physics2 = Inr (Some 1, s') \<and>
      calls s' = map Simbody new \<and>
      filter is_force_element new =
        [MobilityLinearStop 1 0 100 1 (- 1) 1, MobilityLinearDamper 1 0 0,
         MobilityLinearSpring 1 0 0 0]) \<and>
   (\<exists>s' new.
      mobilizeJoint no_throw universal_forward Ground mass0 physics2 = Inr (Some 1, s') \<and>
      calls s' = map Simbody new \<and>
      filter is_force_element new =
        [MobilityLinearStop 1 0 100 1 (- 1) 1, MobilityLinearDamper 1 0 0,
         MobilityLinearSpring 1 0 0 0,
         MobilityLinearStop 1 1 100 1 (- 1) 1, MobilityLinearDamper 1 1 0,
         MobilityLinearSpring 1 1 0 0])"
proof -
  have pin: "getJointTypeName pin_forward = ''revolute'' \<or>
             getJointTypeName pin_forward = ''prismatic'' \<or>
             getJointTypeName pin_forward = ''screw'' \<or>
             getJointTypeName pin_forward = ''universal''"
    by (simp add: mobilizer_fields)
  have uni: "getJointTypeName universal_forward = ''revolute'' \<or>
             getJointTypeName universal_forward = ''prismatic'' \<or>
             getJointTypeName universal_forward = ''screw'' \<or>
             getJointTypeName universal_forward = ''universal''"
    by (simp add: mobilizer_fields)
  note one = mobilizeJoint_axis_force_elements [OF pin, of no_throw Ground mass0 physics2]
  note two = mobilizeJoint_axis_force_elements [OF uni, of no_throw Ground mass0 physics2]
  have "\<exists>s'. mobilizeJoint no_throw pin_forward Ground mass0 physics2 =
               Inr (Some (nextMobod physics2), s')"
    using one [THEN conjunct2] no_throw_throws by (simp add: mobilizer_fields)
  then obtain s1 where
    r1: "mobilizeJoint no_throw pin_forward Ground mass0 physics2 = Inr (Some 1, s1)"
    by (auto simp: physics2_fields)
  have "\<exists>s'. mobilizeJoint no_throw universal_forward Ground mass0 physics2 =
               Inr (Some (nextMobod physics2), s')"
    using two [THEN conjunct2] no_throw_throws by (simp add: mobilizer_fields)
  then obtain s2 where
    r2: "mobilizeJoint no_throw universal_forward Ground mass0 physics2 = Inr (Some 1, s2)"
    by (auto simp: physics2_fields)
  have f1: "\<exists>new. calls s1 = map Simbody new \<and>
      filter is_force_element new =
        [MobilityLinearStop 1 0 100 1 (- 1) 1, MobilityLinearDamper 1 0 0,
         MobilityLinearSpring 1 0 0 0]"
    using one [THEN conjunct1, THEN spec, THEN spec, THEN mp, OF r1]
    by (simp add: mobilizer_fields physics2_fields pin_joint_fields controllable_axes_def)
  have f2: "\<exists>new. calls s2 = map Simbody new \<and>
      filter is_force_element new =
        [MobilityLinearStop 1 0 100 1 (- 1) 1, MobilityLinearDamper 1 0 0,
         MobilityLinearSpring 1 0 0 0,
         MobilityLinearStop 1 1 100 1 (- 1) 1, MobilityLinearDamper 1 1 0,
         MobilityLinearSpring 1 1 0 0]"
    using two [THEN conjunct1, THEN spec, THEN spec, THEN mp, OF r2]
    by (simp add: mobilizer_fields physics2_fields pin_joint_fields controllable_axes_def)
  from r1 f1 have a: "\<exists>s' new.
      mobilizeJoint no_throw pin_forward Ground mass0 physics2 = Inr (Some 1, s') \<and>
      calls s' = map Simbody new \<and>
      filter is_force_element new =
        [MobilityLinearStop 1 0 100 1 (- 1) 1, MobilityLinearDamper 1 0 0,
         MobilityLinearSpring 1 0 0 0]"
    by blast
  from r2 f2 have b: "\<exists>s' new.
      mobilizeJoint no_throw universal_forward Ground mass0 physics2 = Inr (Some 1, s') \<and>
      calls s' = map Simbody new \<and>
      filter is_force_element new =
        [MobilityLinearStop 1 0 100 1 (- 1) 1, MobilityLinearDamper 1 0 0,
         MobilityLinearSpring 1 0 0 0,
         MobilityLinearStop 1 1 100 1 (- 1) 1, MobilityLinearDamper 1 1 0,
         MobilityLinearSpring 1 1 0 0]"
    by blast
  from a b show ?thesis by (intro conjI)
qed

lemma library_failure_iff: "library_failure f \<longleftrightarrow> (\<exists>e. f = StdException e)"
  by (cases f) (simp_all add: library_failure_def)



section \<open>Theorems: rebuilding the system for a model\<close>

lemma appends_refl: "appends_solver_calls s s"
  by (simp add: appends_solver_calls_def)

lemma appends_trans:
  assumes "appends_solver_calls a b" and "appends_solver_calls b c"
  shows "appends_solver_calls a c"
proof -
  from assms(1) obtain n1 where 1: "calls b = calls a @ n1" "list_all is_solver_call n1"
    unfolding appends_solver_calls_def by blast
  from assms(2) obtain n2 where 2: "calls c = calls b @ n2" "list_all is_solver_call n2"
    unfolding appends_solver_calls_def by blast
  have "calls c = calls a @ (n1 @ n2) \<and> list_all is_solver_call (n1 @ n2)"
    using 1 2 by simp
  then show ?thesis unfolding appends_solver_calls_def by blast
qed

lemma appends_same_calls: "calls s' = calls s \<Longrightarrow> appends_solver_calls s s'"
  by (simp add: appends_solver_calls_def)

lemma appends_map:
  "calls s' = calls s @ map Simbody new \<Longrightarrow> appends_solver_calls s s'"
  unfolding appends_solver_calls_def
  by (intro exI [of _ "map Simbody new"]) (simp add: list_all_iff)

lemma solver_calls_map: "list_all is_solver_call new \<Longrightarrow> \<exists>cs. new = map Simbody cs"
proof (induction new)
  case Nil
  show ?case by simp
next
  case (Cons c new)
  then obtain cs where cs: "new = map Simbody cs" by auto
  from Cons.prems obtain c0 where "c = Simbody c0" by (cases c) simp_all
  with cs have "c # new = map Simbody (c0 # cs)" by simp
  then show ?case by (rule exI)
qed

lemma foldE_appends:
  assumes "foldE f xs a = Inr b"
    and "\<And>x u v. f x u = Inr v \<Longrightarrow> appends_solver_calls u v"
  shows "appends_solver_calls a b"
  by (rule foldE_invariant [OF assms(1), where P = "appends_solver_calls a"])
     (auto intro: appends_refl appends_trans assms(2))

lemma solver_appends: "solver N c s = Inr s' \<Longrightarrow> appends_solver_calls s s'"
  by (drule solver_Inr) (simp add: appends_solver_calls_def)

lemma upd_calls:
  "calls (updLink l f s) = calls s" "calls (updJoint j g s) = calls s"
  "calls (gzlog ch msg s) = calls s"
  by (simp_all add: updLink_def updJoint_def gzlog_def)

lemma mobilizeJoint_appends:
  "mobilizeJoint N mob p mp s = Inr (m, s') \<Longrightarrow> appends_solver_calls s s'"
  by (rule appends_map) (rule mobilizeJoint_calls(1))

lemma mobilizeAddedBase_appends:
  assumes "mobilizeAddedBase N mob p mp s = Inr (m, s')"
  shows "appends_solver_calls s s'"
proof -
  from assms obtain h s1 X where
    1: "newMobilizedBody N FreeJoint p Transform_identity mp Transform_identity Forward s
          = Inr (h, s1)" and
    2: "solver N (setDefaultTransform h X) s1 = Inr s'"
    by (auto simp: mobilizeAddedBase_def Let_def seqE_eq_Inr split: if_splits)
  from body_fields(2) [OF 1] have "appends_solver_calls s s1"
    by (simp add: appends_solver_calls_def)
  with solver_appends [OF 2] show ?thesis by (blast intro: appends_trans)
qed

lemma AddCollisionsToLink_appends:
  "AddCollisionsToLink N l m c s = Inr s' \<Longrightarrow> appends_solver_calls s s'"
  using AddCollisionsToLink_calls [of N l m c s s'] by (auto intro: appends_map)

lemma addMobilizer_appends:
  assumes "addMobilizer N c mob s = Inr s'"
  shows "appends_solver_calls s s'"
proof -
  let ?p = "case getInboardBodyRef mob of None \<Rightarrow> Ground | Some i \<Rightarrow> masterMobod (linkHeap s i)"
  let ?mp = "GetEffectiveMassProps (getOutboardMasterBodyRef mob) (getNumFragments mob)"
  from assms obtain m s1 where
    1: "(if isAddedBaseMobilizer mob then mobilizeAddedBase N mob ?p ?mp s
         else mobilizeJoint N mob ?p ?mp s) = Inr (m, s1)" and
    2: "AddCollisionsToLink N (getOutboardMasterBodyRef mob) m c
          (if isSlaveMobilizer mob
           then updLink (getOutboardMasterBodyRef mob)
                  (\<lambda>l. l\<lparr>slaveMobods := slaveMobods l @ [m]\<rparr>) s1
           else updLink (getOutboardMasterBodyRef mob) (\<lambda>l. l\<lparr>masterMobod := m\<rparr>) s1) = Inr s'"
    by (auto simp: addMobilizer_def Let_def seqE_eq_Inr)
  from 1 have a: "appends_solver_calls s s1"
    by (auto split: if_splits intro: mobilizeAddedBase_appends mobilizeJoint_appends)
  have b: "appends_solver_calls s1
          (if isSlaveMobilizer mob
           then updLink (getOutboardMasterBodyRef mob)
                  (\<lambda>l. l\<lparr>slaveMobods := slaveMobods l @ [m]\<rparr>) s1
           else updLink (getOutboardMasterBodyRef mob) (\<lambda>l. l\<lparr>masterMobod := m\<rparr>) s1)"
    by (rule appends_same_calls) (simp add: upd_calls)
  from a b AddCollisionsToLink_appends [OF 2] show ?thesis
    by (blast intro: appends_trans)
qed

lemma weldSlaves_appends:
  assumes "weldSlaves N lx s = Inr s'"
  shows "appends_solver_calls s s'"
proof -
  from assms have
    "foldE (\<lambda>slave s1.
              seqE (solver N (Constraint_Weld (masterMobod (linkHeap s1 lx)) slave) s1)
                (\<lambda>s2. Inr (updLink lx (\<lambda>l. l\<lparr>slaveWelds := slaveWelds l @ [nextConstraint s2]\<rparr>)
                             (s2\<lparr>nextConstraint := Suc (nextConstraint s2)\<rparr>))))
       (slaveMobods (linkHeap s lx)) s = Inr s'"
    by (simp add: weldSlaves_def split: if_splits)
  then show ?thesis
  proof (rule foldE_appends)
    fix x u v
    assume "seqE (solver N (Constraint_Weld (masterMobod (linkHeap u lx)) x) u)
              (\<lambda>s2. Inr (updLink lx (\<lambda>l. l\<lparr>slaveWelds := slaveWelds l @ [nextConstraint s2]\<rparr>)
                           (s2\<lparr>nextConstraint := Suc (nextConstraint s2)\<rparr>))) = Inr v"
    then obtain s2 where
      1: "solver N (Constraint_Weld (masterMobod (linkHeap u lx)) x) u = Inr s2" and
      2: "v = updLink lx (\<lambda>l. l\<lparr>slaveWelds := slaveWelds l @ [nextConstraint s2]\<rparr>)
                (s2\<lparr>nextConstraint := Suc (nextConstraint s2)\<rparr>)"
      by (auto simp: seqE_eq_Inr)
    have "appends_solver_calls s2 v"
      by (rule appends_same_calls) (simp add: 2 upd_calls)
    with solver_appends [OF 1] show "appends_solver_calls u v"
      by (blast intro: appends_trans)
  qed
qed

lemma AddDynamic_appends:
  assumes "AddDynamicModelToSimbodySystem N world g s = Inr s'"
  shows "appends_solver_calls s s'"
proof -
  from assms obtain s1 s2 where
    1: "solver N createNewContactClique s = Inr s1" and
    2: "foldE (addMobilizer N (Some (nextClique s1))) (mobilizers g)
          (s1\<lparr>nextClique := Suc (nextClique s1)\<rparr>) = Inr s2" and
    3: "foldE (\<lambda>mi. foldE (weldSlaves N) (GetLinks mi)) world s2 = Inr s'"
    by (auto simp: AddDynamicModelToSimbodySystem_def seqE_eq_Inr)
  have a: "appends_solver_calls s1 (s1\<lparr>nextClique := Suc (nextClique s1)\<rparr>)"
    by (rule appends_same_calls) simp
  have b: "appends_solver_calls (s1\<lparr>nextClique := Suc (nextClique s1)\<rparr>) s2"
    using 2 by (rule foldE_appends) (rule addMobilizer_appends)
  have c: "appends_solver_calls s2 s'"
    using 3
  proof (rule foldE_appends)
    fix mi u v
    assume "foldE (weldSlaves N) (GetLinks mi) u = Inr v"
    then show "appends_solver_calls u v"
      by (rule foldE_appends) (rule weldSlaves_appends)
  qed
  from solver_appends [OF 1] a b c show ?thesis
    by (blast intro: appends_trans)
qed

lemma addLinkBody_same_calls:
  "addLinkBody N li a = Inr b \<Longrightarrow> calls (snd b) = calls (snd a)"
  by (cases a) (auto simp: addLinkBody_def Let_def gzlog_def seqE_eq_Inr split: if_splits)

lemma addJointEdge_same_calls:
  "addJointEdge N ji a = Inr b \<Longrightarrow> calls (snd b) = calls (snd a)"
  using GetTypeString_state [of "GetType (jointHeap (snd a) ji)" "snd a"]
  by (cases a) (auto simp: addJointEdge_def Let_def gzlog_def seqE_eq_Inr
      split: if_splits option.splits prod.splits)

lemma CreateMultibodyGraph_same_calls:
  assumes "CreateMultibodyGraph N G M s = Inr (g, s')"
  shows "calls s' = calls s"
proof -
  from CreateMultibodyGraph_shape [OF assms] obtain a b where
    1: "foldE (addLinkBody N) (GetLinks M) (registered G, s) = Inr a" and
    2: "foldE (addJointEdge N) (GetJoints M) a = Inr b" and
    3: "s' = snd b"
    by blast
  have "calls (snd a) = calls s"
    by (rule foldE_invariant [OF 1, where P = "\<lambda>u. calls (snd u) = calls s"])
       (auto dest: addLinkBody_same_calls)
  then have "calls (snd b) = calls s"
    by (intro foldE_invariant [OF 2, where P = "\<lambda>u. calls (snd u) = calls s"])
       (auto dest: addJointEdge_same_calls)
  with 3 show ?thesis by simp
qed

lemma buildSimbodySystem_appends:
  assumes "buildSimbodySystem N world M s = Inr s'"
  shows "appends_solver_calls s s'"
proof (cases "IsStatic M")
  case True
  with assms have "AddStaticModelToSimbodySystem N M s = Inr s'"
    by (simp add: buildSimbodySystem_def)
  from AddStatic_calls [OF this] show ?thesis by (auto intro: appends_map)
next
  case False
  with assms obtain g s1 where
    1: "CreateMultibodyGraph N MultibodyGraphMaker_new M s = Inr (g, s1)" and
    2: "AddDynamicModelToSimbodySystem N world g s1 = Inr s'"
    by (auto simp: buildSimbodySystem_def seqE_eq_Inr)
  from CreateMultibodyGraph_same_calls [OF 1] have "appends_solver_calls s s1"
    by (rule appends_same_calls)
  with AddDynamic_appends [OF 2] show ?thesis by (blast intro: appends_trans)
qed

lemma InitSimbodySystem_appends:
  "InitSimbodySystem N s = Inr s' \<Longrightarrow> appends_solver_calls s s'"
  by (auto simp: InitSimbodySystem_def split: if_splits intro: solver_appends)

lemma foldE_log:
  assumes "foldE f xs (u :: SimbodyPhysics) = Inr v"
    and "\<And>x a b. f x a = Inr b \<Longrightarrow> b = a\<lparr>calls := calls a @ cs x\<rparr>"
  shows "v = u\<lparr>calls := calls u @ concat (map cs xs)\<rparr>"
  using assms(1)
proof (induction xs arbitrary: u)
  case Nil
  then show ?case by simp
next
  case (Cons x xs)
  from Cons.prems obtain w where w: "f x u = Inr w" "foldE f xs w = Inr v"
    by (auto simp: seqE_eq_Inr)
  from assms(2) [OF w(1)] Cons.IH [OF w(2)] show ?case by simp
qed

lemma saveJointState_Inr:
  "saveJointState N j u = Inr v \<Longrightarrow> v = u\<lparr>calls := calls u @ [Joint_SaveSimbodyState j]\<rparr>"
  by (auto simp: saveJointState_def split: if_splits dest: invoke_Inr)

lemma saveLinkState_Inr:
  "saveLinkState N l u = Inr v \<Longrightarrow> v = u\<lparr>calls := calls u @ [Link_SaveSimbodyState l]\<rparr>"
  by (auto simp: saveLinkState_def split: if_splits dest: invoke_Inr)

lemma restoreJointState_Inr:
  "restoreJointState N j u = Inr v \<Longrightarrow> v = u\<lparr>calls := calls u @ [Joint_RestoreSimbodyState j]\<rparr>"
  by (auto simp: restoreJointState_def split: if_splits dest: invoke_Inr)

lemma restoreLinkState_Inr:
  "restoreLinkState N l u = Inr v \<Longrightarrow> v = u\<lparr>calls := calls u @ [Link_RestoreSimbodyState l]\<rparr>"
  by (auto simp: restoreLinkState_def split: if_splits dest: invoke_Inr)

lemma saveSimbodyStates_Inr:
  assumes "saveSimbodyStates N world M u = Inr v"
  shows "v = u\<lparr>calls := calls u @ save_calls world M\<rparr>"
  unfolding save_calls_def
proof (rule foldE_log [OF assms [unfolded saveSimbodyStates_def]])
  fix mi a b
  assume step: "(if modelPtr mi \<noteq> modelPtr M
                 then seqE (foldE (saveJointState N) (GetJoints mi) a)
                        (foldE (saveLinkState N) (GetLinks mi))
                 else Inr a) = Inr b"
  show "b = a\<lparr>calls := calls a @
               (if modelPtr mi \<noteq> modelPtr M
                then map Joint_SaveSimbodyState (GetJoints mi) @
                     map Link_SaveSimbodyState (GetLinks mi)
                else [])\<rparr>"
  proof (cases "modelPtr mi \<noteq> modelPtr M")
    case False
    with step show ?thesis by simp
  next
    case True
    with step obtain c where
      1: "foldE (saveJointState N) (GetJoints mi) a = Inr c" and
      2: "foldE (saveLinkState N) (GetLinks mi) c = Inr b"
      by (auto simp: seqE_eq_Inr)
    from foldE_log [OF 1, where cs = "\<lambda>j. [Joint_SaveSimbodyState j]"]
    have c: "c = a\<lparr>calls := calls a @ map Joint_SaveSimbodyState (GetJoints mi)\<rparr>"
      by (simp add: saveJointState_Inr)
    from foldE_log [OF 2, where cs = "\<lambda>l. [Link_SaveSimbodyState l]"]
    have "b = c\<lparr>calls := calls c @ map Link_SaveSimbodyState (GetLinks mi)\<rparr>"
      by (simp add: saveLinkState_Inr)
    with c True show ?thesis by simp
  qed
qed

lemma restoreSimbodyStates_Inr:
  assumes "restoreSimbodyStates N world u = Inr v"
  shows "v = u\<lparr>calls := calls u @ restore_calls world\<rparr>"
  unfolding restore_calls_def
proof (rule foldE_log [OF assms [unfolded restoreSimbodyStates_def]])
  fix mi a b
  assume "seqE (foldE (restoreJointState N) (GetJoints mi) a)
            (foldE (restoreLinkState N) (GetLinks mi)) = Inr b"
  then obtain c where
    1: "foldE (restoreJointState N) (GetJoints mi) a = Inr c" and
    2: "foldE (restoreLinkState N) (GetLinks mi) c = Inr b"
    by (auto simp: seqE_eq_Inr)
  from foldE_log [OF 1, where cs = "\<lambda>j. [Joint_RestoreSimbodyState j]"]
  have c: "c = a\<lparr>calls := calls a @ map Joint_RestoreSimbodyState (GetJoints mi)\<rparr>"
    by (simp add: restoreJointState_Inr)
  from foldE_log [OF 2, where cs = "\<lambda>l. [Link_RestoreSimbodyState l]"]
  have "b = c\<lparr>calls := calls c @ map Link_RestoreSimbodyState (GetLinks mi)\<rparr>"
    by (simp add: restoreLinkState_Inr)
  with c show "b = a\<lparr>calls := calls a @
                 (map Joint_RestoreSimbodyState (GetJoints mi) @
                  map Link_RestoreSimbodyState (GetLinks mi))\<rparr>"
    by simp
qed

lemma rethrow_Inr: "rethrow prefix r = Inr x \<longleftrightarrow> r = Inr x"
proof (cases r)
  case (Inl f)
  then show ?thesis by (cases f) (simp_all add: rethrow_def)
next
  case (Inr y)
  then show ?thesis by (simp add: rethrow_def)
qed

lemma mark_fields:
  "calls (markJoint j u) = calls u" "integTime (markJoint j u) = integTime u"
  "calls (markLink l u) = calls u" "integTime (markLink l u) = integTime u"
  by (simp_all add: markJoint_def markLink_def updJoint_def updLink_def gzlog_def)

lemma fold_markJoint_fields:
  "calls (fold markJoint js u) = calls u \<and> integTime (fold markJoint js u) = integTime u"
  by (induction js arbitrary: u) (simp_all add: mark_fields)

lemma fold_markLink_fields:
  "calls (fold markLink ls u) = calls u \<and> integTime (fold markLink ls u) = integTime u"
  by (induction ls arbitrary: u) (simp_all add: mark_fields)

lemma InitModel_Inr:
  assumes "InitModel N world M s = Inr s'"
  obtains t saved s1 s2 s3 s4 s5 s6 where
    "saveBeforeRebuild N world M s = Inr (t, saved, s1)"
    and "buildSimbodySystem N world M s1 = Inr s2"
    and "InitSimbodySystem N s2 = Inr s3"
    and "invoke N realizeTopology s3 = Inr s4"
    and "(if saved then seqE (invoke N (State_setTime t) s4) (restoreSimbodyStates N world)
          else Inr s4) = Inr s5"
    and "invoke N Integrator_initialize s5 = Inr s6"
    and "calls s' = calls s6"
    and "integTime s' = (if saved then t else defaultTime N)"
proof -
  from assms obtain t saved s1 s2 s3 s4 s5 s6 where
    1: "saveBeforeRebuild N world M s = Inr (t, saved, s1)" and
    2: "buildSimbodySystem N world M s1 = Inr s2" and
    3: "InitSimbodySystem N s2 = Inr s3" and
    4: "invoke N realizeTopology s3 = Inr s4" and
    5: "(if saved then seqE (invoke N (State_setTime t) s4) (restoreSimbodyStates N world)
          else Inr s4) = Inr s5" and
    6: "invoke N Integrator_initialize s5 = Inr s6" and
    7: "s' = (fold markJoint (GetJoints M)
               (fold markLink (GetLinks M)
                  (s6\<lparr>integStage := initializedStage N,
                      integTime := (if saved then t else defaultTime N)\<rparr>)))
             \<lparr>simbodyPhysicsInitialized := True\<rparr>"
    by (auto simp: InitModel_def seqE_eq_Inr rethrow_Inr)
  from 7 have "calls s' = calls s6" "integTime s' = (if saved then t else defaultTime N)"
    by (simp_all add: fold_markJoint_fields fold_markLink_fields)
  with 1 2 3 4 5 6 that show thesis by blast
qed

lemma invoke_total:
  "\<forall>h c. throws N h c = None \<Longrightarrow> invoke N c s = Inr (s\<lparr>calls := calls s @ [c]\<rparr>)"
  by (simp add: invoke_def)

lemma foldE_log_total:
  assumes "\<And>x a. Q a \<Longrightarrow> f x a = Inr (a\<lparr>calls := calls a @ cs x\<rparr>)"
    and "\<And>a n. Q a \<Longrightarrow> Q (a\<lparr>calls := n\<rparr>)" and "Q u"
  shows "foldE f xs (u :: SimbodyPhysics) = Inr (u\<lparr>calls := calls u @ concat (map cs xs)\<rparr>)"
  using assms(3)
proof (induction xs arbitrary: u)
  case Nil
  show ?case by simp
next
  case (Cons x xs)
  have 1: "f x u = Inr (u\<lparr>calls := calls u @ cs x\<rparr>)" by (rule assms(1) [OF Cons.prems])
  have "Q (u\<lparr>calls := calls u @ cs x\<rparr>)" by (rule assms(2) [OF Cons.prems])
  from Cons.IH [OF this] 1 show ?case by simp
qed

lemma foldE_total_inv:
  assumes "Q a" and "\<And>x u. Q u \<Longrightarrow> \<exists>v. f x u = Inr v \<and> Q v"
  shows "\<exists>b. foldE f xs a = Inr b \<and> Q b"
  using assms(1)
proof (induction xs arbitrary: a)
  case Nil
  then show ?case by simp
next
  case (Cons x xs)
  from assms(2) [OF Cons.prems] obtain v where v: "f x a = Inr v" "Q v" by blast
  from Cons.IH [OF v(2)] v(1) show ?case by simp
qed

lemma saveSimbodyStates_total:
  assumes nt: "\<forall>h c. throws N h c = None"
    and js: "\<forall>j. isSimbodyJoint (jointHeap s j)" and ls: "\<forall>l. isSimbodyLink (linkHeap s l)"
  shows "saveSimbodyStates N world M s = Inr (s\<lparr>calls := calls s @ save_calls world M\<rparr>)"
  unfolding saveSimbodyStates_def save_calls_def
proof (rule foldE_log_total
    [where Q = "\<lambda>u. (\<forall>j. isSimbodyJoint (jointHeap u j)) \<and> (\<forall>l. isSimbodyLink (linkHeap u l))"])
  show "(\<forall>j. isSimbodyJoint (jointHeap s j)) \<and> (\<forall>l. isSimbodyLink (linkHeap s l))"
    using js ls by simp
next
  fix a :: SimbodyPhysics and n
  assume "(\<forall>j. isSimbodyJoint (jointHeap a j)) \<and> (\<forall>l. isSimbodyLink (linkHeap a l))"
  then show "(\<forall>j. isSimbodyJoint (jointHeap (a\<lparr>calls := n\<rparr>) j)) \<and>
             (\<forall>l. isSimbodyLink (linkHeap (a\<lparr>calls := n\<rparr>) l))"
    by simp
next
  fix mi and a :: SimbodyPhysics
  assume q: "(\<forall>j. isSimbodyJoint (jointHeap a j)) \<and> (\<forall>l. isSimbodyLink (linkHeap a l))"
  have 1: "foldE (saveJointState N) js a =
           Inr (a\<lparr>calls := calls a @ concat (map (\<lambda>j. [Joint_SaveSimbodyState j]) js)\<rparr>)" for js
    by (rule foldE_log_total
        [where Q = "\<lambda>u. (\<forall>j. isSimbodyJoint (jointHeap u j)) \<and> (\<forall>l. isSimbodyLink (linkHeap u l))"])
       (simp_all add: q saveJointState_def invoke_total [OF nt])
  have 2: "foldE (saveLinkState N) ls b =
           Inr (b\<lparr>calls := calls b @ concat (map (\<lambda>l. [Link_SaveSimbodyState l]) ls)\<rparr>)"
    if "(\<forall>j. isSimbodyJoint (jointHeap b j)) \<and> (\<forall>l. isSimbodyLink (linkHeap b l))" for ls b
    by (rule foldE_log_total
        [where Q = "\<lambda>u. (\<forall>j. isSimbodyJoint (jointHeap u j)) \<and> (\<forall>l. isSimbodyLink (linkHeap u l))"])
       (simp_all add: that saveLinkState_def invoke_total [OF nt])
  show "(if modelPtr mi \<noteq> modelPtr M
         then seqE (foldE (saveJointState N) (GetJoints mi) a)
                (foldE (saveLinkState N) (GetLinks mi))
         else Inr a) =
        Inr (a\<lparr>calls := calls a @
                 (if modelPtr mi \<noteq> modelPtr M
                  then map Joint_SaveSimbodyState (GetJoints mi) @
                       map Link_SaveSimbodyState (GetLinks mi)
                  else [])\<rparr>)"
    using q by (simp add: 1 2)
qed

lemma restoreSimbodyStates_total:
  assumes nt: "\<forall>h c. throws N h c = None"
    and js: "\<forall>j. isSimbodyJoint (jointHeap s j)" and ls: "\<forall>l. isSimbodyLink (linkHeap s l)"
  shows "restoreSimbodyStates N world s = Inr (s\<lparr>calls := calls s @ restore_calls world\<rparr>)"
  unfolding restoreSimbodyStates_def restore_calls_def
proof (rule foldE_log_total
    [where Q = "\<lambda>u. (\<forall>j. isSimbodyJoint (jointHeap u j)) \<and> (\<forall>l. isSimbodyLink (linkHeap u l))"])
  show "(\<forall>j. isSimbodyJoint (jointHeap s j)) \<and> (\<forall>l. isSimbodyLink (linkHeap s l))"
    using js ls by simp
next
  fix a :: SimbodyPhysics and n
  assume "(\<forall>j. isSimbodyJoint (jointHeap a j)) \<and> (\<forall>l. isSimbodyLink (linkHeap a l))"
  then show "(\<forall>j. isSimbodyJoint (jointHeap (a\<lparr>calls := n\<rparr>) j)) \<and>
             (\<forall>l. isSimbodyLink (linkHeap (a\<lparr>calls := n\<rparr>) l))"
    by simp
next
  fix mi and a :: SimbodyPhysics
  assume q: "(\<forall>j. isSimbodyJoint (jointHeap a j)) \<and> (\<forall>l. isSimbodyLink (linkHeap a l))"
  have 1: "foldE (restoreJointState N) js a =
           Inr (a\<lparr>calls := calls a @ concat (map (\<lambda>j. [Joint_RestoreSimbodyState j]) js)\<rparr>)" for js
    by (rule foldE_log_total
        [where Q = "\<lambda>u. (\<forall>j. isSimbodyJoint (jointHeap u j)) \<and> (\<forall>l. isSimbodyLink (linkHeap u l))"])
       (simp_all add: q restoreJointState_def invoke_total [OF nt])
  have 2: "foldE (restoreLinkState N) ls b =
           Inr (b\<lparr>calls := calls b @ concat (map (\<lambda>l. [Link_RestoreSimbodyState l]) ls)\<rparr>)"
    if "(\<forall>j. isSimbodyJoint (jointHeap b j)) \<and> (\<forall>l. isSimbodyLink (linkHeap b l))" for ls b
    by (rule foldE_log_total
        [where Q = "\<lambda>u. (\<forall>j. isSimbodyJoint (jointHeap u j)) \<and> (\<forall>l. isSimbodyLink (linkHeap u l))"])
       (simp_all add: that restoreLinkState_def invoke_total [OF nt])
  show "seqE (foldE (restoreJointState N) (GetJoints mi) a)
          (foldE (restoreLinkState N) (GetLinks mi)) =
        Inr (a\<lparr>calls := calls a @
                 (map Joint_RestoreSimbodyState (GetJoints mi) @
                  map Link_RestoreSimbodyState (GetLinks mi))\<rparr>)"
    using q by (simp add: 1 2)
qed

lemma AddStatic_plain_total:
  assumes "\<forall>l. isSimbodyLink (linkHeap s l) \<and> GetCollisions (linkHeap s l) = []"
    and "\<forall>j. isSimbodyJoint (jointHeap s j)"
  shows "\<exists>s'. AddStaticModelToSimbodySystem N M s = Inr s' \<and>
              ((\<forall>l. isSimbodyLink (linkHeap s' l) \<and> GetCollisions (linkHeap s' l) = []) \<and>
               (\<forall>j. isSimbodyJoint (jointHeap s' j)))"
  unfolding AddStaticModelToSimbodySystem_def
proof (rule foldE_total_inv)
  show "(\<forall>l. isSimbodyLink (linkHeap s l) \<and> GetCollisions (linkHeap s l) = []) \<and>
        (\<forall>j. isSimbodyJoint (jointHeap s j))"
    using assms by simp
next
  fix li and u :: SimbodyPhysics
  assume q: "(\<forall>l. isSimbodyLink (linkHeap u l) \<and> GetCollisions (linkHeap u l) = []) \<and>
             (\<forall>j. isSimbodyJoint (jointHeap u j))"
  then have 1: "AddCollisionsToLink N li Ground None u = Inr u"
    by (simp add: AddCollisionsToLink_def Let_def)
  show "\<exists>v. (if isSimbodyLink (linkHeap u li)
              then seqE (AddCollisionsToLink N li Ground None u)
                     (\<lambda>s2. Inr (updLink li (\<lambda>l. l\<lparr>masterMobod := Ground\<rparr>) s2))
              else Inr (gzlog Gzerr
                     (''simbodyLink ['' @ Link_GetName (linkHeap u li) @
                      '']is not a SimbodyLinkPtr\<newline>'') u)) = Inr v \<and>
             ((\<forall>l. isSimbodyLink (linkHeap v l) \<and> GetCollisions (linkHeap v l) = []) \<and>
              (\<forall>j. isSimbodyJoint (jointHeap v j)))"
    using q by (simp add: 1 updLink_def)
qed

lemma InitModel_static_total:
  assumes nt: "\<forall>h c. throws N h c = None" and static: "IsStatic M"
    and ls: "\<forall>l. isSimbodyLink (linkHeap s l) \<and> GetCollisions (linkHeap s l) = []"
    and js: "\<forall>j. isSimbodyJoint (jointHeap s j)"
  shows "\<exists>s'. InitModel N world M s = Inr s'"
proof -
  let ?Q = "\<lambda>u. (\<forall>l. isSimbodyLink (linkHeap u l) \<and> GetCollisions (linkHeap u l) = []) \<and>
                 (\<forall>j. isSimbodyJoint (jointHeap u j))"
  obtain t saved s1 where 1: "saveBeforeRebuild N world M s = Inr (t, saved, s1)" and q1: "?Q s1"
    using ls js saveSimbodyStates_total [OF nt, of s world M]
    by (cases "integStage s \<noteq> Stage_Empty") (auto simp: saveBeforeRebuild_def)
  from AddStatic_plain_total [of s1 N M] q1 obtain s2 where
    2: "buildSimbodySystem N world M s1 = Inr s2" and q2: "?Q s2"
    using static by (auto simp: buildSimbodySystem_def)
  have "\<exists>s3. InitSimbodySystem N s2 = Inr s3 \<and> ?Q s3"
    using q2 by (simp add: InitSimbodySystem_def solver_total [OF nt])
  then obtain s3 where 3: "InitSimbodySystem N s2 = Inr s3" and q3: "?Q s3" by blast
  have "\<exists>s4. invoke N realizeTopology s3 = Inr s4 \<and> ?Q s4"
    using q3 by (simp add: invoke_total [OF nt])
  then obtain s4 where 4: "invoke N realizeTopology s3 = Inr s4" and q4: "?Q s4" by blast
  have "\<exists>s5. (if saved then seqE (invoke N (State_setTime t) s4)
                                (restoreSimbodyStates N world)
               else Inr s4) = Inr s5"
    using q4 restoreSimbodyStates_total [OF nt, of "s4\<lparr>calls := calls s4 @ [State_setTime t]\<rparr>" world]
    by (cases saved) (simp_all add: invoke_total [OF nt])
  then obtain s5 where 5: "(if saved then seqE (invoke N (State_setTime t) s4)
                                      (restoreSimbodyStates N world)
                            else Inr s4) = Inr s5" by blast
  have "\<exists>s6. invoke N Integrator_initialize s5 = Inr s6"
    by (simp add: invoke_total [OF nt])
  then obtain s6 where 6: "invoke N Integrator_initialize s5 = Inr s6" by blast
  show ?thesis
    unfolding InitModel_def by (simp add: 1 2 3 4 5 6 rethrow_def)
qed

lemma scene_fields:
  "integStage physics0 = Stage_Empty" "integStage physics3 \<noteq> Stage_Empty"
  "integTime physics3 = 5" "integStage physics4 = Stage_Empty" "calls physics0 = []"
  "calls physics3 = []" "calls physics4 = []" "IsStatic static2" "\<not> IsStatic model1"
  "defaultTime no_throw = 0"
  by (simp_all add: physics0_def physics3_def physics4_def static2_def model1_def no_throw_def)

lemma plain_scenes:
  "\<forall>l. isSimbodyLink (linkHeap physics0 l) \<and> GetCollisions (linkHeap physics0 l) = []"
  "\<forall>j. isSimbodyJoint (jointHeap physics0 j)"
  "\<forall>l. isSimbodyLink (linkHeap physics3 l) \<and> GetCollisions (linkHeap physics3 l) = []"
  "\<forall>j. isSimbodyJoint (jointHeap physics3 j)"
  "\<forall>l. isSimbodyLink (linkHeap physics4 l) \<and> GetCollisions (linkHeap physics4 l) = []"
  "\<forall>j. isSimbodyJoint (jointHeap physics4 j)"
  by (simp_all add: physics0_def physics3_def physics4_def link0_def joint0_def)

lemma world2_calls:
  "save_calls world2 static2 =
     [Joint_SaveSimbodyState 0, Joint_SaveSimbodyState 1, Link_SaveSimbodyState 0]"
  "restore_calls world2 =
     [Joint_RestoreSimbodyState 0, Joint_RestoreSimbodyState 1, Link_RestoreSimbodyState 0,
      Link_RestoreSimbodyState 1]"
  by (simp_all add: save_calls_def restore_calls_def world2_def model1_def static2_def)



text \<open>
  Claim C1.  Whatever the solver library does, when \<open>InitModel\<close> returns for the model \<open>M\<close>:
  if a prior solver state exists (the stage of the integrator's state is not Empty), the
  calls made are, in this order, the captures of the state of every joint and then every
  link of each model of the world other than \<open>M\<close>, then the calls on the solver that
  build and initialize the new system, then the realization of the topology, then the
  restore of the saved time into the new state, then the restores for every joint and
  every link of each model of the world, and last the initialization of the integrator,
  which then holds the saved time; if no prior state exists, the calls are only the
  calls on the solver that build and initialize the system, the realization of the
  topology and the initialization of the integrator, without any capture or restore or
  setting of the time, and the integrator holds the time of the new default state.
  Every joint and link of a model other than \<open>M\<close> has its capture among \<open>save_calls\<close>,
  and whatever is captured is restored.
\<close>

theorem InitModel_saves_before_and_restores_after:
  "(\<forall>s'. InitModel N world M s = Inr s' \<longrightarrow>
      (integStage s \<noteq> Stage_Empty \<longrightarrow>
         (\<exists>build. calls s' = calls s @ save_calls world M @ map Simbody build @
                     [realizeTopology, State_setTime (integTime s)] @ restore_calls world @
                     [Integrator_initialize]) \<and>
         integTime s' = integTime s) \<and>
      (integStage s = Stage_Empty \<longrightarrow>
         (\<exists>build. calls s' = calls s @ map Simbody build @
                     [realizeTopology, Integrator_initialize]) \<and>
         integTime s' = defaultTime N)) \<and>
   (\<forall>mi\<in>set world. modelPtr mi \<noteq> modelPtr M \<longrightarrow>
      (\<forall>j\<in>set (GetJoints mi). Joint_SaveSimbodyState j \<in> set (save_calls world M)) \<and>
      (\<forall>l\<in>set (GetLinks mi). Link_SaveSimbodyState l \<in> set (save_calls world M))) \<and>
   (\<forall>j. Joint_SaveSimbodyState j \<in> set (save_calls world M) \<longrightarrow>
        Joint_RestoreSimbodyState j \<in> set (restore_calls world)) \<and>
   (\<forall>l. Link_SaveSimbodyState l \<in> set (save_calls world M) \<longrightarrow>
        Link_RestoreSimbodyState l \<in> set (restore_calls world))"
proof (intro conjI)
  show "\<forall>s'. InitModel N world M s = Inr s' \<longrightarrow>
      (integStage s \<noteq> Stage_Empty \<longrightarrow>
         (\<exists>build. calls s' = calls s @ save_calls world M @ map Simbody build @
                     [realizeTopology, State_setTime (integTime s)] @ restore_calls world @
                     [Integrator_initialize]) \<and>
         integTime s' = integTime s) \<and>
      (integStage s = Stage_Empty \<longrightarrow>
         (\<exists>build. calls s' = calls s @ map Simbody build @
                     [realizeTopology, Integrator_initialize]) \<and>
         integTime s' = defaultTime N)"
  proof (intro allI impI)
    fix s'
    assume "InitModel N world M s = Inr s'"
    then obtain t saved s1 s2 s3 s4 s5 s6 where f:
      "saveBeforeRebuild N world M s = Inr (t, saved, s1)"
      "buildSimbodySystem N world M s1 = Inr s2"
      "InitSimbodySystem N s2 = Inr s3"
      "invoke N realizeTopology s3 = Inr s4"
      "(if saved then seqE (invoke N (State_setTime t) s4) (restoreSimbodyStates N world)
        else Inr s4) = Inr s5"
      "invoke N Integrator_initialize s5 = Inr s6"
      "calls s' = calls s6"
      "integTime s' = (if saved then t else defaultTime N)"
      by (rule InitModel_Inr)
    from buildSimbodySystem_appends [OF f(2)] InitSimbodySystem_appends [OF f(3)]
    have "appends_solver_calls s1 s3" by (blast intro: appends_trans)
    then obtain new where n: "calls s3 = calls s1 @ new" "list_all is_solver_call new"
      unfolding appends_solver_calls_def by blast
    from solver_calls_map [OF n(2)] obtain build where b: "new = map Simbody build" by blast
    have c4: "calls s4 = calls s3 @ [realizeTopology]"
      using invoke_Inr [OF f(4)] by simp
    have c6: "calls s6 = calls s5 @ [Integrator_initialize]"
      using invoke_Inr [OF f(6)] by simp
    show "(integStage s \<noteq> Stage_Empty \<longrightarrow>
         (\<exists>build. calls s' = calls s @ save_calls world M @ map Simbody build @
                     [realizeTopology, State_setTime (integTime s)] @ restore_calls world @
                     [Integrator_initialize]) \<and>
         integTime s' = integTime s) \<and>
      (integStage s = Stage_Empty \<longrightarrow>
         (\<exists>build. calls s' = calls s @ map Simbody build @
                     [realizeTopology, Integrator_initialize]) \<and>
         integTime s' = defaultTime N)"
    proof (cases "integStage s \<noteq> Stage_Empty")
      case True
      with f(1) have p: "t = integTime s" "saved" "saveSimbodyStates N world M s = Inr s1"
        by (auto simp: saveBeforeRebuild_def seqE_eq_Inr)
      from saveSimbodyStates_Inr [OF p(3)]
      have c1: "calls s1 = calls s @ save_calls world M" by simp
      from f(5) p(2) obtain s4' where
        a: "invoke N (State_setTime t) s4 = Inr s4'" and
        r: "restoreSimbodyStates N world s4' = Inr s5"
        by (auto simp: seqE_eq_Inr)
      have c5: "calls s5 = calls s4 @ [State_setTime t] @ restore_calls world"
        using invoke_Inr [OF a] restoreSimbodyStates_Inr [OF r] by simp
      have "calls s' = calls s @ save_calls world M @ map Simbody build @
                     [realizeTopology, State_setTime (integTime s)] @ restore_calls world @
                     [Integrator_initialize]"
        using f(7) c6 c5 c4 n(1) b c1 p(1) by simp
      then have "\<exists>build. calls s' = calls s @ save_calls world M @ map Simbody build @
                     [realizeTopology, State_setTime (integTime s)] @ restore_calls world @
                     [Integrator_initialize]"
        by (rule exI)
      moreover have "integTime s' = integTime s" using f(8) p by simp
      ultimately show ?thesis using True by simp
    next
      case False
      with f(1) have p: "\<not> saved" "s1 = s"
        by (auto simp: saveBeforeRebuild_def)
      from f(5) p(1) have "s5 = s4" by simp
      then have "calls s' = calls s @ map Simbody build @
                     [realizeTopology, Integrator_initialize]"
        using f(7) c6 c4 n(1) b p(2) by simp
      then have "\<exists>build. calls s' = calls s @ map Simbody build @
                     [realizeTopology, Integrator_initialize]"
        by (rule exI)
      moreover have "integTime s' = defaultTime N" using f(8) p by simp
      ultimately show ?thesis using False by simp
    qed
  qed
next
  show "\<forall>mi\<in>set world. modelPtr mi \<noteq> modelPtr M \<longrightarrow>
      (\<forall>j\<in>set (GetJoints mi). Joint_SaveSimbodyState j \<in> set (save_calls world M)) \<and>
      (\<forall>l\<in>set (GetLinks mi). Link_SaveSimbodyState l \<in> set (save_calls world M))"
    by (auto simp: save_calls_def)
next
  show "\<forall>j. Joint_SaveSimbodyState j \<in> set (save_calls world M) \<longrightarrow>
        Joint_RestoreSimbodyState j \<in> set (restore_calls world)"
    by (auto simp: save_calls_def restore_calls_def split: if_splits)
next
  show "\<forall>l. Link_SaveSimbodyState l \<in> set (save_calls world M) \<longrightarrow>
        Link_RestoreSimbodyState l \<in> set (restore_calls world)"
    by (auto simp: save_calls_def restore_calls_def split: if_splits)
qed

theorem InitModel_saves_before_and_restores_after_witness:
  "(\<exists>s' build.
      InitModel no_throw world2 static2 physics3 = Inr s' \<and>
      calls s' = [Joint_SaveSimbodyState 0, Joint_SaveSimbodyState 1, Link_SaveSimbodyState 0] @
                 map Simbody build @
                 [realizeTopology, State_setTime 5,
                  Joint_RestoreSimbodyState 0, Joint_RestoreSimbodyState 1,
                  Link_RestoreSimbodyState 0, Link_RestoreSimbodyState 1,
                  Integrator_initialize] \<and>
      integTime s' = 5) \<and>
   (\<exists>s' build.
      InitModel no_throw world2 static2 physics4 = Inr s' \<and>
      calls s' = map Simbody build @ [realizeTopology, Integrator_initialize] \<and>
      integTime s' = 0) \<and>
   Joint_SaveSimbodyState 1 \<in> set (save_calls world2 static2) \<and>
   Link_SaveSimbodyState 0 \<in> set (save_calls world2 static2) \<and>
   Joint_RestoreSimbodyState 1 \<in> set (restore_calls world2) \<and>
   Link_RestoreSimbodyState 0 \<in> set (restore_calls world2)"
proof -
  note prior = InitModel_saves_before_and_restores_after [of no_throw world2 static2 physics3]
  note fresh = InitModel_saves_before_and_restores_after [of no_throw world2 static2 physics4]
  obtain s1 where r1: "InitModel no_throw world2 static2 physics3 = Inr s1"
    using InitModel_static_total [OF no_throw_throws scene_fields(8) plain_scenes(3,4)]
    by blast
  obtain s2 where r2: "InitModel no_throw world2 static2 physics4 = Inr s2"
    using InitModel_static_total [OF no_throw_throws scene_fields(8) plain_scenes(5,6)]
    by blast
  have f1: "(\<exists>build. calls s1 =
                 [Joint_SaveSimbodyState 0, Joint_SaveSimbodyState 1, Link_SaveSimbodyState 0] @
                 map Simbody build @
                 [realizeTopology, State_setTime 5,
                  Joint_RestoreSimbodyState 0, Joint_RestoreSimbodyState 1,
                  Link_RestoreSimbodyState 0, Link_RestoreSimbodyState 1,
                  Integrator_initialize]) \<and> integTime s1 = 5"
    using prior [THEN conjunct1, THEN spec, THEN mp, OF r1]
    by (simp add: scene_fields world2_calls)
  have f2: "(\<exists>build. calls s2 = map Simbody build @ [realizeTopology, Integrator_initialize]) \<and>
            integTime s2 = 0"
    using fresh [THEN conjunct1, THEN spec, THEN mp, OF r2]
    by (simp add: scene_fields)
  have m: "model1 \<in> set world2" "modelPtr model1 \<noteq> modelPtr static2"
    "1 \<in> set (GetJoints model1)" "0 \<in> set (GetLinks model1)"
    by (simp_all add: world2_def model1_def static2_def)
  from prior [THEN conjunct2, THEN conjunct1] m
  have f3: "Joint_SaveSimbodyState 1 \<in> set (save_calls world2 static2)"
    "Link_SaveSimbodyState 0 \<in> set (save_calls world2 static2)"
    by blast+
  from prior [THEN conjunct2, THEN conjunct2] f3
  have f4: "Joint_RestoreSimbodyState 1 \<in> set (restore_calls world2)"
    "Link_RestoreSimbodyState 0 \<in> set (restore_calls world2)"
    by blast+
  from r1 f1 have a: "\<exists>s' build.
      InitModel no_throw world2 static2 physics3 = Inr s' \<and>
      calls s' = [Joint_SaveSimbodyState 0, Joint_SaveSimbodyState 1, Link_SaveSimbodyState 0] @
                 map Simbody build @
                 [realizeTopology, State_setTime 5,
                  Joint_RestoreSimbodyState 0, Joint_RestoreSimbodyState 1,
                  Link_RestoreSimbodyState 0, Link_RestoreSimbodyState 1,
                  Integrator_initialize] \<and>
      integTime s' = 5"
    by blast
  from r2 f2 have b: "\<exists>s' build.
      InitModel no_throw world2 static2 physics4 = Inr s' \<and>
      calls s' = map Simbody build @ [realizeTopology, Integrator_initialize] \<and>
      integTime s' = 0"
    by blast
  from a b f3 f4 show ?thesis by (intro conjI)
qed

end
